theory Spec2Isabelle
  imports Complex_Main
begin

section \<open>PINT vertex search (ciftify\_PINT\_vertices.py): data model\<close>

text \<open>
  Python exceptions that the modelled code paths can raise. A function of the source that
  can raise returns \<open>error + 'a\<close>, with \<open>Inl\<close> for the exception.
\<close>

datatype error = IndexError | ValueError | TypeError | AttributeError | KeyError

text \<open>
  The \<open>hemi\<close> column of the seed table. The input schema allows the two values
  \<open>'L'\<close> and \<open>'R'\<close> only, and the source tests for exactly these two.
\<close>

datatype hemisphere = L | R

text \<open>
  A two-dimensional float array (\<open>func_data\<close>: one row per vertex, one column per
  timepoint). The column count is kept beside the rows because numpy knows it also when
  there is no row. Floats are idealised as reals; the two places where a NaN changes the
  control flow (the mean of no rows, \<open>np.argmax\<close>) are modelled below.
\<close>

record matrix =
  ncols :: nat
  mrows :: "real list list"

text \<open>\<open>np.vstack((func_dataL, func_dataR))\<close>: the column counts must agree.\<close>

definition vstack :: "matrix \<Rightarrow> matrix \<Rightarrow> error + matrix" where
  "vstack A B =
     (if ncols A = ncols B then Inr \<lparr>ncols = ncols A, mrows = mrows A @ mrows B\<rparr>
      else Inl ValueError)"

text \<open>\<open>M[:, j]\<close> for a non-negative \<open>j\<close>: IndexError when the array has no column \<open>j\<close>.\<close>

definition column :: "matrix \<Rightarrow> nat \<Rightarrow> error + real list" where
  "column M j = (if j < ncols M then Inr (map (\<lambda>r. r ! j) (mrows M)) else Inl IndexError)"

text \<open>\<open>np.where(c)[0]\<close> for a boolean vector: the indices where it holds, ascending.\<close>

definition np_where :: "('a \<Rightarrow> bool) \<Rightarrow> 'a list \<Rightarrow> nat list" where
  "np_where p xs = filter (\<lambda>i. p (xs ! i)) [0..<length xs]"

text \<open>
  \<open>func_zeros = np.where(func_data[:,5]<5)[0]\<close> (run\_PINT, line 96): the vertices
  flagged as signal dropout.
\<close>

definition calc_func_zeros :: "matrix \<Rightarrow> error + nat list" where
  "calc_func_zeros func_data =
     (case column func_data 5 of
        Inl e \<Rightarrow> Inl e
      | Inr c \<Rightarrow> Inr (np_where (\<lambda>x. x < 5) c))"


text \<open>
  Python index normalisation along an axis of length \<open>n\<close>: a negative index counts from
  the end, anything outside \<open>[-n, n)\<close> raises IndexError.
\<close>

definition py_index :: "nat \<Rightarrow> int \<Rightarrow> error + nat" where
  "py_index n i =
     (if 0 \<le> i \<and> i < int n then Inr (nat i)
      else if - int n \<le> i \<and> i < 0 then Inr (nat (int n + i))
      else Inl IndexError)"

text \<open>A loop body that can raise, run over a list of values (\<open>out[i] = f(x)\<close>).\<close>

fun emap :: "('a \<Rightarrow> error + 'b) \<Rightarrow> 'a list \<Rightarrow> error + 'b list" where
  "emap f [] = Inr []"
| "emap f (x # xs) =
     (case f x of
        Inl e \<Rightarrow> Inl e
      | Inr y \<Rightarrow> (case emap f xs of Inl e \<Rightarrow> Inl e | Inr ys \<Rightarrow> Inr (y # ys)))"

text \<open>A \<open>for\<close> loop over a list whose body updates a state and can raise.\<close>

fun for_each :: "('a \<Rightarrow> 's \<Rightarrow> error + 's) \<Rightarrow> 'a list \<Rightarrow> 's \<Rightarrow> error + 's" where
  "for_each body [] s = Inr s"
| "for_each body (x # xs) s =
     (case body x s of Inl e \<Rightarrow> Inl e | Inr s' \<Rightarrow> for_each body xs s')"

text \<open>\<open>M[idx, :]\<close> for an integer index array \<open>idx\<close>.\<close>

definition take_rows :: "matrix \<Rightarrow> int list \<Rightarrow> error + real list list" where
  "take_rows M idx =
     emap (\<lambda>i. case py_index (length (mrows M)) i of
                  Inl e \<Rightarrow> Inl e
                | Inr j \<Rightarrow> Inr (mrows M ! j)) idx"

text \<open>\<open>M[i, j]\<close> for two integer indices.\<close>

definition get2 :: "matrix \<Rightarrow> int \<Rightarrow> int \<Rightarrow> error + real" where
  "get2 M i j =
     (case py_index (length (mrows M)) i of
        Inl e \<Rightarrow> Inl e
      | Inr i' \<Rightarrow> (case py_index (ncols M) j of
                     Inl e \<Rightarrow> Inl e
                   | Inr j' \<Rightarrow> Inr (mrows M ! i' ! j')))"

text \<open>
  \<open>np.mean(rows, axis=0)\<close> of \<open>k\<close> rows with \<open>T\<close> columns. For \<open>k = 0\<close> numpy
  returns NaN in every column (with a warning); \<open>fseries\<close> keeps that case apart.
\<close>

datatype fseries = NaNs | Fin "real list"

definition mean_axis0 :: "nat \<Rightarrow> real list list \<Rightarrow> real list" where
  "mean_axis0 T rs = map (\<lambda>j. sum_list (map (\<lambda>r. r ! j) rs) / real (length rs)) [0..<T]"

definition np_mean_axis0 :: "nat \<Rightarrow> real list list \<Rightarrow> fseries" where
  "np_mean_axis0 T rs = (if rs = [] then NaNs else Fin (mean_axis0 T rs))"

text \<open>
  A correlation value as numpy returns it: a float, or NaN (a constant series, a NaN
  input). Comparisons with NaN are false, as in IEEE arithmetic.
\<close>

datatype score = NaN | Score real

fun score_le :: "score \<Rightarrow> score \<Rightarrow> bool" where
  "score_le (Score a) (Score b) = (a \<le> b)"
| "score_le _ _ = False"

text \<open>
  \<open>np.argmax\<close> on a float vector, after numpy's loop: the running maximum starts at
  element 0; a later element replaces it when \<open>not (x <= max)\<close>; the scan stops at the
  first NaN. So the first NaN wins, and otherwise the first occurrence of the maximum.
  An empty vector raises ValueError.
\<close>

fun argmax_loop :: "score list \<Rightarrow> nat \<Rightarrow> score \<Rightarrow> nat \<Rightarrow> nat" where
  "argmax_loop [] i mp max_ind = max_ind"
| "argmax_loop (x # xs) i mp max_ind =
     (if mp = NaN then max_ind
      else if \<not> score_le x mp then argmax_loop xs (i + 1) x i
      else argmax_loop xs (i + 1) mp max_ind)"

definition np_argmax :: "score list \<Rightarrow> error + nat" where
  "np_argmax xs = (case xs of [] \<Rightarrow> Inl ValueError | x # xs' \<Rightarrow> Inr (argmax_loop xs' 1 x 0))"

text \<open>\<open>np.unique\<close>: the distinct values, ascending.\<close>

definition np_unique :: "int list \<Rightarrow> int list" where
  "np_unique xs = sort (remdups xs)"

text \<open>\<open>Series.unique()\<close> of pandas: the distinct values in order of first appearance.\<close>

definition pd_unique :: "'a list \<Rightarrow> 'a list" where
  "pd_unique xs = rev (remdups (rev xs))"

text \<open>Python's \<open>max\<close> of a sequence: ValueError when it is empty.\<close>

definition py_max :: "real list \<Rightarrow> error + real" where
  "py_max xs = (case xs of [] \<Rightarrow> Inl ValueError | x # xs' \<Rightarrow> Inr (fold max xs' x))"

subsection \<open>The seed table\<close>

text \<open>
  The data frame \<open>df\<close>: one row per seed, row label = position (the RangeIndex of
  \<open>pd.read_csv\<close>). The columns \<open>hemi\<close>, \<open>NETWORK\<close>, \<open>roiidx\<close> are never written after
  set-up. The integer columns \<open>tvertex\<close>, \<open>avertex\<close>, \<open>ivertex\<close>, \<open>vertex_<k>\<close> and the
  float columns \<open>distance\<close>, \<open>dist_<k>\<close> are created while the run goes on; a column that
  does not exist yet is \<open>None\<close>, and reading it raises KeyError.
\<close>

datatype vcol = Tvertex | Avertex | Ivertex | Vertex nat

datatype dcol = Distance | Dist nat

record seed =
  hemi :: hemisphere
  NETWORK :: string
  roiidx :: int
  vcols :: "vcol \<Rightarrow> int option"
  dcols :: "dcol \<Rightarrow> real option"

type_synonym df = "seed list"

text \<open>\<open>df.loc[:, c] = v\<close>\<close>

definition set_vcol :: "vcol \<Rightarrow> int \<Rightarrow> df \<Rightarrow> df" where
  "set_vcol c v d = map (\<lambda>s. s\<lparr>vcols := (vcols s)(c \<mapsto> v)\<rparr>) d"

definition set_dcol :: "dcol \<Rightarrow> real \<Rightarrow> df \<Rightarrow> df" where
  "set_dcol c v d = map (\<lambda>s. s\<lparr>dcols := (dcols s)(c \<mapsto> v)\<rparr>) d"

text \<open>\<open>df.loc[idx, c] = v\<close> for a row label \<open>idx\<close> of the frame\<close>

definition put_vertex :: "nat \<Rightarrow> vcol \<Rightarrow> int \<Rightarrow> df \<Rightarrow> df" where
  "put_vertex idx c v d = d[idx := (d ! idx)\<lparr>vcols := (vcols (d ! idx))(c \<mapsto> v)\<rparr>]"

definition put_dist :: "nat \<Rightarrow> dcol \<Rightarrow> real \<Rightarrow> df \<Rightarrow> df" where
  "put_dist idx c v d = d[idx := (d ! idx)\<lparr>dcols := (dcols (d ! idx))(c \<mapsto> v)\<rparr>]"

text \<open>\<open>df.loc[idx, c]\<close>: KeyError for a row label or a column that the frame does not have.\<close>

definition get_vertex :: "df \<Rightarrow> nat \<Rightarrow> vcol \<Rightarrow> error + int" where
  "get_vertex d idx c =
     (if idx < length d then (case vcols (d ! idx) c of None \<Rightarrow> Inl KeyError | Some v \<Rightarrow> Inr v)
      else Inl KeyError)"

text \<open>\<open>df[c]\<close> as a list of values.\<close>

definition get_vcol :: "df \<Rightarrow> vcol \<Rightarrow> error + int list" where
  "get_vcol d c =
     emap (\<lambda>s. case vcols s c of None \<Rightarrow> Inl KeyError | Some v \<Rightarrow> Inr v) d"

definition get_dcol :: "df \<Rightarrow> dcol \<Rightarrow> error + real list" where
  "get_dcol d c =
     emap (\<lambda>s. case dcols s c of None \<Rightarrow> Inl KeyError | Some v \<Rightarrow> Inr v) d"

subsection \<open>External collaborators and configuration\<close>

text \<open>
  What the code calls but does not implement is a parameter of the model:
  \<^item> \<open>nverts h\<close>: the number of vertices of the surface of hemisphere \<open>h\<close>
    (\<open>surfL\<close>, \<open>surfR\<close>);
  \<^item> \<open>geodesic_roi h radius vertex_list j v\<close>: the entry at vertex \<open>v\<close>, column \<open>j\<close> of
    the metric file that \<open>wb_command -surface-geodesic-rois ... -overlap-logic EXCLUDE\<close>
    writes for the vertex list (one column per listed vertex; 1 inside the disk, else 0),
    as \<open>load_gii_data\<close> returns it;
  \<^item> \<open>geodesic_distance h orig radius target\<close>: \<open>get_surf_distances(surf, orig,
    radius_search)[target, 0]\<close>;
  \<^item> \<open>np_corrcoef x y\<close>: \<open>np.corrcoef(x, y)[0][1]\<close>;
  \<^item> \<open>lstsq Z x\<close>: \<open>scipy.linalg.lstsq(Z, x)[0]\<close>, which can raise; \<open>Z\<close> is given by
    its columns;
  \<^item> \<open>pearsonr x y\<close>: \<open>scipy.stats.pearsonr(x, y)[0]\<close>;
  \<^item> \<open>shuffle k xs\<close>: the order that \<open>random.shuffle\<close> leaves in sweep \<open>k\<close>;
  \<^item> \<open>float_index_error\<close>: whether numpy rejects a float array as an index (IndexError,
    numpy 1.12 and later) or accepts it with a warning (earlier releases). The source
    builds the empty index array \<open>np.array([]) - 1\<close>, of dtype float, for a seed that is
    alone in its network.
\<close>

record env =
  nverts :: "hemisphere \<Rightarrow> nat"
  geodesic_roi :: "hemisphere \<Rightarrow> real \<Rightarrow> int list \<Rightarrow> nat \<Rightarrow> nat \<Rightarrow> int"
  geodesic_distance :: "hemisphere \<Rightarrow> int \<Rightarrow> real \<Rightarrow> int \<Rightarrow> real"
  np_corrcoef :: "fseries \<Rightarrow> real list \<Rightarrow> score"
  lstsq :: "real list list \<Rightarrow> fseries \<Rightarrow> error + real list"
  pearsonr :: "fseries \<Rightarrow> fseries \<Rightarrow> score"
  shuffle :: "nat \<Rightarrow> nat list \<Rightarrow> nat list"
  float_index_error :: bool

text \<open>The run-wide radii (module globals in the source).\<close>

record config =
  RADIUS_SAMPLING :: real
  RADIUS_SEARCH :: real
  RADIUS_PADDING :: real


section \<open>The operations of the source\<close>

subsection \<open>Distances\<close>

text \<open>
  \<open>calc_surf_distance\<close> (lines 186-198): identical indices give 0 without any call of
  the geometry provider.
\<close>

definition calc_surf_distance :: "env \<Rightarrow> hemisphere \<Rightarrow> int \<Rightarrow> int \<Rightarrow> real \<Rightarrow> real" where
  "calc_surf_distance E surf orig_vertex target_vertex radius_search =
     (if orig_vertex = target_vertex then 0
      else geodesic_distance E surf orig_vertex radius_search target_vertex)"

text \<open>
  \<open>calc_distance_column\<close> (lines 200-213): the column is created with -99.9, then
  every row gets the distance on the surface of its own hemisphere. For a frame without
  rows the assignment of line 202 raises ValueError (pandas cannot set a scalar on a frame
  with no index).
\<close>

definition distance_row ::
  "env \<Rightarrow> vcol \<Rightarrow> vcol \<Rightarrow> dcol \<Rightarrow> real \<Rightarrow> nat \<Rightarrow> df \<Rightarrow> error + df" where
  "distance_row E orig_vertex_col target_vertex_col distance_outcol radius_search idx d =
     (case get_vertex d idx orig_vertex_col of
        Inl e \<Rightarrow> Inl e
      | Inr orig_vertex \<Rightarrow>
          (case get_vertex d idx target_vertex_col of
             Inl e \<Rightarrow> Inl e
           | Inr target_vertex \<Rightarrow>
               (case hemi (d ! idx) of
                  L \<Rightarrow> Inr (put_dist idx distance_outcol
                              (calc_surf_distance E L orig_vertex target_vertex radius_search) d)
                | R \<Rightarrow> Inr (put_dist idx distance_outcol
                              (calc_surf_distance E R orig_vertex target_vertex radius_search) d))))"

definition calc_distance_column ::
  "env \<Rightarrow> df \<Rightarrow> vcol \<Rightarrow> vcol \<Rightarrow> dcol \<Rightarrow> real \<Rightarrow> error + df" where
  "calc_distance_column E d orig_vertex_col target_vertex_col distance_outcol radius_search =
     (if d = [] then Inl ValueError
      else for_each
             (distance_row E orig_vertex_col target_vertex_col distance_outcol radius_search)
             [0..<length d] (set_dcol distance_outcol (-99.9) d))"

subsection \<open>Region Builder\<close>

text \<open>
  \<open>roi_surf_data\<close> (lines 215-238). Line 224 looks the column up in the whole frame
  (KeyError when the frame does not have it, also for a hemisphere without seeds) and keeps
  the rows of the hemisphere. The provider's 0/1 columns are multiplied by the labels of
  the hemisphere's seeds and reduced with \<open>np.max(axis=1)\<close>, which raises ValueError when
  the hemisphere has no seed (no column to reduce).
\<close>

definition roi_surf_data :: "env \<Rightarrow> df \<Rightarrow> vcol \<Rightarrow> hemisphere \<Rightarrow> real \<Rightarrow> error + int list" where
  "roi_surf_data E d vertex_colname hemisphere roi_radius =
     (case get_vcol d vertex_colname of
        Inl e \<Rightarrow> Inl e
      | Inr vertices \<Rightarrow>
     (case get_vcol (filter (\<lambda>s. hemi s = hemisphere) d) vertex_colname of
        Inl e \<Rightarrow> Inl e
      | Inr vertex_list \<Rightarrow>
          (let vlabels = map roiidx (filter (\<lambda>s. hemi s = hemisphere) d)
           in if vlabels = [] then Inl ValueError
              else Inr (map (\<lambda>v. Max (set (map (\<lambda>j. geodesic_roi E hemisphere roi_radius
                                                        vertex_list j v * vlabels ! j)
                                              [0..<length vlabels])))
                          [0..<nverts E hemisphere]))))"

text \<open>\<open>rois_bilateral\<close> (lines 240-247): left block first, as in \<open>func_data\<close>.\<close>

definition rois_bilateral :: "env \<Rightarrow> df \<Rightarrow> vcol \<Rightarrow> real \<Rightarrow> error + int list" where
  "rois_bilateral E d vertex_colname roi_radius =
     (case roi_surf_data E d vertex_colname L roi_radius of
        Inl e \<Rightarrow> Inl e
      | Inr rois_L \<Rightarrow>
          (case roi_surf_data E d vertex_colname R roi_radius of
             Inl e \<Rightarrow> Inl e
           | Inr rois_R \<Rightarrow> Inr (rois_L @ rois_R)))"

text \<open>
  \<open>mask[func_zeros] = 0\<close>: assignment through an index array; IndexError when an index is
  beyond the mask.
\<close>

definition zero_at :: "nat list \<Rightarrow> int list \<Rightarrow> error + int list" where
  "zero_at func_zeros rois =
     (if list_all (\<lambda>v. v < length rois) func_zeros
      then Inr (fold (\<lambda>v m. m[v := 0]) func_zeros rois)
      else Inl IndexError)"

subsection \<open>Aggregator\<close>

text \<open>
  \<open>calc_sampling_meants\<close> (lines 261-278): \<open>rois = np.unique(mask)[1:]\<close> drops the
  smallest value of the mask, whatever it is; each remaining value gets one row, the mean
  of the rows of \<open>func_data\<close> that carry it.
\<close>

definition mask_rois :: "int list \<Rightarrow> int list" where
  "mask_rois sampling_roi_mask = drop 1 (np_unique sampling_roi_mask)"

definition roi_meants :: "matrix \<Rightarrow> int list \<Rightarrow> int \<Rightarrow> error + real list" where
  "roi_meants func_data sampling_roi_mask roi =
     (case take_rows func_data (map int (np_where (\<lambda>l. l = roi) sampling_roi_mask)) of
        Inl e \<Rightarrow> Inl e
      | Inr rs \<Rightarrow> Inr (mean_axis0 (ncols func_data) rs))"

definition calc_sampling_meants :: "matrix \<Rightarrow> int list \<Rightarrow> error + matrix" where
  "calc_sampling_meants func_data sampling_roi_mask =
     (case emap (roi_meants func_data sampling_roi_mask) (mask_rois sampling_roi_mask) of
        Inl e \<Rightarrow> Inl e
      | Inr out_data \<Rightarrow> Inr \<lparr>ncols = ncols func_data, mrows = out_data\<rparr>)"

text \<open>\<open>df[df.NETWORK == network].roiidx.tolist()\<close>\<close>

definition network_labels :: "df \<Rightarrow> string \<Rightarrow> int list" where
  "network_labels d network = map roiidx (filter (\<lambda>s. NETWORK s = network) d)"

text \<open>
  \<open>calc_network_meants\<close> (lines 249-259): one column per network, in order of first
  appearance; the rows of the sampling means are addressed by \<open>roiidx - 1\<close>.
\<close>

definition calc_network_meants :: "matrix \<Rightarrow> df \<Rightarrow> error + (string \<times> real list) list" where
  "calc_network_meants sampling_meants d =
     emap (\<lambda>network.
             case take_rows sampling_meants (map (\<lambda>l. l - 1) (network_labels d network)) of
               Inl e \<Rightarrow> Inl e
             | Inr rs \<Rightarrow> Inr (network, mean_axis0 (ncols sampling_meants) rs))
          (pd_unique (map NETWORK d))"

subsection \<open>Objective Evaluator\<close>

text \<open>
  \<open>partial_corr\<close> (lines 281-334). \<open>Z\<close> is given by its columns, so \<open>Z.dot(beta)\<close>
  at timepoint \<open>t\<close> is the sum of \<open>Z[j][t] * beta[j]\<close>. A NaN series stays NaN under
  subtraction.
\<close>

definition Z_dot :: "nat \<Rightarrow> real list list \<Rightarrow> real list \<Rightarrow> real list" where
  "Z_dot T Z beta = map (\<lambda>t. sum_list (map2 (\<lambda>c b. c ! t * b) Z beta)) [0..<T]"

fun residual :: "fseries \<Rightarrow> real list \<Rightarrow> fseries" where
  "residual NaNs fit = NaNs"
| "residual (Fin x) fit = Fin (map2 (\<lambda>a b. a - b) x fit)"

definition partial_corr :: "env \<Rightarrow> nat \<Rightarrow> fseries \<Rightarrow> fseries \<Rightarrow> real list list \<Rightarrow> error + score" where
  "partial_corr E T X Y Z =
     (case lstsq E Z X of
        Inl e \<Rightarrow> Inl e
      | Inr beta_x \<Rightarrow>
          (case lstsq E Z Y of
             Inl e \<Rightarrow> Inl e
           | Inr beta_y \<Rightarrow>
               (let res_x = residual X (Z_dot T Z beta_x);
                    res_y = residual Y (Z_dot T Z beta_y)
                in Inr (pearsonr E res_x res_y))))"

text \<open>
  Lines 356-358 of \<open>pint_move_vertex\<close>: the labels of the other seeds of the network
  (a Python set, so without duplicates; its iteration order does not matter to a mean of
  reals), and the mean of their rows of the sampling means, addressed by \<open>label - 1\<close>.
  With no other seed the index array is the empty float array.
\<close>

definition other_labels :: "df \<Rightarrow> string \<Rightarrow> int \<Rightarrow> int list" where
  "other_labels d network vlabel =
     remdups (filter (\<lambda>l. l \<noteq> vlabel) (network_labels d network))"

definition network_target :: "env \<Rightarrow> matrix \<Rightarrow> df \<Rightarrow> string \<Rightarrow> int \<Rightarrow> error + fseries" where
  "network_target E sampling_meants d network vlabel =
     (let netlabels = other_labels d network vlabel
      in if netlabels = []
         then (if float_index_error E then Inl IndexError else Inr NaNs)
         else (case take_rows sampling_meants (map (\<lambda>l. l - 1) netlabels) of
                 Inl e \<Rightarrow> Inl e
               | Inr rs \<Rightarrow> Inr (np_mean_axis0 (ncols sampling_meants) rs)))"

text \<open>
  Lines 362-364: the search space is the intersection of the vertices that the search mask
  and the padding mask give to this seed (\<open>np.intersect1d\<close> of two ascending index
  arrays: ascending).
\<close>

definition search_space :: "int list \<Rightarrow> int list \<Rightarrow> int \<Rightarrow> nat list" where
  "search_space search_rois padding_rois vlabel =
     (let idx_search = np_where (\<lambda>l. l = vlabel) search_rois;
          idx_pad = np_where (\<lambda>l. l = vlabel) padding_rois
      in filter (\<lambda>v. v \<in> set idx_pad) idx_search)"

text \<open>
  Lines 376-384, one pass of the loop: the correlation of the target with the time series
  of vertex \<open>v\<close>, stored at \<open>seed_corrs[v]\<close>. In partial mode the columns of the other
  networks are selected from \<open>netmeants\<close> with a Python set of names; they are taken here
  in the order of the frame.
\<close>

definition score_vertex ::
  "env \<Rightarrow> bool \<Rightarrow> matrix \<Rightarrow> fseries \<Rightarrow> (string \<times> real list) list option \<Rightarrow> string \<Rightarrow>
   nat \<Rightarrow> score list \<Rightarrow> error + score list" where
  "score_vertex E pcorr func_data meants netmeants network v seed_corrs =
     (if pcorr then
        (case netmeants of
           None \<Rightarrow> Inl AttributeError
         | Some nm \<Rightarrow>
             (let o_networks = filter (\<lambda>c. fst c \<noteq> network) nm
              in if v < length (mrows func_data)
                 then (case partial_corr E (ncols func_data) meants (Fin (mrows func_data ! v))
                              (map snd o_networks) of
                         Inl e \<Rightarrow> Inl e
                       | Inr r \<Rightarrow> Inr (seed_corrs[v := r]))
                 else Inl IndexError))
      else
        (if v < length (mrows func_data)
         then Inr (seed_corrs[v := np_corrcoef E meants (mrows func_data ! v)])
         else Inl IndexError))"

text \<open>\<open>pint_move_vertex\<close> (lines 336-391).\<close>

definition pint_move_vertex ::
  "env \<Rightarrow> df \<Rightarrow> nat \<Rightarrow> vcol \<Rightarrow> vcol \<Rightarrow> matrix \<Rightarrow> matrix \<Rightarrow> int list \<Rightarrow> int list \<Rightarrow> bool \<Rightarrow> nat \<Rightarrow>
   (string \<times> real list) list option \<Rightarrow> error + df" where
  "pint_move_vertex E d idx vertex_incol vertex_outcol func_data sampling_meants
       search_rois padding_rois pcorr num_Lverts netmeants =
     (if \<not> idx < length d then Inl KeyError
      else
        let vlabel = roiidx (d ! idx);
            network = NETWORK (d ! idx);
            hemi_idx = hemi (d ! idx)
        in case get_vertex d idx vertex_incol of
             Inl e \<Rightarrow> Inl e
           | Inr orig_vertex \<Rightarrow>
               (case network_target E sampling_meants d network vlabel of
                  Inl e \<Rightarrow> Inl e
                | Inr meants \<Rightarrow>
                    (let idx_mask = search_space search_rois padding_rois vlabel
                     in if idx_mask = [] then Inr (put_vertex idx vertex_outcol orig_vertex d)
                        else
                          (case for_each (score_vertex E pcorr func_data meants netmeants network)
                                  idx_mask (replicate (length (mrows func_data)) (Score (-1))) of
                             Inl e \<Rightarrow> Inl e
                           | Inr seed_corrs \<Rightarrow>
                               (case np_argmax seed_corrs of
                                  Inl e \<Rightarrow> Inl e
                                | Inr peakvert \<Rightarrow>
                                    Inr (put_vertex idx vertex_outcol
                                          (if hemi_idx = R then int peakvert - int num_Lverts
                                           else int peakvert) d))))))"


subsection \<open>Iteration Controller\<close>

text \<open>
  Lines 414-423 of \<open>iterate_pint\<close>: the three masks of a sweep. The sampling mask and
  the search mask are zeroed at \<open>func_zeros\<close>; the padding mask is used as the Region
  Builder returns it.
\<close>

definition sweep_masks ::
  "env \<Rightarrow> config \<Rightarrow> df \<Rightarrow> vcol \<Rightarrow> nat list \<Rightarrow> error + (int list \<times> int list \<times> int list)" where
  "sweep_masks E cfg d vertex_incol func_zeros =
     (case rois_bilateral E d vertex_incol (RADIUS_SAMPLING cfg) of
        Inl e \<Rightarrow> Inl e
      | Inr sampling_rois0 \<Rightarrow>
      (case zero_at func_zeros sampling_rois0 of
        Inl e \<Rightarrow> Inl e
      | Inr sampling_rois \<Rightarrow>
      (case rois_bilateral E d vertex_incol (RADIUS_SEARCH cfg) of
        Inl e \<Rightarrow> Inl e
      | Inr search_rois0 \<Rightarrow>
      (case zero_at func_zeros search_rois0 of
        Inl e \<Rightarrow> Inl e
      | Inr search_rois \<Rightarrow>
      (case rois_bilateral E d vertex_incol (RADIUS_PADDING cfg) of
        Inl e \<Rightarrow> Inl e
      | Inr padding_rois \<Rightarrow> Inr (sampling_rois, search_rois, padding_rois))))))"

text \<open>
  Lines 434-441: every seed is moved once, in the order that \<open>random.shuffle\<close> left.
\<close>

definition move_all ::
  "env \<Rightarrow> nat list \<Rightarrow> vcol \<Rightarrow> vcol \<Rightarrow> matrix \<Rightarrow> matrix \<Rightarrow> int list \<Rightarrow> int list \<Rightarrow> bool \<Rightarrow> nat \<Rightarrow>
   (string \<times> real list) list option \<Rightarrow> df \<Rightarrow> error + df" where
  "move_all E thisorder vertex_incol vertex_outcol func_data sampling_meants
       search_rois padding_rois pcorr num_Lverts netmeants d =
     for_each (\<lambda>idx d'. pint_move_vertex E d' idx vertex_incol vertex_outcol func_data
                           sampling_meants search_rois padding_rois pcorr num_Lverts netmeants)
       thisorder d"

text \<open>
  Lines 409-412: the two columns of sweep \<open>iter_num\<close>, \<open>vertex_<iter_num>\<close> and
  \<open>dist_<iter_num>\<close>, are created with -999 and -99.9.
\<close>

definition new_columns :: "nat \<Rightarrow> df \<Rightarrow> df" where
  "new_columns iter_num d = set_dcol (Dist iter_num) (-99.9) (set_vcol (Vertex iter_num) (-999) d)"

text \<open>
  The body of the \<open>while\<close> loop (lines 409-451) for sweep \<open>iter_num\<close>: the new frame
  and the sweep's \<open>max_distance\<close>.
\<close>

definition sweep ::
  "env \<Rightarrow> config \<Rightarrow> matrix \<Rightarrow> nat list \<Rightarrow> bool \<Rightarrow> nat \<Rightarrow> nat \<Rightarrow> vcol \<Rightarrow> df \<Rightarrow> error + (df \<times> real)" where
  "sweep E cfg func_data func_zeros pcorr num_Lverts iter_num vertex_incol d =
     (let vertex_outcol = Vertex iter_num;
          distance_outcol = Dist iter_num;
          d1 = new_columns iter_num d
      in case sweep_masks E cfg d1 vertex_incol func_zeros of
        Inl e \<Rightarrow> Inl e
      | Inr (sampling_rois, search_rois, padding_rois) \<Rightarrow>
      (case calc_sampling_meants func_data sampling_rois of
        Inl e \<Rightarrow> Inl e
      | Inr sampling_meants \<Rightarrow>
      (case (if pcorr
             then (case calc_network_meants sampling_meants d1 of
                     Inl e \<Rightarrow> Inl e
                   | Inr nm \<Rightarrow> Inr (Some nm))
             else Inr None) of
        Inl e \<Rightarrow> Inl e
      | Inr netmeants \<Rightarrow>
      (case move_all E (shuffle E iter_num [0..<length d1]) vertex_incol vertex_outcol func_data
              sampling_meants search_rois padding_rois pcorr num_Lverts netmeants d1 of
        Inl e \<Rightarrow> Inl e
      | Inr d2 \<Rightarrow>
      (case calc_distance_column E d2 vertex_incol vertex_outcol distance_outcol
              (RADIUS_SEARCH cfg) of
        Inl e \<Rightarrow> Inl e
      | Inr d3 \<Rightarrow>
      (case get_dcol d3 distance_outcol of
        Inl e \<Rightarrow> Inl e
      | Inr dists \<Rightarrow>
      (case py_max dists of
        Inl e \<Rightarrow> Inl e
      | Inr max_distance \<Rightarrow> Inr (d3, max_distance))))))))"

text \<open>
  The \<open>while\<close> loop of \<open>iterate_pint\<close> (line 408). It returns the frame, the last
  \<open>max_distance\<close>, \<open>vertex_incol\<close> (which line 450 sets to the last \<open>vertex_outcol\<close>)
  and \<open>iter_num\<close>.
\<close>

function pint_loop ::
  "env \<Rightarrow> config \<Rightarrow> matrix \<Rightarrow> nat list \<Rightarrow> bool \<Rightarrow> nat \<Rightarrow> nat \<Rightarrow> nat \<Rightarrow> real \<Rightarrow> vcol \<Rightarrow> df \<Rightarrow>
   error + (df \<times> real \<times> vcol \<times> nat)" where
  "pint_loop E cfg func_data func_zeros pcorr num_Lverts start_iter iter_num max_distance
       vertex_incol d =
     (if iter_num < start_iter + 50 \<and> max_distance > 1 then
        (case sweep E cfg func_data func_zeros pcorr num_Lverts iter_num vertex_incol d of
           Inl e \<Rightarrow> Inl e
         | Inr r \<Rightarrow>
             pint_loop E cfg func_data func_zeros pcorr num_Lverts start_iter (iter_num + 1)
               (snd r) (Vertex iter_num) (fst r))
      else Inr (d, max_distance, vertex_incol, iter_num))"
  by pat_completeness auto
termination
  by (relation "measure (\<lambda>(E, cfg, func_data, func_zeros, pcorr, num_Lverts, start_iter,
                            iter_num, max_distance, vertex_incol, d). start_iter + 50 - iter_num)")
     auto

declare pint_loop.simps [simp del]

text \<open>\<open>df.loc[:, c] = values\<close>\<close>

definition assign_vcol :: "vcol \<Rightarrow> int list \<Rightarrow> df \<Rightarrow> df" where
  "assign_vcol c vs d = map2 (\<lambda>s v. s\<lparr>vcols := (vcols s)(c \<mapsto> v)\<rparr>) d vs"

text \<open>
  \<open>iterate_pint\<close> (lines 393-458). The loop body runs at least once (\<open>max_distance\<close>
  starts at 10), so after the loop \<open>vertex_outcol\<close> is the value that line 450 copied
  into \<open>vertex_incol\<close> and \<open>distance_outcol\<close> is \<open>dist_<iter_num - 1>\<close>. The final
  distance is measured from the template vertex with radius 150.
\<close>

definition iterate_pint ::
  "env \<Rightarrow> config \<Rightarrow> df \<Rightarrow> vcol \<Rightarrow> matrix \<Rightarrow> nat list \<Rightarrow> bool \<Rightarrow> nat \<Rightarrow> nat \<Rightarrow>
   error + (df \<times> real \<times> dcol \<times> nat)" where
  "iterate_pint E cfg d vertex_incol func_data func_zeros pcorr num_Lverts start_iter =
     (case pint_loop E cfg func_data func_zeros pcorr num_Lverts start_iter start_iter 10
             vertex_incol d of
        Inl e \<Rightarrow> Inl e
      | Inr (d1, max_distance, vertex_outcol, iter_num) \<Rightarrow>
      (case get_vcol d1 vertex_outcol of
        Inl e \<Rightarrow> Inl e
      | Inr vs \<Rightarrow>
      (case calc_distance_column E (assign_vcol Ivertex vs d1) Tvertex Ivertex Distance 150 of
        Inl e \<Rightarrow> Inl e
      | Inr d2 \<Rightarrow> Inr (d2, max_distance, Dist (iter_num - 1), iter_num))))"

subsection \<open>The run\<close>

text \<open>
  The command-line arguments with the files already loaded: the functional data as
  \<open>load_surfaces\<close> returns it (left and right block), the template table as
  \<open>pd.read_csv\<close> returns it (with a flag for the optional \<open>roiidx\<close> column), and the
  optional limits file, again as a left and a right block.
\<close>

record arguments =
  func :: "matrix \<times> matrix"
  origcsv :: df
  csv_has_roiidx :: bool
  pcorr_opt :: bool
  radii :: config
  roi_limits_file :: "(matrix \<times> matrix) option"

text \<open>
  Lines 82-83: with a limits file the log call evaluates
  \<open>'...{}'.roi_limits_file\<close>, an attribute that \<open>str\<close> does not have.
\<close>

definition log_arguments :: "arguments \<Rightarrow> error + unit" where
  "log_arguments args =
     (case roi_limits_file args of None \<Rightarrow> Inr () | Some f \<Rightarrow> Inl AttributeError)"

text \<open>Lines 88-90: sequential \<open>roiidx\<close> from 1 when the table has no such column.\<close>

definition load_df :: "arguments \<Rightarrow> df" where
  "load_df args =
     (if csv_has_roiidx args then origcsv args
      else map2 (\<lambda>s i. s\<lparr>roiidx := i\<rparr>) (origcsv args) [1..int (length (origcsv args))])"

text \<open>
  Lines 120-129, one pass: the optimized vertex is looked up in the limits array at the
  column of the row label.
\<close>

definition limits_row :: "matrix \<Rightarrow> nat \<Rightarrow> nat \<Rightarrow> df \<times> bool \<Rightarrow> error + (df \<times> bool)" where
  "limits_row limits num_limLverts i st =
     (case get_vertex (fst st) i Ivertex of
        Inl e \<Rightarrow> Inl e
      | Inr ivertex \<Rightarrow>
      (let thisivertex = (if hemi (fst st ! i) = R then ivertex + int num_limLverts else ivertex)
       in case get2 limits thisivertex (int i) of
        Inl e \<Rightarrow> Inl e
      | Inr x \<Rightarrow>
          if x > 0 then Inr (put_vertex i Avertex ivertex (fst st), snd st)
          else (case get_vertex (fst st) i Tvertex of
                  Inl e \<Rightarrow> Inl e
                | Inr tvertex \<Rightarrow> Inr (put_vertex i Avertex tvertex (fst st), False))))"

text \<open>
  Lines 112-135. When a seed is outside its limits, line 132 calls
  \<open>iterate_pint(df, 'avertex', func_data, func_zeros, pcorr, num_Lverts, start_iter = 50)\<close>:
  six positional arguments for the eight required parameters of line 393
  (\<open>surfL\<close> and \<open>surfR\<close> are left out), so Python raises TypeError before the body of
  \<open>iterate_pint\<close> runs.
\<close>

definition reconcile ::
  "matrix \<times> matrix \<Rightarrow> df \<times> real \<times> dcol \<times> nat \<Rightarrow> error + (df \<times> real \<times> dcol \<times> nat)" where
  "reconcile limitsLR res =
     (case vstack (fst limitsLR) (snd limitsLR) of
        Inl e \<Rightarrow> Inl e
      | Inr limits \<Rightarrow>
      (case for_each (limits_row limits (length (mrows (fst limitsLR))))
              [0..<length (fst res)] (set_vcol Avertex (-99) (fst res), True) of
        Inl e \<Rightarrow> Inl e
      | Inr st \<Rightarrow>
          if \<not> snd st then Inl TypeError
          else Inr (fst st, snd res)))"

text \<open>
  Lines 148-156: the mean time series of the sampling regions around one column of
  positions.
\<close>

definition output_meants :: "env \<Rightarrow> config \<Rightarrow> df \<Rightarrow> vcol \<Rightarrow> matrix \<Rightarrow> nat list \<Rightarrow> error + matrix" where
  "output_meants E cfg d c func_data func_zeros =
     (case rois_bilateral E d c (RADIUS_SAMPLING cfg) of
        Inl e \<Rightarrow> Inl e
      | Inr sampling_rois0 \<Rightarrow>
      (case zero_at func_zeros sampling_rois0 of
        Inl e \<Rightarrow> Inl e
      | Inr sampling_rois \<Rightarrow> calc_sampling_meants func_data sampling_rois))"

text \<open>
  \<open>run_PINT\<close> (lines 50-158). The result is what the run writes: the summary frame
  with \<open>max_distance\<close>, the last distance column and \<open>iter_num\<close>, and the two tables
  of mean time series.
\<close>

definition run_PINT ::
  "env \<Rightarrow> arguments \<Rightarrow> error + ((df \<times> real \<times> dcol \<times> nat) \<times> matrix \<times> matrix)" where
  "run_PINT E args =
     (case log_arguments args of
        Inl e \<Rightarrow> Inl e
      | Inr u \<Rightarrow>
      (let d = load_df args;
           func_dataL = fst (func args);
           func_dataR = snd (func args);
           num_Lverts = length (mrows func_dataL)
       in case vstack func_dataL func_dataR of
        Inl e \<Rightarrow> Inl e
      | Inr func_data \<Rightarrow>
      (case calc_func_zeros func_data of
        Inl e \<Rightarrow> Inl e
      | Inr func_zeros \<Rightarrow>
      (case iterate_pint E (radii args) d Tvertex func_data func_zeros (pcorr_opt args)
              num_Lverts 0 of
        Inl e \<Rightarrow> Inl e
      | Inr res \<Rightarrow>
      (case (case roi_limits_file args of
               None \<Rightarrow> Inr res
             | Some limitsLR \<Rightarrow> reconcile limitsLR res) of
        Inl e \<Rightarrow> Inl e
      | Inr res' \<Rightarrow>
      (case output_meants E (radii args) (fst res') Tvertex func_data func_zeros of
        Inl e \<Rightarrow> Inl e
      | Inr tvertex_meants \<Rightarrow>
      (case output_meants E (radii args) (fst res') Ivertex func_data func_zeros of
        Inl e \<Rightarrow> Inl e
      | Inr ivertex_meants \<Rightarrow> Inr (res', tvertex_meants, ivertex_meants))))))))"

section \<open>Proof vocabulary\<close>

text \<open>
  The value that \<open>pint_move_vertex\<close> writes into \<open>vertex_outcol\<close> for the seed of row
  \<open>idx\<close>: the body of lines 351-388 without the two assignments to the frame.
\<close>

definition new_vertex ::
  "env \<Rightarrow> df \<Rightarrow> nat \<Rightarrow> vcol \<Rightarrow> matrix \<Rightarrow> matrix \<Rightarrow> int list \<Rightarrow> int list \<Rightarrow> bool \<Rightarrow> nat \<Rightarrow>
   (string \<times> real list) list option \<Rightarrow> error + int" where
  "new_vertex E d idx vertex_incol func_data sampling_meants search_rois padding_rois pcorr
       num_Lverts netmeants =
     (if \<not> idx < length d then Inl KeyError
      else
        case get_vertex d idx vertex_incol of
          Inl e \<Rightarrow> Inl e
        | Inr orig_vertex \<Rightarrow>
            (case network_target E sampling_meants d (NETWORK (d ! idx)) (roiidx (d ! idx)) of
               Inl e \<Rightarrow> Inl e
             | Inr meants \<Rightarrow>
                 (if search_space search_rois padding_rois (roiidx (d ! idx)) = []
                  then Inr orig_vertex
                  else
                    (case for_each (score_vertex E pcorr func_data meants netmeants
                                      (NETWORK (d ! idx)))
                            (search_space search_rois padding_rois (roiidx (d ! idx)))
                            (replicate (length (mrows func_data)) (Score (-1))) of
                       Inl e \<Rightarrow> Inl e
                     | Inr seed_corrs \<Rightarrow>
                         (case np_argmax seed_corrs of
                            Inl e \<Rightarrow> Inl e
                          | Inr peakvert \<Rightarrow>
                              Inr (if hemi (d ! idx) = R then int peakvert - int num_Lverts
                                   else int peakvert))))))"

text \<open>
  The frame after the seeds of the rows in \<open>S\<close> were given the positions \<open>f\<close> in column
  \<open>c\<close>; it does not mention any order of the writes.
\<close>

definition moved :: "vcol \<Rightarrow> nat set \<Rightarrow> (nat \<Rightarrow> int) \<Rightarrow> df \<Rightarrow> df" where
  "moved c S f d =
     map (\<lambda>i. if i \<in> S then (d ! i)\<lparr>vcols := (vcols (d ! i))(c \<mapsto> f i)\<rparr> else d ! i)
       [0..<length d]"

text \<open>\<open>max(df[c])\<close> for a float column \<open>c\<close> (line 448).\<close>

definition col_max :: "df \<Rightarrow> dcol \<Rightarrow> error + real" where
  "col_max d c = (case get_dcol d c of Inl e \<Rightarrow> Inl e | Inr xs \<Rightarrow> py_max xs)"

text \<open>The frame has the integer column \<open>c\<close>.\<close>

definition has_vcol :: "vcol \<Rightarrow> df \<Rightarrow> bool" where
  "has_vcol c d = list_all (\<lambda>s. vcols s c \<noteq> None) d"

text \<open>
  The distance that \<open>calc_distance_column\<close> writes for a row, and the row with that
  distance in column \<open>c\<close>.
\<close>

definition row_distance :: "env \<Rightarrow> vcol \<Rightarrow> vcol \<Rightarrow> real \<Rightarrow> seed \<Rightarrow> error + real" where
  "row_distance E orig_vertex_col target_vertex_col radius_search s =
     (case vcols s orig_vertex_col of
        None \<Rightarrow> Inl KeyError
      | Some orig_vertex \<Rightarrow>
          (case vcols s target_vertex_col of
             None \<Rightarrow> Inl KeyError
           | Some target_vertex \<Rightarrow>
               Inr (calc_surf_distance E (hemi s) orig_vertex target_vertex radius_search)))"

definition with_dist :: "dcol \<Rightarrow> real \<Rightarrow> seed \<Rightarrow> seed" where
  "with_dist c v s = s\<lparr>dcols := (dcols s)(c \<mapsto> v)\<rparr>"

text \<open>
  Reference regression. \<open>series_dot T a b\<close> is the inner product of two series over the
  timepoints \<open>0..T-1\<close>; \<open>fit_residual T Z x beta\<close> is what is left of \<open>x\<close> after the fit
  \<open>Z.dot(beta)\<close> is taken away; \<open>sum_sq_residual\<close> is its sum of squares.
  \<open>least_squares T Z x beta\<close> says that \<open>beta\<close> solves the normal equations of the
  regression of \<open>x\<close> on the columns of \<open>Z\<close>: the residual is orthogonal to every column.
\<close>

definition series_dot :: "nat \<Rightarrow> real list \<Rightarrow> real list \<Rightarrow> real" where
  "series_dot T a b = sum_list (map (\<lambda>t. a ! t * b ! t) [0..<T])"

definition fit_residual :: "nat \<Rightarrow> real list list \<Rightarrow> real list \<Rightarrow> real list \<Rightarrow> real list" where
  "fit_residual T Z x beta = map (\<lambda>t. x ! t - Z_dot T Z beta ! t) [0..<T]"

definition sum_sq_residual :: "nat \<Rightarrow> real list list \<Rightarrow> real list \<Rightarrow> real list \<Rightarrow> real" where
  "sum_sq_residual T Z x beta =
     series_dot T (fit_residual T Z x beta) (fit_residual T Z x beta)"

definition least_squares :: "nat \<Rightarrow> real list list \<Rightarrow> real list \<Rightarrow> real list \<Rightarrow> bool" where
  "least_squares T Z x beta \<longleftrightarrow>
     length beta = length Z
     \<and> list_all (\<lambda>c. series_dot T c (fit_residual T Z x beta) = 0) Z"

text \<open>
  The mean series of every network other than \<open>network\<close>, one column per network in
  order of first appearance in the seed table, each the mean of the rows that the seeds of
  that network have in the sampling means.
\<close>

definition other_network_means :: "matrix \<Rightarrow> df \<Rightarrow> string \<Rightarrow> error + real list list" where
  "other_network_means sampling_meants d network =
     emap (\<lambda>n. case take_rows sampling_meants (map (\<lambda>l. l - 1) (network_labels d n)) of
                 Inl e \<Rightarrow> Inl e
               | Inr rs \<Rightarrow> Inr (mean_axis0 (ncols sampling_meants) rs))
          (filter (\<lambda>n. n \<noteq> network) (pd_unique (map NETWORK d)))"

text \<open>
  The outcome of sweep number \<open>k\<close> of a pass (\<open>k = 0, 1, ...\<close>), when the sweeps are
  made one after the other with nothing in between: the pass starts at \<open>start_iter\<close> on
  the frame \<open>d\<close> with the incoming column \<open>vertex_incol\<close>; sweep \<open>k\<close> has the number
  \<open>start_iter + k\<close>, and every later sweep reads the column that the sweep before it wrote.
\<close>

fun nth_sweep ::
  "env \<Rightarrow> config \<Rightarrow> matrix \<Rightarrow> nat list \<Rightarrow> bool \<Rightarrow> nat \<Rightarrow> nat \<Rightarrow> vcol \<Rightarrow> df \<Rightarrow> nat \<Rightarrow>
   error + (df \<times> real)" where
  "nth_sweep E cfg func_data func_zeros pcorr num_Lverts start_iter vertex_incol d 0 =
     sweep E cfg func_data func_zeros pcorr num_Lverts start_iter vertex_incol d"
| "nth_sweep E cfg func_data func_zeros pcorr num_Lverts start_iter vertex_incol d (Suc k) =
     (case nth_sweep E cfg func_data func_zeros pcorr num_Lverts start_iter vertex_incol d k of
        Inl e \<Rightarrow> Inl e
      | Inr (dk, mk) \<Rightarrow>
          sweep E cfg func_data func_zeros pcorr num_Lverts (start_iter + Suc k)
            (Vertex (start_iter + k)) dk)"

declare nth_sweep.simps [simp del]

section \<open>Concrete inputs\<close>

text \<open>
  A small world on which the theorems below are instantiated: each hemisphere is a line of
  three vertices, 4 mm apart. The disk of a listed vertex holds the vertices within the
  radius that are within the radius of no other listed vertex (the overlap rule EXCLUDE of
  the provider).
\<close>

definition series_mean :: "real list \<Rightarrow> real" where
  "series_mean x = sum_list x / real (length x)"

definition cov :: "real list \<Rightarrow> real list \<Rightarrow> real" where
  "cov x y =
     sum_list (map2 (\<lambda>a b. (a - series_mean x) * (b - series_mean y)) x y)
       / (real (length x) - 1)"

text \<open>
  \<open>np.corrcoef(x, y)[0][1]\<close> over the reals: the covariance divided by both standard
  deviations and clipped to \<open>[-1, 1]\<close>; NaN for a NaN input or a constant series.
\<close>

fun corrcoef_ref :: "fseries \<Rightarrow> real list \<Rightarrow> score" where
  "corrcoef_ref NaNs y = NaN"
| "corrcoef_ref (Fin x) y =
     (if cov x x = 0 \<or> cov y y = 0 then NaN
      else Score (max (-1) (min 1 (cov x y / sqrt (cov x x) / sqrt (cov y y)))))"

fun pearsonr_ref :: "fseries \<Rightarrow> fseries \<Rightarrow> score" where
  "pearsonr_ref x (Fin y) = corrcoef_ref x y"
| "pearsonr_ref x NaNs = NaN"

text \<open>
  The least-squares solver of this world rejects every input; the instances below run in
  full-correlation mode or stop before any candidate is scored, so it is never called.
\<close>

definition line_env :: "bool \<Rightarrow> (nat \<Rightarrow> nat list \<Rightarrow> nat list) \<Rightarrow> env" where
  "line_env strict order =
     \<lparr>nverts = (\<lambda>h. 3),
      geodesic_roi = (\<lambda>h radius vertex_list j v.
         if 4 * \<bar>real_of_int (int v - vertex_list ! j)\<bar> \<le> radius
            \<and> list_all (\<lambda>i. i = j \<or> radius < 4 * \<bar>real_of_int (int v - vertex_list ! i)\<bar>)
                  [0..<length vertex_list]
         then 1 else 0),
      geodesic_distance = (\<lambda>h orig radius target. 4 * \<bar>real_of_int (orig - target)\<bar>),
      np_corrcoef = corrcoef_ref,
      lstsq = (\<lambda>Z x. Inl ValueError),
      pearsonr = pearsonr_ref,
      shuffle = order,
      float_index_error = strict\<rparr>"

definition seed_row :: "hemisphere \<Rightarrow> string \<Rightarrow> int \<Rightarrow> int \<Rightarrow> seed" where
  "seed_row h n r t =
     \<lparr>hemi = h, NETWORK = n, roiidx = r, vcols = Map.empty(Tvertex \<mapsto> t), dcols = Map.empty\<rparr>"

text \<open>Two seeds of one network, one per hemisphere, both starting at vertex 0.\<close>

definition two_seeds :: df where
  "two_seeds = [seed_row L ''DMN'' 1 0, seed_row R ''DMN'' 2 0]"

text \<open>
  Time series with six timepoints. \<open>ts_a\<close>, \<open>ts_b\<close> and \<open>ts_c\<close> have mean 10 and
  variance 4; \<open>ts_b\<close> mirrors \<open>ts_a\<close> (correlation -1), \<open>ts_c\<close> correlates with
  \<open>ts_a\<close> at 0.6. \<open>ts_z\<close> is a vertex without signal.
\<close>

definition ts_a :: "real list" where "ts_a = [7, 9, 10, 10, 11, 13]"
definition ts_b :: "real list" where "ts_b = [13, 11, 10, 10, 9, 7]"
definition ts_c :: "real list" where "ts_c = [9, 7, 10, 10, 13, 11]"
definition ts_z :: "real list" where "ts_z = [0, 0, 0, 0, 0, 0]"

definition func_L :: matrix where
  "func_L = \<lparr>ncols = 6, mrows = [ts_c, ts_a, ts_z]\<rparr>"

definition func_R :: matrix where
  "func_R = \<lparr>ncols = 6, mrows = [ts_a, ts_a, ts_z]\<rparr>"

definition func_LR :: matrix where
  "func_LR = \<lparr>ncols = 6, mrows = [ts_c, ts_a, ts_z, ts_a, ts_a, ts_z]\<rparr>"

definition radii_0_6_12 :: config where
  "radii_0_6_12 = \<lparr>RADIUS_SAMPLING = 0, RADIUS_SEARCH = 6, RADIUS_PADDING = 12\<rparr>"

definition line_args :: arguments where
  "line_args =
     \<lparr>func = (func_L, func_R), origcsv = two_seeds, csv_has_roiidx = True, pcorr_opt = False,
      radii = radii_0_6_12, roi_limits_file = None\<rparr>"

text \<open>The same functional data cut to five timepoints.\<close>

definition short_args :: arguments where
  "short_args =
     line_args\<lparr>func := (\<lparr>ncols = 5, mrows = map (take 5) (mrows func_L)\<rparr>,
                         \<lparr>ncols = 5, mrows = map (take 5) (mrows func_R)\<rparr>)\<rparr>"

text \<open>The stacked data with timepoint 0 overwritten: timepoint 5 is as before.\<close>

definition func_LR_alt :: matrix where
  "func_LR_alt = \<lparr>ncols = 6, mrows = map (\<lambda>r. r[0 := 1]) (mrows func_LR)\<rparr>"

text \<open>
  Sweep 0 on the two seeds: the frame after lines 411-412, the three masks (vertices 2 and 5
  are flagged), and the sampling means (one vertex per region, radius 0).
\<close>

definition frame_0 :: df where
  "frame_0 = new_columns 0 two_seeds"

definition sampling_0 :: "int list" where "sampling_0 = [1, 0, 0, 2, 0, 0]"
definition search_0 :: "int list" where "search_0 = [1, 1, 0, 2, 2, 0]"
definition padding_0 :: "int list" where "padding_0 = [1, 1, 1, 2, 2, 2]"

definition meants_0 :: matrix where
  "meants_0 = \<lparr>ncols = 6, mrows = [ts_c, ts_a]\<rparr>"

text \<open>The frame after the per-seed loop of sweep 0: seed 1 moved to vertex 1, seed 2 stayed.\<close>

definition frame_0_moved :: df where
  "frame_0_moved = put_vertex 1 (Vertex 0) 0 (put_vertex 0 (Vertex 0) 1 frame_0)"

text \<open>Two seeds in two networks: each is alone in its network.\<close>

definition lone_seeds :: df where
  "lone_seeds = [seed_row L ''DMN'' 1 0, seed_row R ''VIS'' 2 0]"

definition lone_netmeants :: "(string \<times> real list) list" where
  "lone_netmeants = [(''DMN'', ts_c), (''VIS'', ts_a)]"

text \<open>A search mask that leaves no vertex to seed 1.\<close>

definition search_none :: "int list" where "search_none = [0, 0, 0, 2, 2, 0]"

text \<open>
  A world of two vertices, one per hemisphere, each the sampling region of one seed: the
  sampling mask has no 0.
\<close>

definition func_ab :: matrix where
  "func_ab = \<lparr>ncols = 6, mrows = [ts_a, ts_b]\<rparr>"

definition meants_ab :: matrix where
  "meants_ab = \<lparr>ncols = 6, mrows = [ts_b]\<rparr>"

text \<open>The sampling means of the mask \<open>search_none\<close>, in which label 1 does not occur.\<close>

definition meants_none :: matrix where
  "meants_none = \<lparr>ncols = 6, mrows = [ts_a]\<rparr>"

text \<open>
  The run on the two seeds, frame by frame. Sweep 0 moves seed 1 by 4 mm; sweep 1 moves
  nothing; the final distance is measured from the template vertex.
\<close>

definition frame_0_done :: df where
  "frame_0_done =
     put_dist 1 (Dist 0) 0 (put_dist 0 (Dist 0) 4 (set_dcol (Dist 0) (-99.9) frame_0_moved))"

definition frame_1 :: df where
  "frame_1 = new_columns 1 frame_0_done"

definition sampling_1 :: "int list" where "sampling_1 = [0, 1, 0, 2, 0, 0]"

definition meants_1 :: matrix where
  "meants_1 = \<lparr>ncols = 6, mrows = [ts_a, ts_a]\<rparr>"

definition frame_1_moved :: df where
  "frame_1_moved = put_vertex 1 (Vertex 1) 0 (put_vertex 0 (Vertex 1) 1 frame_1)"

definition frame_1_done :: df where
  "frame_1_done =
     put_dist 1 (Dist 1) 0 (put_dist 0 (Dist 1) 0 (set_dcol (Dist 1) (-99.9) frame_1_moved))"

definition frame_final :: df where
  "frame_final =
     put_dist 1 Distance 0 (put_dist 0 Distance 4
       (set_dcol Distance (-99.9) (assign_vcol Ivertex [1, 0] frame_1_done)))"

text \<open>Sweep 0 on the two lone seeds: the frame after lines 411-412.\<close>

definition lone_frame_0 :: df where
  "lone_frame_0 = new_columns 0 lone_seeds"

text \<open>
  A limits file for the two seeds, one column per seed: seed 1 is allowed at vertex 0 of the
  left hemisphere only, seed 2 at vertex 0 of the right hemisphere only.
\<close>

definition limits_L :: matrix where
  "limits_L = \<lparr>ncols = 2, mrows = [[1, 0], [0, 0], [0, 0]]\<rparr>"

definition limits_R :: matrix where
  "limits_R = \<lparr>ncols = 2, mrows = [[0, 1], [0, 0], [0, 0]]\<rparr>"

definition limits_args :: arguments where
  "limits_args = line_args\<lparr>roi_limits_file := Some (limits_L, limits_R)\<rparr>"

text \<open>
  A world in which the only candidate of seed 1 mirrors its target: seed 1 sits at vertex 1,
  whose series is \<open>ts_b\<close>; its neighbours 0 and 2 have no signal; seed 2 sits on \<open>ts_a\<close>.
\<close>

definition mirror_seeds :: df where
  "mirror_seeds = [seed_row L ''DMN'' 1 1, seed_row R ''DMN'' 2 0]"

definition mirror_frame :: df where
  "mirror_frame = new_columns 0 mirror_seeds"

definition mirror_func :: matrix where
  "mirror_func = \<lparr>ncols = 6, mrows = [ts_z, ts_b, ts_z, ts_a, ts_a, ts_z]\<rparr>"

definition mirror_search :: "int list" where "mirror_search = [0, 1, 0, 2, 2, 0]"

definition mirror_meants :: matrix where
  "mirror_meants = \<lparr>ncols = 6, mrows = [ts_b, ts_a]\<rparr>"

text \<open>
  A crowded world: two seeds of the left hemisphere sit on neighbouring vertices, so their
  search disks and their padding disks overlap and the overlap rule leaves them no vertex.
  The third seed is alone on the right hemisphere.
\<close>

definition crowded_seeds :: df where
  "crowded_seeds = [seed_row L ''DMN'' 1 0, seed_row L ''DMN'' 2 1, seed_row R ''DMN'' 3 0]"

definition crowded_func :: matrix where
  "crowded_func = \<lparr>ncols = 6, mrows = [ts_a, ts_a, ts_z, ts_a, ts_a, ts_z]\<rparr>"

definition crowded_frame :: df where
  "crowded_frame = new_columns 0 crowded_seeds"

definition crowded_sampling :: "int list" where "crowded_sampling = [1, 2, 0, 3, 0, 0]"
definition crowded_search :: "int list" where "crowded_search = [0, 0, 0, 3, 3, 0]"
definition crowded_padding :: "int list" where "crowded_padding = [0, 0, 0, 3, 3, 3]"

definition crowded_meants :: matrix where
  "crowded_meants = \<lparr>ncols = 6, mrows = [ts_a, ts_a, ts_a]\<rparr>"

definition crowded_moved :: df where
  "crowded_moved =
     put_vertex 2 (Vertex 0) 0 (put_vertex 1 (Vertex 0) 1 (put_vertex 0 (Vertex 0) 0
       crowded_frame))"

definition crowded_done :: df where
  "crowded_done =
     put_dist 2 (Dist 0) 0 (put_dist 1 (Dist 0) 0 (put_dist 0 (Dist 0) 0
       (set_dcol (Dist 0) (-99.9) crowded_moved)))"

text \<open>
  A world with three networks for the partial mode, with four timepoints. The seeds of
  labels 1 and 4 belong to one network; labels 2 and 3 are the only seeds of theirs. The
  solver of this world handles two independent columns, by Cramer's rule on the normal
  equations.
\<close>

definition inner_prod :: "real list \<Rightarrow> real list \<Rightarrow> real" where
  "inner_prod u v = sum_list (map2 (*) u v)"

fun cramer_lstsq :: "real list list \<Rightarrow> fseries \<Rightarrow> error + real list" where
  "cramer_lstsq [z1, z2] (Fin x) =
     (let det = inner_prod z1 z1 * inner_prod z2 z2 - inner_prod z1 z2 * inner_prod z1 z2
      in if det = 0 then Inl ValueError
         else Inr [(inner_prod z1 x * inner_prod z2 z2 - inner_prod z1 z2 * inner_prod z2 x) / det,
                   (inner_prod z1 z1 * inner_prod z2 x - inner_prod z1 z2 * inner_prod z1 x) / det])"
| "cramer_lstsq Z x = Inl ValueError"

definition net_env :: env where
  "net_env = (line_env True (\<lambda>k xs. xs))\<lparr>lstsq := cramer_lstsq\<rparr>"

definition net_seeds :: df where
  "net_seeds = [seed_row L ''DMN'' 1 0, seed_row L ''VIS'' 2 1,
                seed_row R ''MOT'' 3 0, seed_row R ''DMN'' 4 1]"

definition ts_vis :: "real list" where "ts_vis = [1, 0, 0, 1]"
definition ts_mot :: "real list" where "ts_mot = [0, 1, 0, 1]"
definition ts_dmn :: "real list" where "ts_dmn = [1, 2, 2, 3]"
definition ts_cand :: "real list" where "ts_cand = [3, 2, 1, 2]"

definition net_meants :: matrix where
  "net_meants = \<lparr>ncols = 4, mrows = [ts_cand, ts_vis, ts_mot, ts_dmn]\<rparr>"

definition net_func :: matrix where
  "net_func = \<lparr>ncols = 4, mrows = [ts_cand, ts_cand, ts_vis, ts_mot, ts_dmn, ts_dmn]\<rparr>"

definition net_columns :: "(string \<times> real list) list" where
  "net_columns = [(''DMN'', [2, 2, 3/2, 5/2]), (''VIS'', ts_vis), (''MOT'', ts_mot)]"

text \<open>
  A world that never settles. The two seeds of \<open>two_seeds\<close> run on series that send
  each of them to the vertex where the other one just was: in every sweep both move between
  vertex 0 and vertex 1 of their hemisphere, 4 mm apart. \<open>osc_pos k\<close> is where they are
  before sweep \<open>k\<close>, \<open>osc_in k\<close> is the column that sweep \<open>k\<close> reads, and
  \<open>osc_frame k\<close> is the frame after \<open>k\<close> sweeps.
\<close>

definition osc_func :: matrix where
  "osc_func = \<lparr>ncols = 6, mrows = [ts_a, ts_c, ts_z, ts_c, ts_a, ts_z]\<rparr>"

definition osc_pos :: "nat \<Rightarrow> int" where
  "osc_pos k = (if even k then 0 else 1)"

definition osc_in :: "nat \<Rightarrow> vcol" where
  "osc_in k = (case k of 0 \<Rightarrow> Tvertex | Suc j \<Rightarrow> Vertex j)"

definition osc_vcols :: "nat \<Rightarrow> vcol \<Rightarrow> int option" where
  "osc_vcols k c =
     (case c of
        Tvertex \<Rightarrow> Some 0
      | Avertex \<Rightarrow> None
      | Ivertex \<Rightarrow> None
      | Vertex j \<Rightarrow> (if j < k then Some (osc_pos (Suc j)) else None))"

definition osc_dcols :: "nat \<Rightarrow> dcol \<Rightarrow> real option" where
  "osc_dcols k c = (case c of Distance \<Rightarrow> None | Dist j \<Rightarrow> (if j < k then Some 4 else None))"

definition osc_row :: "hemisphere \<Rightarrow> int \<Rightarrow> nat \<Rightarrow> seed" where
  "osc_row h r k =
     \<lparr>hemi = h, NETWORK = ''DMN'', roiidx = r, vcols = osc_vcols k, dcols = osc_dcols k\<rparr>"

definition osc_frame :: "nat \<Rightarrow> df" where
  "osc_frame k = [osc_row L 1 k, osc_row R 2 k]"

definition osc_sampling :: "nat \<Rightarrow> int list" where
  "osc_sampling k = (if even k then [1, 0, 0, 2, 0, 0] else [0, 1, 0, 0, 2, 0])"

definition osc_meants :: "nat \<Rightarrow> matrix" where
  "osc_meants k = \<lparr>ncols = 6, mrows = (if even k then [ts_a, ts_c] else [ts_c, ts_a])\<rparr>"

definition osc_final :: df where
  "osc_final =
     map (\<lambda>s. s\<lparr>vcols := (vcols s)(Ivertex \<mapsto> 0), dcols := (dcols s)(Distance \<mapsto> 0)\<rparr>)
       (osc_frame 50)"

text \<open>
  A seed in signal dropout: seed 1 sits at vertex 2 of the left hemisphere, and vertices 1
  and 2 have no signal, so its sampling region and its search region are flagged away.
  Seed 2 sits at vertex 0 of the right hemisphere.
\<close>

definition dropout_seeds :: df where
  "dropout_seeds = [seed_row L ''DMN'' 1 2, seed_row R ''DMN'' 2 0]"

definition dropout_func :: matrix where
  "dropout_func = \<lparr>ncols = 6, mrows = [ts_a, ts_z, ts_z, ts_a, ts_a, ts_z]\<rparr>"

definition dropout_frame :: df where
  "dropout_frame = new_columns 0 dropout_seeds"

definition dropout_sampling :: "int list" where "dropout_sampling = [0, 0, 0, 2, 0, 0]"

definition dropout_args :: arguments where
  "dropout_args =
     \<lparr>func = (\<lparr>ncols = 6, mrows = [ts_a, ts_z, ts_z]\<rparr>, \<lparr>ncols = 6, mrows = [ts_a, ts_a, ts_z]\<rparr>),
      origcsv = dropout_seeds, csv_has_roiidx = True, pcorr_opt = False,
      radii = radii_0_6_12, roi_limits_file = None\<rparr>"

text \<open>
  Three vertices, the first the region of label 1 and the other two the region of label 2;
  no vertex is left unassigned.
\<close>

definition func_abc :: matrix where
  "func_abc = \<lparr>ncols = 6, mrows = [ts_a, ts_b, ts_c]\<rparr>"

text \<open>
  A world without background: both seeds sit at the middle vertex, every vertex has signal,
  and with a sampling radius of 4 mm each hemisphere is the sampling region of its seed.
\<close>

definition full_seeds :: df where
  "full_seeds = [seed_row L ''DMN'' 1 1, seed_row R ''DMN'' 2 1]"

definition full_func :: matrix where
  "full_func = \<lparr>ncols = 6, mrows = [ts_c, ts_c, ts_c, ts_a, ts_a, ts_a]\<rparr>"

definition full_frame :: df where
  "full_frame = new_columns 0 full_seeds"

definition full_mask :: "int list" where "full_mask = [1, 1, 1, 2, 2, 2]"

definition radii_4_6_12 :: config where
  "radii_4_6_12 = \<lparr>RADIUS_SAMPLING = 4, RADIUS_SEARCH = 6, RADIUS_PADDING = 12\<rparr>"

section \<open>Auxiliary facts\<close>

lemma upt_0_2: "[0..<2] = [0, Suc 0]"
  by (simp add: upt_rec)

lemma upt_0_3: "[0..<3] = [0, 1, 2]"
  by code_simp

lemma upt_0_4: "[0..<4] = [0, 1, 2, 3]"
  by code_simp

lemma upt_0_6: "[0..<6] = [0, 1, 2, 3, 4, 5]"
  by code_simp

lemma calc_func_zeros_eq:
  "calc_func_zeros M =
     (if ncols M < 6 then Inl IndexError
      else Inr (filter (\<lambda>v. mrows M ! v ! 5 < 5) [0..<length (mrows M)]))"
  by (auto simp: calc_func_zeros_def column_def np_where_def intro: filter_cong)

section \<open>Order of the per-seed loop\<close>

lemma pint_move_vertex_new_vertex:
  "pint_move_vertex E d idx vertex_incol vertex_outcol func_data sampling_meants
       search_rois padding_rois pcorr num_Lverts netmeants =
     (case new_vertex E d idx vertex_incol func_data sampling_meants search_rois padding_rois
             pcorr num_Lverts netmeants of
        Inl e \<Rightarrow> Inl e
      | Inr v \<Rightarrow> Inr (put_vertex idx vertex_outcol v d))"
  by (simp add: pint_move_vertex_def new_vertex_def Let_def split: sum.splits)

lemma network_labels_zip:
  "network_labels d n = map snd (filter (\<lambda>p. fst p = n) (zip (map NETWORK d) (map roiidx d)))"
  by (induction d) (auto simp: network_labels_def)

lemma network_labels_cong:
  "map NETWORK d' = map NETWORK d \<Longrightarrow> map roiidx d' = map roiidx d \<Longrightarrow>
   network_labels d' n = network_labels d n"
  by (simp add: network_labels_zip)

lemma new_vertex_cong:
  assumes "length d' = length d"
      and "map NETWORK d' = map NETWORK d" and "map roiidx d' = map roiidx d"
      and "idx < length d \<Longrightarrow> hemi (d' ! idx) = hemi (d ! idx)"
      and "idx < length d \<Longrightarrow> vcols (d' ! idx) vertex_incol = vcols (d ! idx) vertex_incol"
  shows "new_vertex E d' idx vertex_incol func_data sampling_meants search_rois padding_rois
           pcorr num_Lverts netmeants =
         new_vertex E d idx vertex_incol func_data sampling_meants search_rois padding_rois
           pcorr num_Lverts netmeants"
proof (cases "idx < length d")
  case False
  with assms(1) show ?thesis by (simp add: new_vertex_def)
next
  case True
  from assms(2) True assms(1) have n: "NETWORK (d' ! idx) = NETWORK (d ! idx)"
    by (metis nth_map)
  from assms(3) True assms(1) have r: "roiidx (d' ! idx) = roiidx (d ! idx)"
    by (metis nth_map)
  have g: "get_vertex d' idx vertex_incol = get_vertex d idx vertex_incol"
    using True assms(1) assms(5) by (simp add: get_vertex_def)
  have t: "\<And>n l. network_target E sampling_meants d' n l = network_target E sampling_meants d n l"
    using network_labels_cong [OF assms(2,3)]
    by (simp add: network_target_def other_labels_def)
  have h: "hemi (d' ! idx) = hemi (d ! idx)"
    using True assms(4) by simp
  show ?thesis
    unfolding new_vertex_def assms(1) n r g t h by (rule refl)
qed


lemma new_vertex_in_range:
  "new_vertex E d idx vertex_incol func_data sampling_meants search_rois padding_rois
     pcorr num_Lverts netmeants = Inr v \<Longrightarrow> idx < length d"
  by (auto simp: new_vertex_def split: if_splits)

lemma map_update_same:
  assumes "\<And>y. f (g y) = f y"
  shows "map f (xs[i := g (xs ! i)]) = map f xs"
proof (cases "i < length xs")
  case True
  then show ?thesis by (simp add: map_update assms list_update_same_conv)
next
  case False
  then have "xs[i := g (xs ! i)] = xs" by (intro list_update_beyond) simp
  then show ?thesis by simp
qed

lemma new_vertex_put_other:
  assumes "x \<noteq> idx"
  shows "new_vertex E (put_vertex x c v d) idx vertex_incol func_data sampling_meants
           search_rois padding_rois pcorr num_Lverts netmeants =
         new_vertex E d idx vertex_incol func_data sampling_meants search_rois padding_rois
           pcorr num_Lverts netmeants"
proof (rule new_vertex_cong)
  show "length (put_vertex x c v d) = length d"
    by (simp add: put_vertex_def)
  show "map NETWORK (put_vertex x c v d) = map NETWORK d"
    unfolding put_vertex_def by (rule map_update_same) simp
  show "map roiidx (put_vertex x c v d) = map roiidx d"
    unfolding put_vertex_def by (rule map_update_same) simp
  show "hemi (put_vertex x c v d ! idx) = hemi (d ! idx)"
    using assms by (simp add: put_vertex_def)
  show "vcols (put_vertex x c v d ! idx) vertex_incol = vcols (d ! idx) vertex_incol"
    using assms by (simp add: put_vertex_def)
qed

lemma moved_step:
  assumes "x < length d" and "x \<notin> S" and "\<And>i. i \<in> S \<Longrightarrow> g i = f i" and "f x = v"
  shows "moved c S g (put_vertex x c v d) = moved c (insert x S) f d"
proof (rule nth_equalityI)
  show "length (moved c S g (put_vertex x c v d)) = length (moved c (insert x S) f d)"
    by (simp add: moved_def put_vertex_def)
next
  fix i assume "i < length (moved c S g (put_vertex x c v d))"
  then have i: "i < length d" by (simp add: moved_def put_vertex_def)
  show "moved c S g (put_vertex x c v d) ! i = moved c (insert x S) f d ! i"
  proof (cases "i = x")
    case True
    with assms i show ?thesis by (simp add: moved_def put_vertex_def)
  next
    case False
    with assms i show ?thesis by (simp add: moved_def put_vertex_def)
  qed
qed

lemma move_all_moved:
  assumes "distinct order"
  shows "move_all E order vertex_incol vertex_outcol func_data sampling_meants
           search_rois padding_rois pcorr num_Lverts netmeants d = Inr d'
         \<longleftrightarrow>
         (\<forall>i \<in> set order. \<exists>v. new_vertex E d i vertex_incol func_data sampling_meants
              search_rois padding_rois pcorr num_Lverts netmeants = Inr v)
         \<and> d' = moved vertex_outcol (set order)
                  (\<lambda>i. projr (new_vertex E d i vertex_incol func_data sampling_meants
                                 search_rois padding_rois pcorr num_Lverts netmeants)) d"
  using assms
proof (induction order arbitrary: d)
  case Nil
  have "moved vertex_outcol {} (\<lambda>i. projr (new_vertex E d i vertex_incol func_data
          sampling_meants search_rois padding_rois pcorr num_Lverts netmeants)) d = d"
    by (rule nth_equalityI) (simp_all add: moved_def)
  then show ?case by (auto simp: move_all_def)
next
  case (Cons x xs)
  let ?nv = "\<lambda>d i. new_vertex E d i vertex_incol func_data sampling_meants
                search_rois padding_rois pcorr num_Lverts netmeants"
  show ?case
  proof (cases "?nv d x")
    case (Inl e)
    then show ?thesis
      by (auto simp: move_all_def pint_move_vertex_new_vertex)
  next
    case (Inr v)
    let ?d1 = "put_vertex x vertex_outcol v d"
    from Inr have x: "x < length d" by (rule new_vertex_in_range)
    from Cons.prems have xs: "distinct xs" and nx: "x \<notin> set xs" by simp_all
    have same: "\<And>i. i \<in> set xs \<Longrightarrow> ?nv ?d1 i = ?nv d i"
      using nx by (intro new_vertex_put_other) auto
    have step: "move_all E (x # xs) vertex_incol vertex_outcol func_data sampling_meants
                  search_rois padding_rois pcorr num_Lverts netmeants d
              = move_all E xs vertex_incol vertex_outcol func_data sampling_meants
                  search_rois padding_rois pcorr num_Lverts netmeants ?d1"
      using Inr by (simp add: move_all_def pint_move_vertex_new_vertex)
    have mv: "moved vertex_outcol (set xs) (\<lambda>i. projr (?nv ?d1 i)) ?d1
            = moved vertex_outcol (insert x (set xs)) (\<lambda>i. projr (?nv d i)) d"
      using x nx same Inr by (intro moved_step) simp_all
    show ?thesis
      unfolding step Cons.IH [OF xs] mv using same Inr by auto
  qed
qed

text \<open>
  Claim C4. Within a sweep the position chosen for a seed does not depend on the order in
  which the seeds are visited. For two orders that visit the same seeds once each, over the
  same frame and the same frozen inputs (masks, sampling means, network means, incoming
  column): when the loop in the first order completes with a frame, the loop in the second
  order completes with the same frame, and the position written for every visited seed is
  the value computed from the frame as it was before the loop, so no evaluation reads what
  another evaluation of the same sweep wrote.
\<close>

theorem scoring_order_independent:
  assumes "distinct order1" and "distinct order2" and "set order1 = set order2"
      and "move_all E order1 vertex_incol vertex_outcol func_data sampling_meants
             search_rois padding_rois pcorr num_Lverts netmeants d = Inr d1"
  shows "move_all E order2 vertex_incol vertex_outcol func_data sampling_meants
           search_rois padding_rois pcorr num_Lverts netmeants d = Inr d1
       \<and> (\<forall>idx \<in> set order1.
            get_vertex d1 idx vertex_outcol =
              new_vertex E d idx vertex_incol func_data sampling_meants search_rois
                padding_rois pcorr num_Lverts netmeants)"
proof
  from assms(4) have c: "(\<forall>i \<in> set order1. \<exists>v. new_vertex E d i vertex_incol func_data
        sampling_meants search_rois padding_rois pcorr num_Lverts netmeants = Inr v)"
    and d1: "d1 = moved vertex_outcol (set order1)
                  (\<lambda>i. projr (new_vertex E d i vertex_incol func_data sampling_meants
                                 search_rois padding_rois pcorr num_Lverts netmeants)) d"
    unfolding move_all_moved [OF assms(1)] by simp_all
  show "move_all E order2 vertex_incol vertex_outcol func_data sampling_meants
           search_rois padding_rois pcorr num_Lverts netmeants d = Inr d1"
    unfolding move_all_moved [OF assms(2)] using c d1 assms(3) by simp
  show "\<forall>idx \<in> set order1.
            get_vertex d1 idx vertex_outcol =
              new_vertex E d idx vertex_incol func_data sampling_meants search_rois
                padding_rois pcorr num_Lverts netmeants"
  proof
    fix idx assume i: "idx \<in> set order1"
    with c obtain v where v: "new_vertex E d idx vertex_incol func_data
        sampling_meants search_rois padding_rois pcorr num_Lverts netmeants = Inr v" by blast
    then have "idx < length d" by (rule new_vertex_in_range)
    with i v show "get_vertex d1 idx vertex_outcol =
              new_vertex E d idx vertex_incol func_data sampling_meants search_rois
                padding_rois pcorr num_Lverts netmeants"
      by (simp add: d1 moved_def get_vertex_def)
  qed
qed

section \<open>Sweep 0 of the small world, evaluated\<close>

lemma cov_values:
  "cov ts_a ts_a = 4" "cov ts_b ts_b = 4" "cov ts_c ts_c = 4"
  "cov ts_a ts_c = 12/5" "cov ts_c ts_a = 12/5" "cov ts_a ts_b = -4" "cov ts_b ts_a = -4"
  by (simp_all add: cov_def series_mean_def ts_a_def ts_b_def ts_c_def)

lemma replicate_6: "replicate 6 x = [x, x, x, x, x, x]"
  by (simp add: numeral_eq_Suc)

lemmas fixture_frame = frame_0_def new_columns_def two_seeds_def seed_row_def set_vcol_def
  set_dcol_def

lemma frame_0_rows:
  "length frame_0 = 2"
  "roiidx (frame_0 ! 0) = 1" "NETWORK (frame_0 ! 0) = ''DMN''" "hemi (frame_0 ! 0) = L"
  "roiidx (frame_0 ! Suc 0) = 2" "NETWORK (frame_0 ! Suc 0) = ''DMN''" "hemi (frame_0 ! Suc 0) = R"
  "get_vertex frame_0 0 Tvertex = Inr 0" "get_vertex frame_0 (Suc 0) Tvertex = Inr 0"
  by (simp_all add: fixture_frame get_vertex_def)

lemma target_0:
  "network_target (line_env s ord) meants_0 frame_0 ''DMN'' 1 = Inr (Fin ts_a)"
  "network_target (line_env s ord) meants_0 frame_0 ''DMN'' 2 = Inr (Fin ts_c)"
  by (simp_all add: network_target_def other_labels_def network_labels_def fixture_frame
      take_rows_def meants_0_def py_index_def np_mean_axis0_def mean_axis0_def upt_0_6
      ts_a_def ts_c_def)

lemma space_0:
  "search_space search_0 padding_0 1 = [0, 1]"
  "search_space search_0 padding_0 2 = [3, 4]"
  by (simp_all add: search_space_def np_where_def search_0_def padding_0_def upt_0_6)

lemma scores_0:
  "for_each (score_vertex (line_env s ord) False func_LR (Fin ts_a) None ''DMN'') [0, Suc 0]
     (replicate (length (mrows func_LR)) (Score (-1)))
   = Inr [Score (3/5), Score 1, Score (-1), Score (-1), Score (-1), Score (-1)]"
  "for_each (score_vertex (line_env s ord) False func_LR (Fin ts_c) None ''DMN'') [3, 4]
     (replicate (length (mrows func_LR)) (Score (-1)))
   = Inr [Score (-1), Score (-1), Score (-1), Score (3/5), Score (3/5), Score (-1)]"
  by (simp_all add: score_vertex_def func_LR_def replicate_6 line_env_def cov_values)

lemma nv0:
  "new_vertex (line_env s ord) frame_0 0 Tvertex func_LR meants_0 search_0 padding_0 False 3 None = Inr 1"
  "new_vertex (line_env s ord) frame_0 (Suc 0) Tvertex func_LR meants_0 search_0 padding_0 False 3 None = Inr 0"
  by (simp_all add: new_vertex_def frame_0_rows target_0 space_0 scores_0 np_argmax_def
      del: for_each.simps)

lemma move_all_0:
  "move_all (line_env s ord) [0, 1] Tvertex (Vertex 0) func_LR meants_0 search_0 padding_0
     False 3 None frame_0 = Inr frame_0_moved"
  by (simp add: move_all_def pint_move_vertex_new_vertex nv0 new_vertex_put_other
      frame_0_moved_def)

lemma space_none: "search_space search_none padding_0 1 = []"
  by (simp add: search_space_def np_where_def search_none_def padding_0_def upt_0_6)

lemma masks_0:
  "sweep_masks (line_env s ord) radii_0_6_12 frame_0 Tvertex [2, 5]
     = Inr (sampling_0, search_0, padding_0)"
  by (simp add: sweep_masks_def rois_bilateral_def roi_surf_data_def get_vcol_def fixture_frame
      line_env_def radii_0_6_12_def zero_at_def upt_0_3 sampling_0_def search_0_def padding_0_def)

lemma two_seeds_labels:
  "other_labels two_seeds ''DMN'' 1 = [2]" "other_labels two_seeds ''DMN'' 2 = [1]"
  by (simp_all add: other_labels_def network_labels_def two_seeds_def seed_row_def)

lemma sampling_meants_0: "calc_sampling_meants func_LR sampling_0 = Inr meants_0"
  by (simp add: calc_sampling_meants_def mask_rois_def np_unique_def roi_meants_def
      take_rows_def np_where_def py_index_def mean_axis0_def sampling_0_def func_LR_def
      meants_0_def upt_0_6 ts_a_def ts_c_def)


theorem scoring_order_independent_witness:
  "distinct [0, 1 :: nat] \<and> distinct [1, 0 :: nat] \<and> set [0, 1 :: nat] = set [1, 0]
   \<and> move_all (line_env True (\<lambda>k xs. xs)) [0, 1] Tvertex (Vertex 0) func_LR meants_0
         search_0 padding_0 False 3 None frame_0 = Inr frame_0_moved
   \<and> move_all (line_env True (\<lambda>k xs. xs)) [1, 0] Tvertex (Vertex 0) func_LR meants_0
         search_0 padding_0 False 3 None frame_0 = Inr frame_0_moved
   \<and> get_vertex frame_0_moved 0 (Vertex 0) = Inr 1
   \<and> get_vertex frame_0_moved 1 (Vertex 0) = Inr 0"
proof -
  have orders: "distinct [0, 1 :: nat]" "distinct [1, 0 :: nat]" "set [0, 1 :: nat] = set [1, 0]"
    by auto
  from scoring_order_independent [OF orders move_all_0 [of True "\<lambda>k xs. xs"]]
  show ?thesis
    using orders move_all_0 [of True "\<lambda>k xs. xs"] by (simp add: nv0)
qed

section \<open>A seed that is alone in its network\<close>

lemma lone_rows:
  "length lone_seeds = 2"
  "roiidx (lone_seeds ! 0) = 1" "NETWORK (lone_seeds ! 0) = ''DMN''" "hemi (lone_seeds ! 0) = L"
  "get_vertex lone_seeds 0 Tvertex = Inr 0"
  "other_labels lone_seeds ''DMN'' 1 = []"
  by (simp_all add: lone_seeds_def seed_row_def get_vertex_def other_labels_def network_labels_def)


text \<open>
  Claim C5 as stated fails. Seed 1 is the only member of its network. In partial mode, with
  a numpy that accepts the empty float index, nothing is reported: the seed has no candidate
  and the call returns the frame with the seed in place. In full mode, with a numpy that
  rejects the index, the call raises IndexError, so full mode is not exempt.
\<close>

theorem single_member_network_counterexample:
  "pint_move_vertex (line_env False (\<lambda>k xs. xs)) lone_seeds 0 Tvertex (Vertex 0) func_LR meants_0
     search_none padding_0 True 3 (Some lone_netmeants)
   = Inr (put_vertex 0 (Vertex 0) 0 lone_seeds)
   \<and> pint_move_vertex (line_env True (\<lambda>k xs. xs)) lone_seeds 0 Tvertex (Vertex 0) func_LR meants_0
       search_0 padding_0 False 3 None
     = Inl IndexError"
  by (simp add: pint_move_vertex_def lone_rows network_target_def space_none line_env_def)

text \<open>
  Claim C5, as amended. The code has no check for a network with a single member and does
  not distinguish the two modes there. For a seed without another member in its network the
  row selection of the target is the empty float index array. With a numpy that rejects a
  float index array, \<open>pint_move_vertex\<close> raises IndexError, in full and in partial mode
  alike. With a numpy that accepts it, the target is all NaN, and a seed with an empty
  search space silently stays where it is, in full and in partial mode alike.
\<close>

theorem single_member_network_no_check:
  assumes "idx < length d"
      and "get_vertex d idx vertex_incol = Inr orig_vertex"
      and "other_labels d (NETWORK (d ! idx)) (roiidx (d ! idx)) = []"
  shows "network_target E sampling_meants d (NETWORK (d ! idx)) (roiidx (d ! idx))
           = (if float_index_error E then Inl IndexError else Inr NaNs)
       \<and> (float_index_error E \<longrightarrow>
            pint_move_vertex E d idx vertex_incol vertex_outcol func_data sampling_meants
              search_rois padding_rois pcorr num_Lverts netmeants = Inl IndexError)
       \<and> (\<not> float_index_error E
            \<and> search_space search_rois padding_rois (roiidx (d ! idx)) = [] \<longrightarrow>
            pint_move_vertex E d idx vertex_incol vertex_outcol func_data sampling_meants
              search_rois padding_rois pcorr num_Lverts netmeants
            = Inr (put_vertex idx vertex_outcol orig_vertex d))"
  using assms by (simp add: network_target_def pint_move_vertex_def)

theorem single_member_network_no_check_witness:
  "0 < length lone_seeds \<and> get_vertex lone_seeds 0 Tvertex = Inr 0
   \<and> other_labels lone_seeds (NETWORK (lone_seeds ! 0)) (roiidx (lone_seeds ! 0)) = []
   \<and> float_index_error (line_env True (\<lambda>k xs. xs))
   \<and> pint_move_vertex (line_env True (\<lambda>k xs. xs)) lone_seeds 0 Tvertex (Vertex 0) func_LR
        meants_0 search_0 padding_0 True 3 (Some lone_netmeants) = Inl IndexError
   \<and> \<not> float_index_error (line_env False (\<lambda>k xs. xs))
   \<and> search_space search_none padding_0 (roiidx (lone_seeds ! 0)) = []
   \<and> pint_move_vertex (line_env False (\<lambda>k xs. xs)) lone_seeds 0 Tvertex (Vertex 0) func_LR
        meants_0 search_none padding_0 False 3 None = Inr (put_vertex 0 (Vertex 0) 0 lone_seeds)"
proof -
  have pre: "0 < length lone_seeds" "get_vertex lone_seeds 0 Tvertex = Inr 0"
    "other_labels lone_seeds (NETWORK (lone_seeds ! 0)) (roiidx (lone_seeds ! 0)) = []"
    by (simp_all add: lone_rows)
  have strict: "float_index_error (line_env True (\<lambda>k xs. xs))"
    and lenient: "\<not> float_index_error (line_env False (\<lambda>k xs. xs))"
    by (simp_all add: line_env_def)
  have none: "search_space search_none padding_0 (roiidx (lone_seeds ! 0)) = []"
    by (simp add: lone_rows space_none)
  from single_member_network_no_check [OF pre, where E = "line_env True (\<lambda>k xs. xs)"] strict
  have a: "pint_move_vertex (line_env True (\<lambda>k xs. xs)) lone_seeds 0 Tvertex (Vertex 0) func_LR
        meants_0 search_0 padding_0 True 3 (Some lone_netmeants) = Inl IndexError"
    by blast
  from single_member_network_no_check [OF pre, where E = "line_env False (\<lambda>k xs. xs)"]
    lenient none
  have b: "pint_move_vertex (line_env False (\<lambda>k xs. xs)) lone_seeds 0 Tvertex (Vertex 0) func_LR
        meants_0 search_none padding_0 False 3 None = Inr (put_vertex 0 (Vertex 0) 0 lone_seeds)"
    by blast
  from pre strict lenient none a b show ?thesis by blast
qed

section \<open>Invalid vertices and the masks of a sweep\<close>

lemma fold_zero_length: "length (fold (\<lambda>v m. m[v := (0::int)]) vs m) = length m"
  by (induction vs arbitrary: m) simp_all

lemma fold_zero_nth:
  "v < length m \<Longrightarrow>
   fold (\<lambda>v m. m[v := (0::int)]) vs m ! v = (if v \<in> set vs then 0 else m ! v)"
  by (induction vs arbitrary: m) (auto simp: fold_zero_length)

lemma zero_at_Inr:
  assumes "zero_at func_zeros rois = Inr rois'"
  shows "length rois' = length rois"
    and "\<And>v. v \<in> set func_zeros \<Longrightarrow> v < length rois' \<and> rois' ! v = 0"
    and "\<And>v. v < length rois \<Longrightarrow> v \<notin> set func_zeros \<Longrightarrow> rois' ! v = rois ! v"
proof -
  from assms have all: "list_all (\<lambda>v. v < length rois) func_zeros"
    and eq: "rois' = fold (\<lambda>v m. m[v := 0]) func_zeros rois"
    by (auto simp: zero_at_def split: if_splits)
  show "length rois' = length rois" by (simp add: eq fold_zero_length)
  show "\<And>v. v \<in> set func_zeros \<Longrightarrow> v < length rois' \<and> rois' ! v = 0"
    using all by (auto simp: eq fold_zero_length fold_zero_nth list_all_iff)
  show "\<And>v. v < length rois \<Longrightarrow> v \<notin> set func_zeros \<Longrightarrow> rois' ! v = rois ! v"
    by (simp add: eq fold_zero_nth)
qed

lemma np_where_set: "set (np_where p xs) = {i. i < length xs \<and> p (xs ! i)}"
  by (auto simp: np_where_def)

lemma search_space_set:
  "set (search_space search_rois padding_rois vlabel) =
     {v. v < length search_rois \<and> search_rois ! v = vlabel
         \<and> v < length padding_rois \<and> padding_rois ! v = vlabel}"
  by (auto simp: search_space_def np_where_set Let_def)

text \<open>
  Claim C1 as stated fails for the padding mask. In sweep 0 of the small world the vertices 2
  and 5 are flagged; the sampling mask and the search mask are 0 there, the padding mask
  still gives vertex 2 to seed 1.
\<close>

theorem invalid_vertices_masked_counterexample:
  "sweep_masks (line_env True (\<lambda>k xs. xs)) radii_0_6_12 frame_0 Tvertex [2, 5]
     = Inr ([1, 0, 0, 2, 0, 0], [1, 1, 0, 2, 2, 0], [1, 1, 1, 2, 2, 2])
   \<and> [1, 1, 1, 2, 2, 2 :: int] ! 2 = 1"
  using masks_0 [of True "\<lambda>k xs. xs"]
  by (simp add: sampling_0_def search_0_def padding_0_def)

text \<open>
  Claim C1, as amended. In every sweep whose masks are built without an exception, the
  flagged vertices carry 0 in the sampling mask and in the search mask before any mean or
  score is computed from them; the padding mask is used as the Region Builder returned it.
  So no flagged vertex lies in the sampling region of a nonzero label, and none lies in the
  search space of a nonzero label, which is the intersection of the seed's search and padding
  vertices.
\<close>

theorem invalid_vertices_masked:
  assumes "sweep_masks E cfg d vertex_incol func_zeros
             = Inr (sampling_rois, search_rois, padding_rois)"
  shows "(\<forall>v \<in> set func_zeros. v < length sampling_rois \<and> sampling_rois ! v = 0
                             \<and> v < length search_rois \<and> search_rois ! v = 0)
       \<and> rois_bilateral E d vertex_incol (RADIUS_PADDING cfg) = Inr padding_rois
       \<and> (\<forall>roi. roi \<noteq> 0 \<longrightarrow>
              set (np_where (\<lambda>l. l = roi) sampling_rois) \<inter> set func_zeros = {})
       \<and> (\<forall>vlabel. vlabel \<noteq> 0 \<longrightarrow>
              set (search_space search_rois padding_rois vlabel) \<inter> set func_zeros = {})"
proof -
  from assms obtain sampling_rois0 search_rois0 where
        sa: "zero_at func_zeros sampling_rois0 = Inr sampling_rois"
    and se: "zero_at func_zeros search_rois0 = Inr search_rois"
    and pa: "rois_bilateral E d vertex_incol (RADIUS_PADDING cfg) = Inr padding_rois"
    by (auto simp: sweep_masks_def split: sum.splits)
  have z: "\<forall>v \<in> set func_zeros. v < length sampling_rois \<and> sampling_rois ! v = 0
                             \<and> v < length search_rois \<and> search_rois ! v = 0"
    using zero_at_Inr(2) [OF sa] zero_at_Inr(2) [OF se] by blast
  have a: "\<forall>roi. roi \<noteq> 0 \<longrightarrow>
              set (np_where (\<lambda>l. l = roi) sampling_rois) \<inter> set func_zeros = {}"
    using z by (auto simp: np_where_set)
  have c: "\<forall>vlabel. vlabel \<noteq> 0 \<longrightarrow>
              set (search_space search_rois padding_rois vlabel) \<inter> set func_zeros = {}"
    using z by (auto simp: search_space_set)
  from z pa a c show ?thesis by blast
qed

theorem invalid_vertices_masked_witness:
  "sweep_masks (line_env True (\<lambda>k xs. xs)) radii_0_6_12 frame_0 Tvertex [2, 5]
     = Inr (sampling_0, search_0, padding_0)
   \<and> sampling_0 ! 2 = 0 \<and> sampling_0 ! 5 = 0 \<and> search_0 ! 2 = 0 \<and> search_0 ! 5 = 0
   \<and> rois_bilateral (line_env True (\<lambda>k xs. xs)) frame_0 Tvertex
        (RADIUS_PADDING radii_0_6_12) = Inr padding_0
   \<and> set (np_where (\<lambda>l. l = 1) sampling_0) \<inter> set [2, 5] = {}
   \<and> set (search_space search_0 padding_0 1) \<inter> set [2, 5] = {}"
proof -
  note m = invalid_vertices_masked [OF masks_0 [of True "\<lambda>k xs. xs"]]
  have one: "(1::int) \<noteq> 0" by simp
  from m have "\<forall>v \<in> set [2, 5]. v < length sampling_0 \<and> sampling_0 ! v = 0
                             \<and> v < length search_0 \<and> search_0 ! v = 0" by blast
  then have z: "sampling_0 ! 2 = 0 \<and> sampling_0 ! 5 = 0 \<and> search_0 ! 2 = 0 \<and> search_0 ! 5 = 0"
    by simp
  from m one have "set (np_where (\<lambda>l. l = 1) sampling_0) \<inter> set [2, 5] = {}"
    and "set (search_space search_0 padding_0 1) \<inter> set [2, 5] = {}"
    and "rois_bilateral (line_env True (\<lambda>k xs. xs)) frame_0 Tvertex
        (RADIUS_PADDING radii_0_6_12) = Inr padding_0"
    by blast+
  with z masks_0 [of True "\<lambda>k xs. xs"] show ?thesis by blast
qed

section \<open>Rows of the sampling means\<close>

lemma emap_Inr_iff:
  "emap f xs = Inr ys \<longleftrightarrow>
     length ys = length xs \<and> (\<forall>i < length xs. f (xs ! i) = Inr (ys ! i))"
proof (induction xs arbitrary: ys)
  case Nil
  then show ?case by auto
next
  case (Cons x xs)
  show ?case
  proof (cases ys)
    case Nil
    then show ?thesis by (auto split: sum.splits)
  next
    case (Cons y ys')
    then show ?thesis
      using Cons.IH [of ys']
      by (auto simp: nth_Cons All_less_Suc2 split: sum.splits nat.splits)
  qed
qed

lemma emap_map:
  "(\<And>x. x \<in> set xs \<Longrightarrow> f x = Inr (g x)) \<Longrightarrow> emap f xs = Inr (map g xs)"
  by (simp add: emap_Inr_iff)


lemma np_unique_props:
  "sorted (np_unique xs)" "distinct (np_unique xs)" "set (np_unique xs) = set xs"
  by (simp_all add: np_unique_def)

lemma mask_rois_props:
  assumes "0 \<in> set roi_mask" and "\<forall>l \<in> set roi_mask. 0 \<le> l"
  shows "sorted (mask_rois roi_mask) \<and> distinct (mask_rois roi_mask)
         \<and> set (mask_rois roi_mask) = set roi_mask - {0}"
proof (cases "np_unique roi_mask")
  case Nil
  with np_unique_props(3) [of roi_mask] assms(1) show ?thesis by simp
next
  case (Cons x xs)
  from np_unique_props [of roi_mask] Cons
  have s: "sorted (x # xs)" and d: "distinct (x # xs)" and e: "set (x # xs) = set roi_mask"
    by simp_all
  from e assms(2) have "0 \<le> x" by auto
  moreover from e assms(1) s have "x \<le> 0" by auto
  ultimately have x: "x = 0" by simp
  from d x have "0 \<notin> set xs" by simp
  with e x have "set xs = set roi_mask - {0}" by auto
  with s d Cons show ?thesis by (simp add: mask_rois_def)
qed

lemma mask_rois_complete:
  assumes "0 \<in> set roi_mask" and "\<forall>l \<in> set roi_mask. 0 \<le> l \<and> l \<le> n"
  shows "(\<forall>r \<in> {1..n}. r \<in> set roi_mask) \<longleftrightarrow> mask_rois roi_mask = [1..n]"
proof -
  from assms have p: "sorted (mask_rois roi_mask)" "distinct (mask_rois roi_mask)"
    "set (mask_rois roi_mask) = set roi_mask - {0}"
    using mask_rois_props [of roi_mask] by auto
  show ?thesis
  proof
    assume "\<forall>r \<in> {1..n}. r \<in> set roi_mask"
    with assms(2) have "set roi_mask - {0} = {1..n}"
      by (auto simp: order_le_less)
    with p have "set (mask_rois roi_mask) = set [1..n]" by simp
    with p(1,2) show "mask_rois roi_mask = [1..n]"
      by (intro sorted_distinct_set_unique) simp_all
  next
    assume "mask_rois roi_mask = [1..n]"
    with p(3) have "set roi_mask - {0} = {1..n}" by simp
    then show "\<forall>r \<in> {1..n}. r \<in> set roi_mask" by blast
  qed
qed

lemma rows_follow_labels:
  fixes rois :: "int list"
  assumes "sorted rois" and "distinct rois" and "set rois \<subseteq> {1..n}"
  shows "rois = [1..n] \<longleftrightarrow> (\<forall>r \<in> {1..n}. nat (r - 1) < length rois \<and> rois ! nat (r - 1) = r)"
proof
  assume e: "rois = [1..n]"
  show "\<forall>r \<in> {1..n}. nat (r - 1) < length rois \<and> rois ! nat (r - 1) = r"
  proof
    fix r assume "r \<in> {1..n}"
    then have r: "1 \<le> r" "r \<le> n" by simp_all
    have le: "1 + int (nat (r - 1)) \<le> n" using r by linarith
    have "nat (r - 1) < nat n" using r by linarith
    then have len: "nat (r - 1) < length [1..n]" by simp
    have "[1..n] ! nat (r - 1) = 1 + int (nat (r - 1))" using le by (rule nth_upto)
    also have "\<dots> = r" using r by linarith
    finally show "nat (r - 1) < length rois \<and> rois ! nat (r - 1) = r"
      using len by (simp only: e)
  qed
next
  assume a: "\<forall>r \<in> {1..n}. nat (r - 1) < length rois \<and> rois ! nat (r - 1) = r"
  have "\<forall>r \<in> {1..n}. r \<in> set rois"
  proof
    fix r assume "r \<in> {1..n}"
    with a have "nat (r - 1) < length rois" and "rois ! nat (r - 1) = r" by blast+
    then show "r \<in> set rois" using nth_mem [of "nat (r - 1)" rois] by simp
  qed
  with assms(3) have "set rois = set [1..n]" by auto
  with assms(1,2) show "rois = [1..n]"
    by (intro sorted_distinct_set_unique) simp_all
qed

lemma take_rows_in_range:
  assumes "\<And>l. l \<in> set ls \<Longrightarrow> 1 \<le> l \<and> nat (l - 1) < length (mrows M)"
  shows "take_rows M (map (\<lambda>l. l - 1) ls) = Inr (map (\<lambda>l. mrows M ! nat (l - 1)) ls)"
proof -
  have "emap (\<lambda>i. case py_index (length (mrows M)) i of
                  Inl e \<Rightarrow> Inl e
                | Inr j \<Rightarrow> Inr (mrows M ! j)) (map (\<lambda>l. l - 1) ls)
        = Inr (map (\<lambda>i. mrows M ! nat i) (map (\<lambda>l. l - 1) ls))"
  proof (rule emap_map)
    fix x assume "x \<in> set (map (\<lambda>l. l - 1) ls)"
    then obtain l where "l \<in> set ls" and "x = l - 1" by auto
    with assms [of l] have "0 \<le> x \<and> x < int (length (mrows M))" by auto
    then show "(case py_index (length (mrows M)) x of
                  Inl e \<Rightarrow> Inl e
                | Inr j \<Rightarrow> Inr (mrows M ! j)) = Inr (mrows M ! nat x)"
      by (simp add: py_index_def)
  qed
  then show ?thesis by (simp add: take_rows_def comp_def)
qed


lemma calc_sampling_meants_Inr:
  assumes "calc_sampling_meants func_data roi_mask = Inr sampling_meants"
  shows "ncols sampling_meants = ncols func_data"
    and "length (mrows sampling_meants) = length (mask_rois roi_mask)"
    and "\<forall>i < length (mask_rois roi_mask).
           roi_meants func_data roi_mask (mask_rois roi_mask ! i) = Inr (mrows sampling_meants ! i)"
proof -
  from assms obtain out_data where
    e: "emap (roi_meants func_data roi_mask) (mask_rois roi_mask) = Inr out_data"
    and m: "sampling_meants = \<lparr>ncols = ncols func_data, mrows = out_data\<rparr>"
    by (auto simp: calc_sampling_meants_def split: sum.splits)
  from m show "ncols sampling_meants = ncols func_data" by simp
  from e m show "length (mrows sampling_meants) = length (mask_rois roi_mask)"
    by (simp add: emap_Inr_iff)
  from e m show "\<forall>i < length (mask_rois roi_mask).
           roi_meants func_data roi_mask (mask_rois roi_mask ! i) = Inr (mrows sampling_meants ! i)"
    by (simp add: emap_Inr_iff)
qed

lemma missing_label_short:
  fixes rois :: "int list"
  assumes "distinct rois" and "set rois \<subseteq> {1..n}" and "r \<in> {1..n}" and "r \<notin> set rois"
  shows "int (length rois) \<le> n - 1"
proof -
  have "set rois \<subseteq> {1..n} - {r}" using assms(2,4) by blast
  then have "card (set rois) \<le> card ({1..n} - {r})" by (intro card_mono) simp_all
  also have "\<dots> = card {1..n} - 1" using assms(3) by simp
  finally have "length rois \<le> nat n - 1" using assms(1) by (simp add: distinct_card)
  moreover have "1 \<le> n" using assms(3) by simp
  ultimately show ?thesis by linarith
qed

text \<open>
  Where the slice of line 266 is right. Let the sampling mask hold at least one 0 (an
  unassigned or invalid vertex) and otherwise labels from 1 to \<open>n\<close>, the number of
  seeds. Then the sampling means have one row per distinct nonzero label of the mask, in
  ascending label order. Row \<open>roiidx - 1\<close> is the row of label \<open>roiidx\<close> for every seed
  exactly when every label from 1 to \<open>n\<close> occurs in the mask. When some label is missing,
  the matrix has fewer than \<open>n\<close> rows and addressing the row of label \<open>n\<close> raises
  IndexError.
\<close>

lemma rows_with_background:
  assumes "0 \<in> set roi_mask" and "\<forall>l \<in> set roi_mask. 0 \<le> l \<and> l \<le> n"
      and "calc_sampling_meants func_data roi_mask = Inr sampling_meants"
  shows "sorted (mask_rois roi_mask) \<and> distinct (mask_rois roi_mask)
       \<and> set (mask_rois roi_mask) = set roi_mask - {0}
       \<and> length (mrows sampling_meants) = length (mask_rois roi_mask)
       \<and> (\<forall>i < length (mask_rois roi_mask).
             roi_meants func_data roi_mask (mask_rois roi_mask ! i)
               = Inr (mrows sampling_meants ! i))
       \<and> ((\<forall>r \<in> {1..n}. r \<in> set roi_mask) \<longleftrightarrow>
            (\<forall>r \<in> {1..n}. nat (r - 1) < length (mrows sampling_meants)
                            \<and> mask_rois roi_mask ! nat (r - 1) = r))
       \<and> ((\<forall>r \<in> {1..n}. r \<in> set roi_mask) \<longrightarrow>
            (\<forall>network vlabel.
               other_labels d network vlabel \<noteq> []
               \<and> set (other_labels d network vlabel) \<subseteq> {1..n} \<longrightarrow>
               network_target E sampling_meants d network vlabel
                 = Inr (np_mean_axis0 (ncols func_data)
                         (map (\<lambda>l. mrows sampling_meants ! nat (l - 1))
                            (other_labels d network vlabel)))
               \<and> (\<forall>l \<in> set (other_labels d network vlabel).
                     roi_meants func_data roi_mask l
                       = Inr (mrows sampling_meants ! nat (l - 1)))))
       \<and> ((\<exists>r \<in> {1..n}. r \<notin> set roi_mask) \<longrightarrow>
            take_rows sampling_meants [n - 1] = Inl IndexError)"
proof -
  note sm = calc_sampling_meants_Inr [OF assms(3)]
  from assms(1,2) have p: "sorted (mask_rois roi_mask)" "distinct (mask_rois roi_mask)"
    "set (mask_rois roi_mask) = set roi_mask - {0}"
    using mask_rois_props [of roi_mask] by auto
  from p(3) assms(2) have sub: "set (mask_rois roi_mask) \<subseteq> {1..n}"
    by (auto simp: order_le_less)
  have complete: "(\<forall>r \<in> {1..n}. r \<in> set roi_mask) \<longleftrightarrow>
            (\<forall>r \<in> {1..n}. nat (r - 1) < length (mrows sampling_meants)
                            \<and> mask_rois roi_mask ! nat (r - 1) = r)"
    unfolding mask_rois_complete [OF assms(1,2)] rows_follow_labels [OF p(1,2) sub] sm(2) ..
  have target: "\<forall>network vlabel.
               other_labels d network vlabel \<noteq> []
               \<and> set (other_labels d network vlabel) \<subseteq> {1..n} \<longrightarrow>
               network_target E sampling_meants d network vlabel
                 = Inr (np_mean_axis0 (ncols func_data)
                         (map (\<lambda>l. mrows sampling_meants ! nat (l - 1))
                            (other_labels d network vlabel)))
               \<and> (\<forall>l \<in> set (other_labels d network vlabel).
                     roi_meants func_data roi_mask l
                       = Inr (mrows sampling_meants ! nat (l - 1)))"
    if all: "\<forall>r \<in> {1..n}. r \<in> set roi_mask"
  proof (intro allI impI)
    fix network vlabel
    let ?ls = "other_labels d network vlabel"
    assume a: "?ls \<noteq> [] \<and> set ?ls \<subseteq> {1..n}"
    from all complete have rows: "\<forall>r \<in> {1..n}. nat (r - 1) < length (mrows sampling_meants)
                            \<and> mask_rois roi_mask ! nat (r - 1) = r" by simp
    have "take_rows sampling_meants (map (\<lambda>l. l - 1) ?ls)
            = Inr (map (\<lambda>l. mrows sampling_meants ! nat (l - 1)) ?ls)"
    proof (rule take_rows_in_range)
      fix l assume "l \<in> set ?ls"
      with a have "l \<in> {1..n}" by blast
      with rows show "1 \<le> l \<and> nat (l - 1) < length (mrows sampling_meants)" by simp
    qed
    with a have t: "network_target E sampling_meants d network vlabel
                 = Inr (np_mean_axis0 (ncols func_data)
                         (map (\<lambda>l. mrows sampling_meants ! nat (l - 1)) ?ls))"
      by (simp add: network_target_def sm(1))
    have "\<forall>l \<in> set ?ls. roi_meants func_data roi_mask l
                       = Inr (mrows sampling_meants ! nat (l - 1))"
    proof
      fix l assume "l \<in> set ?ls"
      with a have "l \<in> {1..n}" by blast
      with rows have "nat (l - 1) < length (mask_rois roi_mask)"
        and "mask_rois roi_mask ! nat (l - 1) = l" by (simp_all add: sm(2))
      with sm(3) show "roi_meants func_data roi_mask l = Inr (mrows sampling_meants ! nat (l - 1))"
        by metis
    qed
    with t show "network_target E sampling_meants d network vlabel
                 = Inr (np_mean_axis0 (ncols func_data)
                         (map (\<lambda>l. mrows sampling_meants ! nat (l - 1)) ?ls))
               \<and> (\<forall>l \<in> set ?ls. roi_meants func_data roi_mask l
                       = Inr (mrows sampling_meants ! nat (l - 1)))"
      by blast
  qed
  have missing: "take_rows sampling_meants [n - 1] = Inl IndexError"
    if "\<exists>r \<in> {1..n}. r \<notin> set roi_mask"
  proof -
    from that obtain r where r: "r \<in> {1..n}" "r \<notin> set roi_mask" by blast
    with p(3) have "r \<notin> set (mask_rois roi_mask)" by simp
    from missing_label_short [OF p(2) sub r(1) this]
    have "int (length (mrows sampling_meants)) \<le> n - 1" by (simp add: sm(2))
    moreover from r(1) have "0 \<le> n - 1" by simp
    ultimately have "py_index (length (mrows sampling_meants)) (n - 1) = Inl IndexError"
      by (simp add: py_index_def)
    then show ?thesis by (simp add: take_rows_def)
  qed
  from p sm(2,3) complete target missing show ?thesis by blast
qed

subsection \<open>A mask without background\<close>

lemmas full = full_frame_def new_columns_def full_seeds_def seed_row_def set_vcol_def
  set_dcol_def

lemma full_rows:
  "length full_frame = 2"
  "roiidx (full_frame ! 0) = 1" "NETWORK (full_frame ! 0) = ''DMN''"
  "hemi (full_frame ! 0) = L" "get_vertex full_frame 0 Tvertex = Inr 1"
  "roiidx (full_frame ! Suc 0) = 2" "NETWORK (full_frame ! Suc 0) = ''DMN''"
  "hemi (full_frame ! Suc 0) = R" "get_vertex full_frame (Suc 0) Tvertex = Inr 1"
  by (simp_all add: full get_vertex_def)

lemma full_zeros: "calc_func_zeros full_func = Inr []"
  by (simp add: calc_func_zeros_def column_def np_where_def full_func_def ts_a_def ts_c_def
      upt_0_6)

lemma full_masks:
  "sweep_masks (line_env s ord) radii_4_6_12 full_frame Tvertex []
     = Inr (full_mask, full_mask, full_mask)"
  by (simp add: sweep_masks_def rois_bilateral_def roi_surf_data_def get_vcol_def full
      line_env_def radii_4_6_12_def zero_at_def upt_0_3 full_mask_def)

lemma full_sampling_meants:
  "calc_sampling_meants full_func full_mask = Inr meants_none"
  by (simp add: calc_sampling_meants_def mask_rois_def np_unique_def roi_meants_def
      take_rows_def np_where_def py_index_def mean_axis0_def full_mask_def
      full_func_def meants_none_def upt_0_6 ts_a_def ts_c_def)

lemma full_target:
  "network_target (line_env s ord) meants_none full_frame ''DMN'' 1 = Inl IndexError"
  "network_target (line_env s ord) meants_none full_frame ''DMN'' 2 = Inr (Fin ts_a)"
  by (simp_all add: network_target_def other_labels_def network_labels_def full
      take_rows_def meants_none_def py_index_def np_mean_axis0_def mean_axis0_def upt_0_6
      ts_a_def)

lemma full_space:
  "search_space full_mask full_mask 2 = [3, 4, 5]"
  by (simp_all add: search_space_def np_where_def full_mask_def upt_0_6)

lemma full_scores:
  "for_each (score_vertex (line_env s ord) False full_func (Fin ts_a) None ''DMN'') [3, 4, 5]
     (replicate (length (mrows full_func)) (Score (-1)))
   = Inr [Score (-1), Score (-1), Score (-1), Score 1, Score 1, Score 1]"
  by (simp add: score_vertex_def full_func_def replicate_6 line_env_def cov_values)

lemma full_nv:
  "new_vertex (line_env s ord) full_frame 0 Tvertex full_func meants_none full_mask
     full_mask False 3 None = Inl IndexError"
  "new_vertex (line_env s ord) full_frame (Suc 0) Tvertex full_func meants_none
     full_mask full_mask False 3 None = Inr 0"
  by (simp_all add: new_vertex_def full_rows full_target full_space full_scores
      np_argmax_def del: for_each.simps)

lemma full_move:
  "move_all (line_env s ord) [0, 1] Tvertex (Vertex 0) full_func meants_none full_mask
     full_mask False 3 None full_frame = Inl IndexError"
  "move_all (line_env s ord) [1, 0] Tvertex (Vertex 0) full_func meants_none full_mask
     full_mask False 3 None full_frame = Inl IndexError"
  by (simp_all add: move_all_def pint_move_vertex_new_vertex full_nv new_vertex_put_other)

lemma full_sweep:
  assumes "ord 0 [0, 1] = [0, 1] \<or> ord 0 [0, 1] = [1, 0]"
  shows "sweep (line_env s ord) radii_4_6_12 full_func [] False 3 0 Tvertex full_seeds
           = Inl IndexError"
proof -
  have "shuffle (line_env s ord) 0 [0..<length full_frame] = ord 0 [0, 1]"
    by (simp add: line_env_def full_rows upt_0_2)
  with assms have "move_all (line_env s ord) (shuffle (line_env s ord) 0 [0..<length full_frame])
      Tvertex (Vertex 0) full_func meants_none full_mask full_mask False 3 None
      full_frame = Inl IndexError"
    using full_move [of s ord] by auto
  then show ?thesis
    unfolding sweep_def Let_def full_frame_def [symmetric]
    by (simp add: full_masks full_sampling_meants del: One_nat_def)
qed

text \<open>
  Claim C9, evaluated where the code departs from it. \<open>np.unique(mask)[1:]\<close> (line 266)
  is meant to skip the background value 0, but it drops the smallest value, whatever it is.
  With the mask \<open>[1, 2]\<close> every label from 1 to the number of seeds owns a valid vertex and
  no vertex is background; label 1 is dropped, and the sampling means have the single row of
  label 2 and none for label 1. Row \<open>roiidx - 1\<close> is then not the row of \<open>roiidx\<close>: the
  target of seed 2, whose one co-member is seed 1, is the mean of the region of seed 2
  itself, and the target of seed 1 raises IndexError. The same happens with a region of two
  vertices, whose row is the mean of the two series. With a background vertex in the mask
  the rows are those of labels 1 and 2. A sweep meets such a mask in the world without
  background: each hemisphere is the sampling region of its seed, the sampling means lose
  the row of label 1, and the sweep raises IndexError in either visiting order.
\<close>

theorem sampling_rows_drop_label:
  "np_unique [1, 2] = [1, 2]
   \<and> mask_rois [1, 2] = [2]
   \<and> calc_sampling_meants func_ab [1, 2] = Inr \<lparr>ncols = 6, mrows = [[13, 11, 10, 10, 9, 7]]\<rparr>
   \<and> roi_meants func_ab [1, 2] 1 = Inr [7, 9, 10, 10, 11, 13]
   \<and> roi_meants func_ab [1, 2] 2 = Inr [13, 11, 10, 10, 9, 7]
   \<and> other_labels two_seeds ''DMN'' 2 = [1]
   \<and> network_target (line_env True (\<lambda>k xs. xs)) \<lparr>ncols = 6, mrows = [[13, 11, 10, 10, 9, 7]]\<rparr>
       two_seeds ''DMN'' 2 = Inr (Fin [13, 11, 10, 10, 9, 7])
   \<and> other_labels two_seeds ''DMN'' 1 = [2]
   \<and> network_target (line_env True (\<lambda>k xs. xs)) \<lparr>ncols = 6, mrows = [[13, 11, 10, 10, 9, 7]]\<rparr>
       two_seeds ''DMN'' 1 = Inl IndexError
   \<and> mask_rois [1, 2, 2] = [2]
   \<and> calc_sampling_meants func_abc [1, 2, 2] = Inr \<lparr>ncols = 6, mrows = [[11, 9, 10, 10, 11, 9]]\<rparr>
   \<and> mask_rois [0, 1, 2] = [1, 2]
   \<and> calc_sampling_meants func_abc [0, 1, 2]
       = Inr \<lparr>ncols = 6, mrows = [[13, 11, 10, 10, 9, 7], [9, 7, 10, 10, 13, 11]]\<rparr>
   \<and> calc_func_zeros full_func = Inr []
   \<and> sweep_masks (line_env True (\<lambda>k xs. xs)) radii_4_6_12 (new_columns 0 full_seeds) Tvertex []
       = Inr ([1, 1, 1, 2, 2, 2], [1, 1, 1, 2, 2, 2], [1, 1, 1, 2, 2, 2])
   \<and> calc_sampling_meants full_func [1, 1, 1, 2, 2, 2]
       = Inr \<lparr>ncols = 6, mrows = [[7, 9, 10, 10, 11, 13]]\<rparr>
   \<and> sweep (line_env True (\<lambda>k xs. xs)) radii_4_6_12 full_func [] False 3 0 Tvertex full_seeds
       = Inl IndexError
   \<and> sweep (line_env True (\<lambda>k xs. rev xs)) radii_4_6_12 full_func [] False 3 0 Tvertex
       full_seeds = Inl IndexError"
proof -
  have "np_unique [1, 2] = [1, 2]
   \<and> mask_rois [1, 2] = [2]
   \<and> calc_sampling_meants func_ab [1, 2] = Inr \<lparr>ncols = 6, mrows = [[13, 11, 10, 10, 9, 7]]\<rparr>
   \<and> roi_meants func_ab [1, 2] 1 = Inr [7, 9, 10, 10, 11, 13]
   \<and> roi_meants func_ab [1, 2] 2 = Inr [13, 11, 10, 10, 9, 7]
   \<and> other_labels two_seeds ''DMN'' 2 = [1]
   \<and> network_target (line_env True (\<lambda>k xs. xs)) \<lparr>ncols = 6, mrows = [[13, 11, 10, 10, 9, 7]]\<rparr>
       two_seeds ''DMN'' 2 = Inr (Fin [13, 11, 10, 10, 9, 7])
   \<and> other_labels two_seeds ''DMN'' 1 = [2]
   \<and> network_target (line_env True (\<lambda>k xs. xs)) \<lparr>ncols = 6, mrows = [[13, 11, 10, 10, 9, 7]]\<rparr>
       two_seeds ''DMN'' 1 = Inl IndexError
   \<and> mask_rois [1, 2, 2] = [2]
   \<and> calc_sampling_meants func_abc [1, 2, 2] = Inr \<lparr>ncols = 6, mrows = [[11, 9, 10, 10, 11, 9]]\<rparr>
   \<and> mask_rois [0, 1, 2] = [1, 2]
   \<and> calc_sampling_meants func_abc [0, 1, 2]
       = Inr \<lparr>ncols = 6, mrows = [[13, 11, 10, 10, 9, 7], [9, 7, 10, 10, 13, 11]]\<rparr>"
    by (simp add: two_seeds_labels network_target_def calc_sampling_meants_def mask_rois_def
        np_unique_def roi_meants_def take_rows_def np_where_def py_index_def mean_axis0_def
        np_mean_axis0_def func_ab_def func_abc_def upt_0_2 upt_0_3 upt_0_6
        ts_a_def ts_b_def ts_c_def)
  moreover note full_zeros
  moreover have "sweep_masks (line_env True (\<lambda>k xs. xs)) radii_4_6_12 (new_columns 0 full_seeds)
      Tvertex [] = Inr ([1, 1, 1, 2, 2, 2], [1, 1, 1, 2, 2, 2], [1, 1, 1, 2, 2, 2])"
    using full_masks [of True "\<lambda>k xs. xs"] by (simp add: full_frame_def full_mask_def)
  moreover have "calc_sampling_meants full_func [1, 1, 1, 2, 2, 2]
      = Inr \<lparr>ncols = 6, mrows = [[7, 9, 10, 10, 11, 13]]\<rparr>"
    using full_sampling_meants by (simp add: full_mask_def meants_none_def ts_a_def)
  moreover have "sweep (line_env True (\<lambda>k xs. xs)) radii_4_6_12 full_func [] False 3 0 Tvertex
      full_seeds = Inl IndexError"
    by (rule full_sweep) simp
  moreover have "sweep (line_env True (\<lambda>k xs. rev xs)) radii_4_6_12 full_func [] False 3 0
      Tvertex full_seeds = Inl IndexError"
    by (rule full_sweep) simp
  ultimately show ?thesis by blast
qed

section \<open>The sweep loop\<close>

lemma for_each_append:
  "for_each body (xs @ ys) s =
     (case for_each body xs s of Inl e \<Rightarrow> Inl e | Inr s' \<Rightarrow> for_each body ys s')"
  by (induction xs arbitrary: s) (auto split: sum.splits)

lemma for_each_error:
  assumes "for_each body xs s = Inl e"
  shows "\<exists>x t. x \<in> set xs \<and> body x t = Inl e"
  using assms
proof (induction xs arbitrary: s)
  case Nil
  then show ?case by simp
next
  case (Cons x xs)
  show ?case
  proof (cases "body x s")
    case (Inl e')
    with Cons.prems show ?thesis by auto
  next
    case (Inr t)
    with Cons.prems have "for_each body xs t = Inl e" by simp
    from Cons.IH [OF this] show ?thesis by auto
  qed
qed

text \<open>A loop over all row labels whose body reads and writes its own row only.\<close>

lemma for_each_rowwise_prefix:
  assumes body: "\<And>i t. i < n \<Longrightarrow> length t = n \<Longrightarrow>
              body i t = (case val (t ! i) of Inl e \<Rightarrow> Inl e
                          | Inr v \<Rightarrow> Inr (t[i := upd v (t ! i)]))"
      and len: "length d = n" and k: "k \<le> n"
  shows "for_each body [0..<k] d = Inr d' \<longleftrightarrow>
           (\<forall>i < k. \<exists>v. val (d ! i) = Inr v)
           \<and> d' = map (\<lambda>i. if i < k then upd (projr (val (d ! i))) (d ! i) else d ! i) [0..<n]"
  using k
proof (induction k arbitrary: d')
  case 0
  have "map (\<lambda>i. d ! i) [0..<n] = d" unfolding len [symmetric] by (rule map_nth)
  then show ?case by auto
next
  case (Suc k)
  let ?d1 = "map (\<lambda>i. if i < k then upd (projr (val (d ! i))) (d ! i) else d ! i) [0..<n]"
  from Suc.prems have k: "k < n" "k \<le> n" by simp_all
  have d1k: "?d1 ! k = d ! k" and d1len: "length ?d1 = n" using k by simp_all
  show ?case
  proof (cases "for_each body [0..<k] d")
    case (Inl e)
    with Suc.IH [OF k(2)] have "\<not> (\<forall>i < k. \<exists>v. val (d ! i) = Inr v)" by auto
    then have "\<not> (\<forall>i < Suc k. \<exists>v. val (d ! i) = Inr v)" by (auto simp: less_Suc_eq)
    with Inl show ?thesis by (simp add: for_each_append)
  next
    case (Inr t)
    with Suc.IH [OF k(2), of t] have ok: "\<forall>i < k. \<exists>v. val (d ! i) = Inr v" and t: "t = ?d1"
      by simp_all
    have step: "for_each body [0..<Suc k] d = body k ?d1"
      using Inr t by (simp add: for_each_append split: sum.splits)
    show ?thesis
    proof (cases "val (d ! k)")
      case (Inl e)
      then have "body k ?d1 = Inl e" using body [OF k(1) d1len] d1k by simp
      moreover from Inl have "\<not> (\<forall>i < Suc k. \<exists>v. val (d ! i) = Inr v)" by auto
      ultimately show ?thesis using step by simp
    next
      case (Inr v)
      then have b: "body k ?d1 = Inr (?d1[k := upd v (d ! k)])"
        using body [OF k(1) d1len] d1k by simp
      have e: "?d1[k := upd v (d ! k)]
             = map (\<lambda>i. if i < Suc k then upd (projr (val (d ! i))) (d ! i) else d ! i) [0..<n]"
        using k Inr by (intro nth_equalityI) (auto simp: nth_list_update less_Suc_eq)
      from ok Inr have "\<forall>i < Suc k. \<exists>v. val (d ! i) = Inr v" by (auto simp: less_Suc_eq)
      with step b e show ?thesis by auto
    qed
  qed
qed

lemma for_each_rowwise:
  assumes "\<And>i t. i < length d \<Longrightarrow> length t = length d \<Longrightarrow>
              body i t = (case val (t ! i) of Inl e \<Rightarrow> Inl e
                          | Inr v \<Rightarrow> Inr (t[i := upd v (t ! i)]))"
  shows "for_each body [0..<length d] d = Inr d' \<longleftrightarrow>
           (\<forall>s \<in> set d. \<exists>v. val s = Inr v) \<and> d' = map (\<lambda>s. upd (projr (val s)) s) d"
proof -
  have "map (\<lambda>i. if i < length d then upd (projr (val (d ! i))) (d ! i) else d ! i) [0..<length d]
        = map (\<lambda>s. upd (projr (val s)) s) d"
    by (intro nth_equalityI) simp_all
  moreover have "(\<forall>i < length d. \<exists>v. val (d ! i) = Inr v) \<longleftrightarrow> (\<forall>s \<in> set d. \<exists>v. val s = Inr v)"
    by (metis in_set_conv_nth)
  ultimately show ?thesis
    using for_each_rowwise_prefix [where n = "length d" and body = body and val = val
        and upd = upd and d = d and k = "length d" and d' = d', OF assms] by simp
qed


lemma for_each_preserves:
  assumes "for_each body xs s = Inr s'" and "P s"
      and "\<And>x t t'. x \<in> set xs \<Longrightarrow> P t \<Longrightarrow> body x t = Inr t' \<Longrightarrow> P t'"
  shows "P s'"
  using assms
proof (induction xs arbitrary: s)
  case Nil
  then show ?case by simp
next
  case (Cons x xs)
  from Cons.prems(1) obtain t where t: "body x s = Inr t" and r: "for_each body xs t = Inr s'"
    by (auto split: sum.splits)
  have "P t" using Cons.prems(3) [of x s t] Cons.prems(2) t by simp
  with r show ?case
  proof (rule Cons.IH)
    fix y u u' assume "y \<in> set xs" and "P u" and "body y u = Inr u'"
    then show "P u'" using Cons.prems(3) [of y u u'] by simp
  qed
qed

subsection \<open>The distance column\<close>

lemma distance_row_rowwise:
  assumes "i < length t"
  shows "distance_row E oc tc dc r i t =
           (case row_distance E oc tc r (t ! i) of
              Inl e \<Rightarrow> Inl e
            | Inr v \<Rightarrow> Inr (t[i := with_dist dc v (t ! i)]))"
  using assms
  by (simp add: distance_row_def get_vertex_def row_distance_def put_dist_def with_dist_def
      split: option.splits hemisphere.splits)

lemma row_distance_Inr_iff:
  "(\<exists>v. row_distance E oc tc r s = Inr v) \<longleftrightarrow> vcols s oc \<noteq> None \<and> vcols s tc \<noteq> None"
  by (auto simp: row_distance_def split: option.splits)

lemma with_dist_fields [simp]:
  "vcols (with_dist dc x s) = vcols s" "hemi (with_dist dc x s) = hemi s"
  "NETWORK (with_dist dc x s) = NETWORK s" "roiidx (with_dist dc x s) = roiidx s"
  "dcols (with_dist dc x s) = (dcols s)(dc \<mapsto> x)"
  by (simp_all add: with_dist_def)

lemma row_distance_with_dist [simp]:
  "row_distance E oc tc r (with_dist dc x s) = row_distance E oc tc r s"
  by (simp add: row_distance_def with_dist_def split: option.splits)

lemma with_dist_twice [simp]: "with_dist dc v (with_dist dc x s) = with_dist dc v s"
  by (simp add: with_dist_def)

lemma calc_distance_column_iff:
  "calc_distance_column E d oc tc dc r = Inr d' \<longleftrightarrow>
     d \<noteq> [] \<and> has_vcol oc d \<and> has_vcol tc d
     \<and> d' = map (\<lambda>s. with_dist dc (projr (row_distance E oc tc r s)) s) d"
proof (cases "d = []")
  case True
  then show ?thesis by (simp add: calc_distance_column_def)
next
  case False
  let ?d0 = "set_dcol dc (-99.9) d"
  have d0: "?d0 = map (with_dist dc (-99.9)) d"
    by (simp add: set_dcol_def with_dist_def)
  have "for_each (distance_row E oc tc dc r) [0..<length ?d0] ?d0 = Inr d' \<longleftrightarrow>
          (\<forall>s \<in> set ?d0. \<exists>v. row_distance E oc tc r s = Inr v)
          \<and> d' = map (\<lambda>s. with_dist dc (projr (row_distance E oc tc r s)) s) ?d0"
    by (rule for_each_rowwise) (simp add: distance_row_rowwise)
  moreover have "length ?d0 = length d" by (simp add: set_dcol_def)
  moreover have "(\<forall>s \<in> set ?d0. \<exists>v. row_distance E oc tc r s = Inr v)
                 \<longleftrightarrow> has_vcol oc d \<and> has_vcol tc d"
    unfolding d0 by (auto simp: has_vcol_def list_all_iff row_distance_Inr_iff)
  moreover have "map (\<lambda>s. with_dist dc (projr (row_distance E oc tc r s)) s) ?d0
               = map (\<lambda>s. with_dist dc (projr (row_distance E oc tc r s)) s) d"
    unfolding d0 by simp
  ultimately show ?thesis using False by (simp add: calc_distance_column_def)
qed

lemma calc_distance_column_Inl:
  assumes "calc_distance_column E d oc tc dc r = Inl e" and "d \<noteq> []"
  shows "e = KeyError \<and> \<not> (has_vcol oc d \<and> has_vcol tc d)"
proof -
  from assms obtain i t where "distance_row E oc tc dc r i t = Inl e"
    unfolding calc_distance_column_def by (auto dest: for_each_error)
  then have "e = KeyError"
    by (auto simp: distance_row_def get_vertex_def
        split: sum.splits option.splits if_splits hemisphere.splits)
  moreover have "\<not> (has_vcol oc d \<and> has_vcol tc d)"
    using assms calc_distance_column_iff [of E d oc tc dc r] by auto
  ultimately show ?thesis by simp
qed

subsection \<open>What a sweep leaves in the frame\<close>

lemma put_vertex_frame [simp]:
  "length (put_vertex i c v t) = length t"
  "map (\<lambda>s. dcols s dc) (put_vertex i c v t) = map (\<lambda>s. dcols s dc) t"
proof -
  show "length (put_vertex i c v t) = length t" by (simp add: put_vertex_def)
  show "map (\<lambda>s. dcols s dc) (put_vertex i c v t) = map (\<lambda>s. dcols s dc) t"
    unfolding put_vertex_def by (rule map_update_same) simp
qed

lemma has_vcol_put_vertex:
  assumes "has_vcol c' t"
  shows "has_vcol c' (put_vertex i c v t)"
proof (cases "i < length t")
  case True
  then have "t ! i \<in> set t" by simp
  with assms have "vcols (t ! i) c' \<noteq> None" by (simp add: has_vcol_def list_all_iff)
  with assms show ?thesis
    unfolding has_vcol_def list_all_iff put_vertex_def
    by (auto dest!: set_update_subset_insert [THEN subsetD])
next
  case False
  with assms show ?thesis by (simp add: put_vertex_def list_update_beyond)
qed

lemma has_vcol_set_vcol: "has_vcol c' (set_vcol c v t) \<longleftrightarrow> c' = c \<or> has_vcol c' t"
  by (cases t) (auto simp: has_vcol_def set_vcol_def list_all_iff)

lemma move_all_preserves:
  assumes "move_all E thisorder c_in c_out func_data sampling_meants search_rois padding_rois
             pcorr num_Lverts netmeants d = Inr d'"
      and "P d" and "\<And>i v t. P t \<Longrightarrow> P (put_vertex i c_out v t)"
  shows "P d'"
proof (rule for_each_preserves [where P = P, OF assms(1) [unfolded move_all_def] assms(2)])
  fix idx t t'
  assume "P t" and "pint_move_vertex E t idx c_in c_out func_data sampling_meants search_rois
      padding_rois pcorr num_Lverts netmeants = Inr t'"
  then show "P t'"
    using assms(3) by (auto simp: pint_move_vertex_new_vertex split: sum.splits)
qed


lemma set_col_frame [simp]:
  "length (set_vcol c v t) = length t" "length (set_dcol dc x t) = length t"
  "map (\<lambda>s. dcols s dc') (set_vcol c v t) = map (\<lambda>s. dcols s dc') t"
  "dc' \<noteq> dc \<Longrightarrow> map (\<lambda>s. dcols s dc') (set_dcol dc x t) = map (\<lambda>s. dcols s dc') t"
  "has_vcol c' (set_dcol dc x t) = has_vcol c' t"
  by (simp_all add: set_vcol_def set_dcol_def has_vcol_def list_all_iff)

lemma with_dist_frame [simp]:
  "dc' \<noteq> dc \<Longrightarrow> map ((\<lambda>s. dcols s dc') \<circ> (\<lambda>s. with_dist dc (f s) s)) t
                  = map (\<lambda>s. dcols s dc') t"
  "has_vcol c' (map (\<lambda>s. with_dist dc (f s) s) t) = has_vcol c' t"
  by (simp_all add: has_vcol_def list_all_iff)

lemma get_dcol_map: "get_dcol d c =
    emap (\<lambda>x. case x of None \<Rightarrow> Inl KeyError | Some v \<Rightarrow> Inr v) (map (\<lambda>s. dcols s c) d)"
  unfolding get_dcol_def by (induction d) (auto split: option.splits sum.splits)

lemma col_max_cong:
  "map (\<lambda>s. dcols s c) d' = map (\<lambda>s. dcols s c) d \<Longrightarrow> col_max d' c = col_max d c"
  by (simp add: col_max_def get_dcol_map)

lemma new_columns_frame [simp]:
  "length (new_columns k t) = length t"
  "has_vcol c' (new_columns k t) \<longleftrightarrow> c' = Vertex k \<or> has_vcol c' t"
  "j \<noteq> k \<Longrightarrow> map (\<lambda>s. dcols s (Dist j)) (new_columns k t) = map (\<lambda>s. dcols s (Dist j)) t"
  by (simp_all add: new_columns_def has_vcol_set_vcol)

lemma sweep_Inr:
  assumes "sweep E cfg func_data func_zeros pcorr num_Lverts k c d = Inr (d3, m)"
  shows "length d3 = length d" and "col_max d3 (Dist k) = Inr m" and "has_vcol (Vertex k) d3"
    and "\<And>c'. has_vcol c' d \<Longrightarrow> has_vcol c' d3"
    and "\<And>j. j \<noteq> k \<Longrightarrow> map (\<lambda>s. dcols s (Dist j)) d3 = map (\<lambda>s. dcols s (Dist j)) d"
proof -
  let ?d1 = "new_columns k d"
  from assms obtain sm se pa nm d2 dists where
        mv: "move_all E (shuffle E k [0..<length ?d1]) c (Vertex k) func_data sm se pa pcorr
               num_Lverts nm ?d1 = Inr d2"
    and dc: "calc_distance_column E d2 c (Vertex k) (Dist k) (RADIUS_SEARCH cfg) = Inr d3"
    and g: "get_dcol d3 (Dist k) = Inr dists" and mx: "py_max dists = Inr m"
    unfolding sweep_def Let_def by (auto split: sum.splits prod.splits)
  from dc have d3: "d3 = map (\<lambda>s. with_dist (Dist k)
        (projr (row_distance E c (Vertex k) (RADIUS_SEARCH cfg) s)) s) d2"
    by (simp add: calc_distance_column_iff)
  have len2: "length d2 = length ?d1"
    by (rule move_all_preserves [OF mv]) simp_all
  show "length d3 = length d" using len2 by (simp add: d3)
  show "col_max d3 (Dist k) = Inr m" using g mx by (simp add: col_max_def)
  have "has_vcol (Vertex k) ?d1" by simp
  then have "has_vcol (Vertex k) d2"
    by (rule move_all_preserves [OF mv]) (rule has_vcol_put_vertex)
  then show "has_vcol (Vertex k) d3" by (simp add: d3)
  show "has_vcol c' d3" if "has_vcol c' d" for c'
  proof -
    from that have "has_vcol c' ?d1" by simp
    then have "has_vcol c' d2"
      by (rule move_all_preserves [OF mv]) (rule has_vcol_put_vertex)
    then show ?thesis by (simp add: d3)
  qed
  show "map (\<lambda>s. dcols s (Dist j)) d3 = map (\<lambda>s. dcols s (Dist j)) d" if "j \<noteq> k" for j
  proof -
    have "map (\<lambda>s. dcols s (Dist j)) d2 = map (\<lambda>s. dcols s (Dist j)) ?d1"
      by (rule move_all_preserves [OF mv]) simp_all
    with that show ?thesis by (simp add: d3)
  qed
qed

lemma get_vcol_has: "has_vcol c t \<Longrightarrow> get_vcol t c = Inr (map (\<lambda>s. the (vcols s c)) t)"
  unfolding get_vcol_def has_vcol_def list_all_iff
  by (rule emap_map) auto

lemma assign_vcol_frame:
  assumes "length vs = length t"
  shows "map (\<lambda>s. dcols s dc) (assign_vcol c vs t) = map (\<lambda>s. dcols s dc) t"
    and "has_vcol c (assign_vcol c vs t)"
    and "has_vcol c' t \<Longrightarrow> has_vcol c' (assign_vcol c vs t)"
  using assms [symmetric]
  by (induction t vs rule: list_induct2) (simp_all add: assign_vcol_def has_vcol_def)

subsection \<open>The loop as a sequence of sweeps\<close>

lemma nth_sweep_shift:
  "nth_sweep E cfg func_data func_zeros pcorr num_Lverts start c d (Suc k) =
     (case sweep E cfg func_data func_zeros pcorr num_Lverts start c d of
        Inl e \<Rightarrow> Inl e
      | Inr (d1, m1) \<Rightarrow>
          nth_sweep E cfg func_data func_zeros pcorr num_Lverts (Suc start) (Vertex start) d1 k)"
proof (induction k)
  case 0
  show ?case by (simp add: nth_sweep.simps split: sum.splits prod.splits)
next
  case (Suc k)
  show ?case
  proof (cases "sweep E cfg func_data func_zeros pcorr num_Lverts start c d")
    case (Inl e)
    with Suc have "nth_sweep E cfg func_data func_zeros pcorr num_Lverts start c d (Suc k)
        = Inl e" by simp
    with Inl show ?thesis
      by (simp del: nth_sweep.simps add: nth_sweep.simps(2) [of _ _ _ _ _ _ _ _ _ "Suc k"])
  next
    case (Inr r)
    obtain d1 m1 where r: "r = (d1, m1)" by (cases r)
    with Suc Inr have "nth_sweep E cfg func_data func_zeros pcorr num_Lverts start c d (Suc k)
        = nth_sweep E cfg func_data func_zeros pcorr num_Lverts (Suc start) (Vertex start) d1 k"
      by simp
    with Inr r show ?thesis
      by (simp del: nth_sweep.simps add: nth_sweep.simps(2) [of _ _ _ _ _ _ _ _ _ "Suc k"]
          nth_sweep.simps(2) [of _ _ _ _ _ _ "Suc start" _ _ k] split: sum.splits prod.splits)
  qed
qed

lemma pint_loop_sweeps:
  assumes "k < start + 50" "1 < m"
  shows "\<exists>n. 0 < n \<and> k + n \<le> start + 50
      \<and> (\<forall>j<n - 1. \<exists>dj mj. nth_sweep E cfg func_data func_zeros pcorr num_Lverts k c d j
                            = Inr (dj, mj) \<and> 1 < mj)
      \<and> (case nth_sweep E cfg func_data func_zeros pcorr num_Lverts k c d (n - 1) of
            Inl e \<Rightarrow> pint_loop E cfg func_data func_zeros pcorr num_Lverts start k m c d = Inl e
          | Inr (dn, mn) \<Rightarrow>
              (mn \<le> 1 \<or> k + n = start + 50)
              \<and> pint_loop E cfg func_data func_zeros pcorr num_Lverts start k m c d
                  = Inr (dn, mn, Vertex (k + n - 1), k + n))"
  using assms
proof (induction E cfg func_data func_zeros pcorr num_Lverts start k m c d
        rule: pint_loop.induct)
  case (1 E cfg func_data func_zeros pcorr num_Lverts start k m c d)
  note unfold = pint_loop.simps [of E cfg func_data func_zeros pcorr num_Lverts start k m c d]
  from "1.prems" have guard: "k < start + 50 \<and> 1 < m" by simp
  let ?ns = "nth_sweep E cfg func_data func_zeros pcorr num_Lverts k c d"
  show ?case
  proof (cases "sweep E cfg func_data func_zeros pcorr num_Lverts k c d")
    case (Inl e)
    with guard have "pint_loop E cfg func_data func_zeros pcorr num_Lverts start k m c d = Inl e"
      by (simp add: unfold)
    with Inl guard show ?thesis
      by (intro exI [of _ 1]) (simp add: nth_sweep.simps)
  next
    case (Inr r)
    obtain d1 m1 where r: "r = (d1, m1)" by (cases r)
    have step: "pint_loop E cfg func_data func_zeros pcorr num_Lverts start k m c d
        = pint_loop E cfg func_data func_zeros pcorr num_Lverts start (k + 1) m1 (Vertex k) d1"
      using guard Inr r by (simp add: unfold)
    show ?thesis
    proof (cases "k + 1 < start + 50 \<and> 1 < m1")
      case False
      then have "pint_loop E cfg func_data func_zeros pcorr num_Lverts start (k + 1) m1
          (Vertex k) d1 = Inr (d1, m1, Vertex k, k + 1)"
        by (simp only: pint_loop.simps [of E cfg func_data func_zeros pcorr num_Lverts start
              "k + 1" m1 "Vertex k" d1] if_False)
      with step have res: "pint_loop E cfg func_data func_zeros pcorr num_Lverts start k m c d
          = Inr (d1, m1, Vertex k, k + 1)" by simp
      from False guard have "m1 \<le> 1 \<or> k + 1 = start + 50" by auto
      with Inr r res guard show ?thesis
        by (intro exI [of _ 1]) (simp add: nth_sweep.simps)
    next
      case True
      note IH = "1.IH" [OF guard Inr, unfolded r fst_conv snd_conv]
      let ?ns' = "nth_sweep E cfg func_data func_zeros pcorr num_Lverts (k + 1) (Vertex k) d1"
      from IH True obtain n where n: "0 < n" "k + 1 + n \<le> start + 50"
        and mid: "\<forall>j<n - 1. \<exists>dj mj. ?ns' j = Inr (dj, mj) \<and> 1 < mj"
        and last: "case ?ns' (n - 1) of
            Inl e \<Rightarrow> pint_loop E cfg func_data func_zeros pcorr num_Lverts start (k + 1) m1
                       (Vertex k) d1 = Inl e
          | Inr (dn, mn) \<Rightarrow>
              (mn \<le> 1 \<or> k + 1 + n = start + 50)
              \<and> pint_loop E cfg func_data func_zeros pcorr num_Lverts start (k + 1) m1
                   (Vertex k) d1 = Inr (dn, mn, Vertex (k + 1 + n - 1), k + 1 + n)"
        by blast
      have shift: "?ns (Suc j) = ?ns' j" for j
        by (simp del: nth_sweep.simps add: nth_sweep_shift Inr r)
      have zero: "?ns 0 = Inr (d1, m1)" by (simp add: nth_sweep.simps Inr r)
      have mid': "\<exists>dj mj. ?ns j = Inr (dj, mj) \<and> 1 < mj" if "j < Suc n - 1" for j
      proof (cases j)
        case 0
        with zero True show ?thesis by simp
      next
        case (Suc i)
        with that have "i < n - 1" by simp
        with mid Suc show ?thesis by (simp add: shift)
      qed
      from n have sn: "Suc n - 1 = Suc (n - 1)" by simp
      have last': "case ?ns (Suc n - 1) of
            Inl e \<Rightarrow> pint_loop E cfg func_data func_zeros pcorr num_Lverts start k m c d = Inl e
          | Inr (dn, mn) \<Rightarrow>
              (mn \<le> 1 \<or> k + Suc n = start + 50)
              \<and> pint_loop E cfg func_data func_zeros pcorr num_Lverts start k m c d
                  = Inr (dn, mn, Vertex (k + Suc n - 1), k + Suc n)"
        using last unfolding sn shift step by (simp split: sum.splits prod.splits)
      from n mid' last' show ?thesis
        by (intro exI [of _ "Suc n"]) simp
    qed
  qed
qed


lemma py_max_iff: "py_max xs = Inr m \<longleftrightarrow> xs \<noteq> [] \<and> m = Max (set xs)"
  by (cases xs) (auto simp: py_max_def Max.set_eq_fold [symmetric])

lemma has_vcol_map: "has_vcol c t = list_all (\<lambda>x. x \<noteq> None) (map (\<lambda>s. vcols s c) t)"
  by (simp add: has_vcol_def list_all_iff)

lemma put_vertex_other:
  assumes "c' \<noteq> c"
  shows "map (\<lambda>s. vcols s c') (put_vertex i c v t) = map (\<lambda>s. vcols s c') t"
  unfolding put_vertex_def using assms by (intro map_update_same) simp

lemma has_vcol_put_vertex_other:
  "c' \<noteq> c \<Longrightarrow> has_vcol c' (put_vertex i c v t) = has_vcol c' t"
  by (simp add: has_vcol_map put_vertex_other)

lemma has_vcol_assign_other:
  assumes "length vs = length t" "c' \<noteq> c"
  shows "has_vcol c' (assign_vcol c vs t) = has_vcol c' t"
  using assms(1) [symmetric] assms(2)
  by (induction t vs rule: list_induct2) (simp_all add: assign_vcol_def has_vcol_def)

lemma sweep_frame:
  assumes "sweep E cfg func_data func_zeros pcorr num_Lverts k c d = Inr (d3, m)"
  shows "d3 \<noteq> []"
    and "\<exists>xs. get_dcol d3 (Dist k) = Inr xs \<and> xs \<noteq> [] \<and> m = Max (set xs)
           \<and> map (row_distance E c (Vertex k) (RADIUS_SEARCH cfg)) d3 = map Inr xs"
    and "\<And>c'. c' \<noteq> Vertex k \<Longrightarrow> has_vcol c' d3 = has_vcol c' d"
proof -
  let ?d1 = "new_columns k d"
  let ?rd = "row_distance E c (Vertex k) (RADIUS_SEARCH cfg)"
  from assms obtain sm se pa nm d2 dists where
        mv: "move_all E (shuffle E k [0..<length ?d1]) c (Vertex k) func_data sm se pa pcorr
               num_Lverts nm ?d1 = Inr d2"
    and dc: "calc_distance_column E d2 c (Vertex k) (Dist k) (RADIUS_SEARCH cfg) = Inr d3"
    and g: "get_dcol d3 (Dist k) = Inr dists" and mx: "py_max dists = Inr m"
    unfolding sweep_def Let_def by (auto split: sum.splits prod.splits)
  from dc have ne: "d2 \<noteq> []" and has: "has_vcol c d2" "has_vcol (Vertex k) d2"
    and d3: "d3 = map (\<lambda>s. with_dist (Dist k) (projr (?rd s)) s) d2"
    by (simp_all add: calc_distance_column_iff)
  from ne show "d3 \<noteq> []" by (simp add: d3)
  have rd: "?rd s = Inr (projr (?rd s))" if "s \<in> set d2" for s
  proof -
    from has that have "vcols s c \<noteq> None \<and> vcols s (Vertex k) \<noteq> None"
      by (simp add: has_vcol_def list_all_iff)
    then obtain v where "?rd s = Inr v" using row_distance_Inr_iff by blast
    then show ?thesis by simp
  qed
  let ?xs = "map (\<lambda>s. projr (?rd s)) d2"
  have "get_dcol d3 (Dist k) = Inr (map (\<lambda>s. the (dcols s (Dist k))) d3)"
    unfolding get_dcol_def by (rule emap_map) (auto simp: d3)
  also have "map (\<lambda>s. the (dcols s (Dist k))) d3 = ?xs"
    by (simp add: d3)
  finally have "get_dcol d3 (Dist k) = Inr ?xs" .
  with g have dists: "dists = ?xs" by simp
  have "map ?rd d3 = map ?rd d2" by (simp add: d3)
  also have "\<dots> = map Inr ?xs" using rd by simp
  finally have "map ?rd d3 = map Inr ?xs" .
  with g mx dists show "\<exists>xs. get_dcol d3 (Dist k) = Inr xs \<and> xs \<noteq> [] \<and> m = Max (set xs)
           \<and> map ?rd d3 = map Inr xs"
    by (auto simp: py_max_iff)
  show "has_vcol c' d3 = has_vcol c' d" if "c' \<noteq> Vertex k" for c'
  proof -
    have "has_vcol c' d2 = has_vcol c' ?d1"
      by (rule move_all_preserves [OF mv]) (simp_all add: has_vcol_put_vertex_other that)
    with that show ?thesis by (simp add: d3)
  qed
qed

lemma nth_sweep_frame:
  assumes "nth_sweep E cfg func_data func_zeros pcorr num_Lverts start c d k = Inr (dk, mk)"
  shows "dk \<noteq> [] \<and> has_vcol (Vertex (start + k)) dk
       \<and> (has_vcol Tvertex dk \<longleftrightarrow> has_vcol Tvertex d)"
  using assms
proof (induction k arbitrary: dk mk)
  case 0
  then have sw: "sweep E cfg func_data func_zeros pcorr num_Lverts start c d = Inr (dk, mk)"
    by (simp add: nth_sweep.simps)
  from sweep_frame(1,3) [OF sw] sweep_Inr(3) [OF sw] show ?case by simp
next
  case (Suc k)
  from Suc.prems obtain dj mj where
        prev: "nth_sweep E cfg func_data func_zeros pcorr num_Lverts start c d k = Inr (dj, mj)"
    and sw: "sweep E cfg func_data func_zeros pcorr num_Lverts (start + Suc k)
               (Vertex (start + k)) dj = Inr (dk, mk)"
    by (auto simp: nth_sweep.simps split: sum.splits prod.splits)
  from Suc.IH [OF prev] sweep_frame(1,3) [OF sw] sweep_Inr(3) [OF sw] show ?case by simp
qed

lemma get_vcol_map: "get_vcol d c =
    emap (\<lambda>x. case x of None \<Rightarrow> Inl KeyError | Some v \<Rightarrow> Inr v) (map (\<lambda>s. vcols s c) d)"
  unfolding get_vcol_def by (induction d) (auto split: option.splits sum.splits)

lemma assign_vcol_columns:
  assumes "length vs = length t"
  shows "c \<noteq> c' \<Longrightarrow> map (\<lambda>s. vcols s c') (assign_vcol c vs t) = map (\<lambda>s. vcols s c') t"
    and "map (\<lambda>s. vcols s c) (assign_vcol c vs t) = map Some vs"
  using assms [symmetric]
  by (induction t vs rule: list_induct2) (simp_all add: assign_vcol_def)

lemma iterate_pint_after_loop:
  assumes loop: "pint_loop E cfg func_data func_zeros pcorr num_Lverts start start 10 c d
                   = Inr (dn, m, Vertex j, n)"
      and ne: "dn \<noteq> []" and has: "has_vcol (Vertex j) dn"
  shows "if has_vcol Tvertex dn
         then \<exists>d'. iterate_pint E cfg d c func_data func_zeros pcorr num_Lverts start
                      = Inr (d', m, Dist (n - 1), n)
                  \<and> (\<forall>dc. dc \<noteq> Distance \<longrightarrow> get_dcol d' dc = get_dcol dn dc)
                  \<and> (\<forall>vc. vc \<noteq> Ivertex \<longrightarrow> get_vcol d' vc = get_vcol dn vc)
                  \<and> get_vcol d' Ivertex = get_vcol dn (Vertex j)
         else iterate_pint E cfg d c func_data func_zeros pcorr num_Lverts start = Inl KeyError"
proof -
  let ?vs = "map (\<lambda>s. the (vcols s (Vertex j))) dn"
  let ?d1 = "assign_vcol Ivertex ?vs dn"
  from has have vs: "get_vcol dn (Vertex j) = Inr ?vs" by (rule get_vcol_has)
  have it: "iterate_pint E cfg d c func_data func_zeros pcorr num_Lverts start
      = (case calc_distance_column E ?d1 Tvertex Ivertex Distance 150 of
           Inl e \<Rightarrow> Inl e
         | Inr d2 \<Rightarrow> Inr (d2, m, Dist (n - 1), n))"
    by (simp add: iterate_pint_def loop vs)
  have ne1: "?d1 \<noteq> []" using ne by (cases dn) (simp_all add: assign_vcol_def)
  have hasI: "has_vcol Ivertex ?d1" by (rule assign_vcol_frame(2)) simp
  have hasT: "has_vcol Tvertex ?d1 = has_vcol Tvertex dn"
    by (rule has_vcol_assign_other) simp_all
  show ?thesis
  proof (cases "has_vcol Tvertex dn")
    case True
    let ?d' = "map (\<lambda>s. with_dist Distance (projr (row_distance E Tvertex Ivertex 150 s)) s) ?d1"
    from True hasT hasI ne1
    have "calc_distance_column E ?d1 Tvertex Ivertex Distance 150 = Inr ?d'"
      by (simp add: calc_distance_column_iff)
    with it have "iterate_pint E cfg d c func_data func_zeros pcorr num_Lverts start
        = Inr (?d', m, Dist (n - 1), n)" by simp
    moreover have "get_dcol ?d' dc = get_dcol dn dc" if "dc \<noteq> Distance" for dc
    proof -
      have "map (\<lambda>s. dcols s dc) ?d' = map (\<lambda>s. dcols s dc) ?d1"
        using that by (simp add: comp_def)
      also have "\<dots> = map (\<lambda>s. dcols s dc) dn"
        by (rule assign_vcol_frame(1)) simp
      finally show ?thesis by (simp add: get_dcol_map)
    qed
    moreover have same: "map (\<lambda>s. vcols s vc) ?d' = map (\<lambda>s. vcols s vc) ?d1" for vc
      by (simp add: comp_def)
    have "get_vcol ?d' vc = get_vcol dn vc" if "vc \<noteq> Ivertex" for vc
    proof -
      have "map (\<lambda>s. vcols s vc) ?d1 = map (\<lambda>s. vcols s vc) dn"
        using that by (intro assign_vcol_columns(1)) auto
      with same [of vc] show ?thesis by (simp add: get_vcol_map)
    qed
    moreover have "get_vcol ?d' Ivertex = get_vcol dn (Vertex j)"
    proof -
      have "map (\<lambda>s. vcols s Ivertex) ?d1 = map Some ?vs"
        by (rule assign_vcol_columns(2)) simp
      with same [of Ivertex] have m: "map (\<lambda>s. vcols s Ivertex) ?d' = map Some ?vs"
        by simp
      have "has_vcol Ivertex ?d'" using hasI by simp
      then have "get_vcol ?d' Ivertex = Inr (map (\<lambda>s. the (vcols s Ivertex)) ?d')"
        by (rule get_vcol_has)
      also have "map (\<lambda>s. the (vcols s Ivertex)) ?d' = map the (map (\<lambda>s. vcols s Ivertex) ?d')"
        by (simp add: comp_def)
      also have "\<dots> = ?vs"
        unfolding m by (simp add: comp_def)
      finally show ?thesis using vs by simp
    qed
    ultimately show ?thesis using True by auto
  next
    case False
    with hasT have no: "\<not> has_vcol Tvertex ?d1" by simp
    obtain e where e: "calc_distance_column E ?d1 Tvertex Ivertex Distance 150 = Inl e"
      using no calc_distance_column_iff [of E ?d1 Tvertex Ivertex Distance 150]
      by (cases "calc_distance_column E ?d1 Tvertex Ivertex Distance 150") auto
    from calc_distance_column_Inl [OF e ne1] have "e = KeyError" by simp
    with e it False show ?thesis by simp
  qed
qed

lemma iterate_pint_sweeps:
  "\<exists>n. 0 < n \<and> n \<le> 50
      \<and> (\<forall>k<n - 1. \<exists>dk mk. nth_sweep E cfg func_data func_zeros pcorr num_Lverts start c d k
                             = Inr (dk, mk) \<and> 1 < mk)
      \<and> (case nth_sweep E cfg func_data func_zeros pcorr num_Lverts start c d (n - 1) of
           Inl e \<Rightarrow> iterate_pint E cfg d c func_data func_zeros pcorr num_Lverts start = Inl e
         | Inr (dn, m) \<Rightarrow>
             (m \<le> 1 \<or> n = 50)
             \<and> (if has_vcol Tvertex d
                then \<exists>d' xs. iterate_pint E cfg d c func_data func_zeros pcorr num_Lverts start
                                = Inr (d', m, Dist (start + n - 1), start + n)
                            \<and> get_dcol d' (Dist (start + n - 1)) = Inr xs
                            \<and> xs \<noteq> [] \<and> m = Max (set xs)
                            \<and> (\<forall>dc. dc \<noteq> Distance \<longrightarrow> get_dcol d' dc = get_dcol dn dc)
                            \<and> (\<forall>vc. vc \<noteq> Ivertex \<longrightarrow> get_vcol d' vc = get_vcol dn vc)
                            \<and> get_vcol d' Ivertex = get_vcol dn (Vertex (start + n - 1))
                else iterate_pint E cfg d c func_data func_zeros pcorr num_Lverts start
                       = Inl KeyError))"
proof -
  let ?ns = "nth_sweep E cfg func_data func_zeros pcorr num_Lverts start c d"
  let ?it = "iterate_pint E cfg d c func_data func_zeros pcorr num_Lverts start"
  let ?loop = "pint_loop E cfg func_data func_zeros pcorr num_Lverts start start 10 c d"
  have "start < start + 50" "(1::real) < 10" by simp_all
  from pint_loop_sweeps [OF this, of E cfg func_data func_zeros pcorr num_Lverts c d]
  obtain n where n: "0 < n" "n \<le> 50"
    and mid: "\<forall>j<n - 1. \<exists>dj mj. ?ns j = Inr (dj, mj) \<and> 1 < mj"
    and last: "case ?ns (n - 1) of
            Inl e \<Rightarrow> ?loop = Inl e
          | Inr (dn, mn) \<Rightarrow> (mn \<le> 1 \<or> start + n = start + 50)
              \<and> ?loop = Inr (dn, mn, Vertex (start + n - 1), start + n)"
    by auto
  have "case ?ns (n - 1) of
           Inl e \<Rightarrow> ?it = Inl e
         | Inr (dn, m) \<Rightarrow>
             (m \<le> 1 \<or> n = 50)
             \<and> (if has_vcol Tvertex d
                then \<exists>d' xs. ?it = Inr (d', m, Dist (start + n - 1), start + n)
                            \<and> get_dcol d' (Dist (start + n - 1)) = Inr xs
                            \<and> xs \<noteq> [] \<and> m = Max (set xs)
                            \<and> (\<forall>dc. dc \<noteq> Distance \<longrightarrow> get_dcol d' dc = get_dcol dn dc)
                            \<and> (\<forall>vc. vc \<noteq> Ivertex \<longrightarrow> get_vcol d' vc = get_vcol dn vc)
                            \<and> get_vcol d' Ivertex = get_vcol dn (Vertex (start + n - 1))
                else ?it = Inl KeyError)"
  proof (cases "?ns (n - 1)")
    case (Inl e)
    with last have "?loop = Inl e" by simp
    then have "?it = Inl e" by (simp add: iterate_pint_def)
    with Inl show ?thesis by simp
  next
    case (Inr r)
    obtain dn m where r: "r = (dn, m)" by (cases r)
    from last Inr r have stop: "m \<le> 1 \<or> n = 50"
      and loop: "?loop = Inr (dn, m, Vertex (start + n - 1), start + n)" by simp_all
    from n have idx: "start + n - 1 = start + (n - 1)" by simp
    note F = nth_sweep_frame [OF Inr [unfolded r], folded idx]
    from F have ne: "dn \<noteq> []" and has: "has_vcol (Vertex (start + n - 1)) dn"
      and tv: "has_vcol Tvertex dn \<longleftrightarrow> has_vcol Tvertex d" by blast+
    have col: "\<exists>xs. get_dcol dn (Dist (start + n - 1)) = Inr xs \<and> xs \<noteq> [] \<and> m = Max (set xs)"
    proof (cases "n - 1")
      case 0
      with Inr r have sw: "sweep E cfg func_data func_zeros pcorr num_Lverts start c d
          = Inr (dn, m)" by (simp add: nth_sweep.simps)
      from sweep_frame(2) [OF sw] 0 idx show ?thesis by auto
    next
      case (Suc i)
      with Inr r obtain dj mj where
        sw: "sweep E cfg func_data func_zeros pcorr num_Lverts (start + Suc i)
               (Vertex (start + i)) dj = Inr (dn, m)"
        by (auto simp: nth_sweep.simps split: sum.splits prod.splits)
      from sweep_frame(2) [OF sw] Suc idx show ?thesis by auto
    qed
    note A = iterate_pint_after_loop [OF loop ne has]
    have "if has_vcol Tvertex d
          then \<exists>d' xs. ?it = Inr (d', m, Dist (start + n - 1), start + n)
                      \<and> get_dcol d' (Dist (start + n - 1)) = Inr xs
                      \<and> xs \<noteq> [] \<and> m = Max (set xs)
                      \<and> (\<forall>dc. dc \<noteq> Distance \<longrightarrow> get_dcol d' dc = get_dcol dn dc)
                      \<and> (\<forall>vc. vc \<noteq> Ivertex \<longrightarrow> get_vcol d' vc = get_vcol dn vc)
                      \<and> get_vcol d' Ivertex = get_vcol dn (Vertex (start + n - 1))
          else ?it = Inl KeyError"
    proof (cases "has_vcol Tvertex d")
      case True
      with A tv obtain d' where it: "?it = Inr (d', m, Dist (start + n - 1), start + n)"
        and same: "\<forall>dc. dc \<noteq> Distance \<longrightarrow> get_dcol d' dc = get_dcol dn dc"
        and vsame: "\<forall>vc. vc \<noteq> Ivertex \<longrightarrow> get_vcol d' vc = get_vcol dn vc"
        and iv: "get_vcol d' Ivertex = get_vcol dn (Vertex (start + n - 1))"
        by auto
      from same have "get_dcol d' (Dist (start + n - 1)) = get_dcol dn (Dist (start + n - 1))"
        by simp
      with col it same vsame iv True show ?thesis by auto
    next
      case False
      with A tv show ?thesis by simp
    qed
    with stop Inr r show ?thesis by simp
  qed
  with n mid show "\<exists>n. 0 < n \<and> n \<le> 50
      \<and> (\<forall>k<n - 1. \<exists>dk mk. ?ns k = Inr (dk, mk) \<and> 1 < mk)
      \<and> (case ?ns (n - 1) of
           Inl e \<Rightarrow> ?it = Inl e
         | Inr (dn, m) \<Rightarrow>
             (m \<le> 1 \<or> n = 50)
             \<and> (if has_vcol Tvertex d
                then \<exists>d' xs. ?it = Inr (d', m, Dist (start + n - 1), start + n)
                            \<and> get_dcol d' (Dist (start + n - 1)) = Inr xs
                            \<and> xs \<noteq> [] \<and> m = Max (set xs)
                            \<and> (\<forall>dc. dc \<noteq> Distance \<longrightarrow> get_dcol d' dc = get_dcol dn dc)
                            \<and> (\<forall>vc. vc \<noteq> Ivertex \<longrightarrow> get_vcol d' vc = get_vcol dn vc)
                            \<and> get_vcol d' Ivertex = get_vcol dn (Vertex (start + n - 1))
                else ?it = Inl KeyError))"
    by blast
qed

lemma iterate_pint_stops_at:
  assumes j: "j < 50"
      and before: "\<forall>k<j. \<exists>dk mk. nth_sweep E cfg func_data func_zeros pcorr num_Lverts start c d k
                                 = Inr (dk, mk) \<and> 1 < mk"
  shows "case nth_sweep E cfg func_data func_zeros pcorr num_Lverts start c d j of
           Inl e \<Rightarrow> iterate_pint E cfg d c func_data func_zeros pcorr num_Lverts start = Inl e
         | Inr (dn, m) \<Rightarrow>
             (m \<le> 1 \<or> j = 49) \<and> has_vcol Tvertex d \<longrightarrow>
             (\<exists>d'. iterate_pint E cfg d c func_data func_zeros pcorr num_Lverts start
                     = Inr (d', m, Dist (start + j), start + j + 1))"
proof -
  let ?ns = "nth_sweep E cfg func_data func_zeros pcorr num_Lverts start c d"
  let ?it = "iterate_pint E cfg d c func_data func_zeros pcorr num_Lverts start"
  from iterate_pint_sweeps [of E cfg func_data func_zeros pcorr num_Lverts start c d]
  obtain n where n: "0 < n" "n \<le> 50"
    and mid: "\<forall>k<n - 1. \<exists>dk mk. ?ns k = Inr (dk, mk) \<and> 1 < mk"
    and last: "case ?ns (n - 1) of
           Inl e \<Rightarrow> ?it = Inl e
         | Inr (dn, m) \<Rightarrow>
             (m \<le> 1 \<or> n = 50)
             \<and> (if has_vcol Tvertex d
                then \<exists>d' xs. ?it = Inr (d', m, Dist (start + n - 1), start + n)
                            \<and> get_dcol d' (Dist (start + n - 1)) = Inr xs
                            \<and> xs \<noteq> [] \<and> m = Max (set xs)
                            \<and> (\<forall>dc. dc \<noteq> Distance \<longrightarrow> get_dcol d' dc = get_dcol dn dc)
                            \<and> (\<forall>vc. vc \<noteq> Ivertex \<longrightarrow> get_vcol d' vc = get_vcol dn vc)
                            \<and> get_vcol d' Ivertex = get_vcol dn (Vertex (start + n - 1))
                else ?it = Inl KeyError)"
    by blast
  have not_before: "\<not> n - 1 < j"
  proof
    assume lt: "n - 1 < j"
    with before obtain dk mk where k: "?ns (n - 1) = Inr (dk, mk)" "1 < mk" by blast
    with last have "n = 50" by simp
    with lt j show False by simp
  qed
  show ?thesis
  proof (cases "?ns j")
    case (Inl e)
    have "\<not> j < n - 1"
    proof
      assume "j < n - 1"
      with mid obtain dk mk where "?ns j = Inr (dk, mk)" by blast
      with Inl show False by simp
    qed
    with not_before have "n - 1 = j" by simp
    with last Inl show ?thesis by simp
  next
    case (Inr r)
    obtain dn m where r: "r = (dn, m)" by (cases r)
    have "\<exists>d'. ?it = Inr (d', m, Dist (start + j), start + j + 1)"
      if stop: "m \<le> 1 \<or> j = 49" and has: "has_vcol Tvertex d"
    proof -
      have "\<not> j < n - 1"
      proof
        assume lt: "j < n - 1"
        with mid Inr r have "1 < m" by auto
        with stop have "j = 49" by simp
        with lt n show False by simp
      qed
      with not_before have nj: "n - 1 = j" by simp
      with n have "start + n - 1 = start + j" "start + n = start + j + 1" by simp_all
      with last Inr r nj has show ?thesis by auto
    qed
    with Inr r show ?thesis by simp
  qed
qed

text \<open>
  Claim C3. The Iteration Controller halts on every input: the loop of \<open>iterate_pint\<close>
  is a total function, its measure being the number of sweeps left of the budget of 50.
  What it returns is fixed by the sweeps of the pass, made one after the other. There is a
  number \<open>n\<close> of sweeps, between 1 and 50: every sweep before the last one ended normally
  with a maximum displacement above 1; if the last one raised, \<open>iterate_pint\<close> raises
  the same exception; if the last one ended normally, its maximum is at most 1 (converged)
  or it is sweep 50 of the pass (exhausted), and in either case \<open>iterate_pint\<close> returns
  normally with that maximum, the name of the last distance column and
  \<open>iter_num = start_iter + n\<close> (only a frame without the \<open>tvertex\<close> column makes the final
  distance raise KeyError). So the loop stops at the first sweep that converges, never makes
  more than 50 sweeps, and using up the budget raises nothing. Said the other way round:
  whenever the sweeps before sweep \<open>j\<close> of the pass all ended with a maximum above 1, an
  exception of sweep \<open>j\<close> is the exception of \<open>iterate_pint\<close>, and a sweep \<open>j\<close> that
  converges, or is the last of the budget, makes \<open>iterate_pint\<close> return normally with
  the maximum of that sweep and \<open>iter_num = start_iter + j + 1\<close>. The returned frame is the
  frame of the last sweep with the columns \<open>ivertex\<close> (a copy of the last vertex column)
  and \<open>distance\<close> added. The reported maximum is the largest entry of the last distance
  column of the returned frame; and the maximum of any
  sweep is the largest entry of the column that the sweep wrote, whose entries are the
  distances on the surface between each seed's incoming and outgoing vertex.
\<close>

theorem iterate_pint_halts:
  "(\<exists>n. 0 < n \<and> n \<le> 50
      \<and> (\<forall>k<n - 1. \<exists>dk mk. nth_sweep E cfg func_data func_zeros pcorr num_Lverts start c d k
                             = Inr (dk, mk) \<and> 1 < mk)
      \<and> (case nth_sweep E cfg func_data func_zeros pcorr num_Lverts start c d (n - 1) of
           Inl e \<Rightarrow> iterate_pint E cfg d c func_data func_zeros pcorr num_Lverts start = Inl e
         | Inr (dn, m) \<Rightarrow>
             (m \<le> 1 \<or> n = 50)
             \<and> (if has_vcol Tvertex d
                then \<exists>d' xs. iterate_pint E cfg d c func_data func_zeros pcorr num_Lverts start
                                = Inr (d', m, Dist (start + n - 1), start + n)
                            \<and> get_dcol d' (Dist (start + n - 1)) = Inr xs
                            \<and> xs \<noteq> [] \<and> m = Max (set xs)
                            \<and> (\<forall>dc. dc \<noteq> Distance \<longrightarrow> get_dcol d' dc = get_dcol dn dc)
                            \<and> (\<forall>vc. vc \<noteq> Ivertex \<longrightarrow> get_vcol d' vc = get_vcol dn vc)
                            \<and> get_vcol d' Ivertex = get_vcol dn (Vertex (start + n - 1))
                else iterate_pint E cfg d c func_data func_zeros pcorr num_Lverts start
                       = Inl KeyError)))
   \<and> (j < 50
        \<and> (\<forall>k<j. \<exists>dk mk. nth_sweep E cfg func_data func_zeros pcorr num_Lverts start c d k
                          = Inr (dk, mk) \<and> 1 < mk) \<longrightarrow>
        (case nth_sweep E cfg func_data func_zeros pcorr num_Lverts start c d j of
           Inl e \<Rightarrow> iterate_pint E cfg d c func_data func_zeros pcorr num_Lverts start = Inl e
         | Inr (dn, m) \<Rightarrow>
             (m \<le> 1 \<or> j = 49) \<and> has_vcol Tvertex d \<longrightarrow>
             (\<exists>d'. iterate_pint E cfg d c func_data func_zeros pcorr num_Lverts start
                     = Inr (d', m, Dist (start + j), start + j + 1))))
   \<and> (sweep E cfg func_data func_zeros pcorr num_Lverts k c d = Inr (d1, m1) \<longrightarrow>
        (\<exists>xs. get_dcol d1 (Dist k) = Inr xs \<and> xs \<noteq> [] \<and> m1 = Max (set xs)
            \<and> map (row_distance E c (Vertex k) (RADIUS_SEARCH cfg)) d1 = map Inr xs))"
  using iterate_pint_sweeps [of E cfg func_data func_zeros pcorr num_Lverts start c d]
    iterate_pint_stops_at [of j E cfg func_data func_zeros pcorr num_Lverts start c d]
    sweep_frame(2) [of E cfg func_data func_zeros pcorr num_Lverts k c d d1 m1]
  by blast

section \<open>The run on the small world, evaluated\<close>

lemma sweep_steps:
  assumes "d1 = new_columns k d"
      and "sweep_masks E cfg d1 c func_zeros = Inr (sampling_rois, search_rois, padding_rois)"
      and "calc_sampling_meants func_data sampling_rois = Inr sampling_meants"
      and "move_all E (shuffle E k [0..<length d1]) c (Vertex k) func_data sampling_meants
             search_rois padding_rois False num_Lverts None d1 = Inr d2"
      and "calc_distance_column E d2 c (Vertex k) (Dist k) (RADIUS_SEARCH cfg) = Inr d3"
      and "col_max d3 (Dist k) = Inr m"
  shows "sweep E cfg func_data func_zeros False num_Lverts k c d = Inr (d3, m)"
  using assms(2-6) unfolding sweep_def Let_def assms(1) [symmetric]
  by (auto simp: col_max_def split: sum.splits)

lemmas frames = frame_0_done_def frame_0_moved_def frame_0_def new_columns_def two_seeds_def
  seed_row_def set_vcol_def set_dcol_def put_vertex_def put_dist_def

lemma distance_0:
  "calc_distance_column (line_env s ord) frame_0_moved Tvertex (Vertex 0) (Dist 0) 6
     = Inr frame_0_done"
  by (simp add: calc_distance_column_def distance_row_def get_vertex_def calc_surf_distance_def
      line_env_def frames upt_0_2)

lemma col_max_0: "col_max frame_0_done (Dist 0) = Inr 4"
  by (simp add: col_max_def get_dcol_def py_max_def frames)

lemma sweep_0:
  "sweep (line_env s (\<lambda>k xs. xs)) radii_0_6_12 func_LR [2, 5] False 3 0 Tvertex two_seeds
     = Inr (frame_0_done, 4)"
proof (rule sweep_steps [OF frame_0_def masks_0 sampling_meants_0])
  have "shuffle (line_env s (\<lambda>k xs. xs)) 0 [0..<length frame_0] = [0, 1]"
    by (simp add: line_env_def frame_0_rows upt_0_2)
  then show "move_all (line_env s (\<lambda>k xs. xs))
        (shuffle (line_env s (\<lambda>k xs. xs)) 0 [0..<length frame_0]) Tvertex (Vertex 0)
        func_LR meants_0 search_0 padding_0 False 3 None frame_0 = Inr frame_0_moved"
    by (simp only: move_all_0)
  show "calc_distance_column (line_env s (\<lambda>k xs. xs)) frame_0_moved Tvertex (Vertex 0)
          (Dist 0) (RADIUS_SEARCH radii_0_6_12) = Inr frame_0_done"
    by (simp add: radii_0_6_12_def distance_0)
  show "col_max frame_0_done (Dist 0) = Inr 4" by (rule col_max_0)
qed


lemmas frames_1 = frame_1_done_def frame_1_moved_def frame_1_def frames

lemma frame_1_rows:
  "length frame_1 = 2"
  "roiidx (frame_1 ! 0) = 1" "NETWORK (frame_1 ! 0) = ''DMN''" "hemi (frame_1 ! 0) = L"
  "roiidx (frame_1 ! Suc 0) = 2" "NETWORK (frame_1 ! Suc 0) = ''DMN''" "hemi (frame_1 ! Suc 0) = R"
  "get_vertex frame_1 0 (Vertex 0) = Inr 1" "get_vertex frame_1 (Suc 0) (Vertex 0) = Inr 0"
  by (simp_all add: frames_1 get_vertex_def)

lemma masks_1:
  "sweep_masks (line_env s ord) radii_0_6_12 frame_1 (Vertex 0) [2, 5]
     = Inr (sampling_1, search_0, padding_0)"
  by (simp add: sweep_masks_def rois_bilateral_def roi_surf_data_def get_vcol_def frames_1
      line_env_def radii_0_6_12_def zero_at_def upt_0_3 sampling_1_def search_0_def padding_0_def)

lemma sampling_meants_1: "calc_sampling_meants func_LR sampling_1 = Inr meants_1"
  by (simp add: calc_sampling_meants_def mask_rois_def np_unique_def roi_meants_def
      take_rows_def np_where_def py_index_def mean_axis0_def sampling_1_def func_LR_def
      meants_1_def upt_0_6 ts_a_def)

lemma target_1:
  "network_target (line_env s ord) meants_1 frame_1 ''DMN'' 1 = Inr (Fin ts_a)"
  "network_target (line_env s ord) meants_1 frame_1 ''DMN'' 2 = Inr (Fin ts_a)"
  by (simp_all add: network_target_def other_labels_def network_labels_def frames_1
      take_rows_def meants_1_def py_index_def np_mean_axis0_def mean_axis0_def upt_0_6
      ts_a_def)

lemma scores_1:
  "for_each (score_vertex (line_env s ord) False func_LR (Fin ts_a) None ''DMN'') [3, 4]
     (replicate (length (mrows func_LR)) (Score (-1)))
   = Inr [Score (-1), Score (-1), Score (-1), Score 1, Score 1, Score (-1)]"
  by (simp add: score_vertex_def func_LR_def replicate_6 line_env_def cov_values)

lemma nv1:
  "new_vertex (line_env s ord) frame_1 0 (Vertex 0) func_LR meants_1 search_0 padding_0
     False 3 None = Inr 1"
  "new_vertex (line_env s ord) frame_1 (Suc 0) (Vertex 0) func_LR meants_1 search_0 padding_0
     False 3 None = Inr 0"
  by (simp_all add: new_vertex_def frame_1_rows target_1 space_0 scores_0 scores_1 np_argmax_def
      del: for_each.simps)

lemma move_all_1:
  "move_all (line_env s ord) [0, 1] (Vertex 0) (Vertex 1) func_LR meants_1 search_0 padding_0
     False 3 None frame_1 = Inr frame_1_moved"
  by (simp add: move_all_def pint_move_vertex_new_vertex nv1 new_vertex_put_other
      frame_1_moved_def)

lemma distance_1:
  "calc_distance_column (line_env s ord) frame_1_moved (Vertex 0) (Vertex 1) (Dist 1) 6
     = Inr frame_1_done"
  by (simp add: calc_distance_column_def distance_row_def get_vertex_def calc_surf_distance_def
      line_env_def frames_1 upt_0_2)

lemma col_max_1: "col_max frame_1_done (Dist 1) = Inr 0"
  by (simp add: col_max_def get_dcol_def py_max_def frames_1)

lemma sweep_1:
  "sweep (line_env s (\<lambda>k xs. xs)) radii_0_6_12 func_LR [2, 5] False 3 1 (Vertex 0) frame_0_done
     = Inr (frame_1_done, 0)"
proof (rule sweep_steps [OF frame_1_def masks_1 sampling_meants_1])
  have "shuffle (line_env s (\<lambda>k xs. xs)) 1 [0..<length frame_1] = [0, 1]"
    by (simp add: line_env_def frame_1_rows upt_0_2)
  then show "move_all (line_env s (\<lambda>k xs. xs))
        (shuffle (line_env s (\<lambda>k xs. xs)) 1 [0..<length frame_1]) (Vertex 0) (Vertex 1)
        func_LR meants_1 search_0 padding_0 False 3 None frame_1 = Inr frame_1_moved"
    by (simp only: move_all_1)
  show "calc_distance_column (line_env s (\<lambda>k xs. xs)) frame_1_moved (Vertex 0) (Vertex 1)
          (Dist 1) (RADIUS_SEARCH radii_0_6_12) = Inr frame_1_done"
    by (simp add: radii_0_6_12_def distance_1 del: One_nat_def)
  show "col_max frame_1_done (Dist 1) = Inr 0" by (rule col_max_1)
qed

lemma loop_two_seeds:
  "pint_loop (line_env s (\<lambda>k xs. xs)) radii_0_6_12 func_LR [2, 5] False 3 0 0 10 Tvertex
     two_seeds = Inr (frame_1_done, 0, Vertex 1, 2)"
proof -
  let ?E = "line_env s (\<lambda>k xs. xs)"
  have "pint_loop ?E radii_0_6_12 func_LR [2, 5] False 3 0 0 10 Tvertex two_seeds
      = pint_loop ?E radii_0_6_12 func_LR [2, 5] False 3 0 1 4 (Vertex 0) frame_0_done"
    by (simp add: pint_loop.simps [of ?E radii_0_6_12 func_LR "[2, 5]" False 3 0 0 10
          Tvertex two_seeds] sweep_0)
  also have "\<dots> = pint_loop ?E radii_0_6_12 func_LR [2, 5] False 3 0 2 0 (Vertex 1) frame_1_done"
    by (simp add: pint_loop.simps [of ?E radii_0_6_12 func_LR "[2, 5]" False 3 0 1 4
          "Vertex 0" frame_0_done] sweep_1 del: One_nat_def)
  also have "\<dots> = Inr (frame_1_done, 0, Vertex 1, 2)"
    by (simp add: pint_loop.simps [of ?E radii_0_6_12 func_LR "[2, 5]" False 3 0 2 0
          "Vertex 1" frame_1_done] del: One_nat_def)
  finally show ?thesis .
qed

lemma final_two_seeds:
  "get_vcol frame_1_done (Vertex 1) = Inr [1, 0]"
  "calc_distance_column (line_env s ord) (assign_vcol Ivertex [1, 0] frame_1_done)
     Tvertex Ivertex Distance 150 = Inr frame_final"
  by (simp_all add: get_vcol_def calc_distance_column_def distance_row_def get_vertex_def
      calc_surf_distance_def line_env_def frame_final_def assign_vcol_def frames_1 upt_0_2)

lemma iterate_two_seeds:
  "iterate_pint (line_env s (\<lambda>k xs. xs)) radii_0_6_12 two_seeds Tvertex func_LR [2, 5]
     False 3 0 = Inr (frame_final, 0, Dist 1, 2)"
  by (simp add: iterate_pint_def loop_two_seeds final_two_seeds del: One_nat_def)


lemma lone_sweep:
  "sweep (line_env True (\<lambda>k xs. xs)) radii_0_6_12 func_LR [2, 5] False 3 0 Tvertex lone_seeds
     = Inl IndexError"
proof -
  let ?E = "line_env True (\<lambda>k xs. xs)"
  have m: "sweep_masks ?E radii_0_6_12 lone_frame_0 Tvertex [2, 5]
             = Inr (sampling_0, search_0, padding_0)"
    by (simp add: sweep_masks_def rois_bilateral_def roi_surf_data_def get_vcol_def
        lone_frame_0_def new_columns_def lone_seeds_def seed_row_def set_vcol_def set_dcol_def line_env_def
        radii_0_6_12_def zero_at_def upt_0_3 sampling_0_def search_0_def padding_0_def)
  have mv: "move_all ?E (shuffle ?E 0 [0..<length lone_frame_0]) Tvertex (Vertex 0) func_LR
              meants_0 search_0 padding_0 False 3 None lone_frame_0 = Inl IndexError"
    by (simp add: move_all_def pint_move_vertex_def network_target_def other_labels_def
        network_labels_def get_vertex_def lone_frame_0_def new_columns_def lone_seeds_def seed_row_def
        set_vcol_def set_dcol_def line_env_def upt_0_2)
  show ?thesis
    unfolding sweep_def Let_def lone_frame_0_def [symmetric]
    by (simp add: m sampling_meants_0 mv)
qed

subsection \<open>The world that never settles\<close>

lemma osc_facts:
  "osc_vcols k (osc_in k) = Some (osc_pos k)"
  "osc_in k \<noteq> Vertex k" "Vertex k \<noteq> osc_in k"
  "(osc_vcols k)(Vertex k \<mapsto> osc_pos (Suc k)) = osc_vcols (Suc k)"
  "(osc_dcols k)(Dist k \<mapsto> 4) = osc_dcols (Suc k)"
proof -
  show "osc_vcols k (osc_in k) = Some (osc_pos k)"
    by (cases k) (simp_all add: osc_vcols_def osc_in_def osc_pos_def)
  show "osc_in k \<noteq> Vertex k" "Vertex k \<noteq> osc_in k"
    by (cases k; simp add: osc_in_def)+
  show "(osc_vcols k)(Vertex k \<mapsto> osc_pos (Suc k)) = osc_vcols (Suc k)"
  proof
    fix c show "((osc_vcols k)(Vertex k \<mapsto> osc_pos (Suc k))) c = osc_vcols (Suc k) c"
      by (cases c) (auto simp: osc_vcols_def less_Suc_eq)
  qed
  show "(osc_dcols k)(Dist k \<mapsto> 4) = osc_dcols (Suc k)"
  proof
    fix c show "((osc_dcols k)(Dist k \<mapsto> 4)) c = osc_dcols (Suc k) c"
      by (cases c) (auto simp: osc_dcols_def less_Suc_eq)
  qed
qed

lemma osc_reads:
  "osc_vcols (Suc k) (osc_in k) = Some (osc_pos k)"
  "osc_vcols (Suc k) (Vertex k) = Some (osc_pos (Suc k))"
  by (cases k; simp add: osc_vcols_def osc_in_def osc_pos_def)+

lemma osc_frame_0: "osc_frame 0 = two_seeds"
proof -
  have "osc_vcols 0 = Map.empty(Tvertex \<mapsto> 0)"
  proof
    fix c show "osc_vcols 0 c = (Map.empty(Tvertex \<mapsto> 0)) c"
      by (cases c) (simp_all add: osc_vcols_def)
  qed
  moreover have "osc_dcols 0 = Map.empty"
  proof
    fix c show "osc_dcols 0 c = Map.empty c"
      by (cases c) (simp_all add: osc_dcols_def)
  qed
  ultimately show ?thesis
    by (simp add: osc_frame_def osc_row_def two_seeds_def seed_row_def)
qed

lemmas osc_frames = osc_frame_def osc_row_def new_columns_def set_vcol_def set_dcol_def

lemma osc_rows:
  "length (new_columns k (osc_frame k)) = 2" "osc_frame k \<noteq> []"
  "length (osc_frame k) = 2"
  "roiidx (new_columns k (osc_frame k) ! 0) = 1"
  "NETWORK (new_columns k (osc_frame k) ! 0) = ''DMN''"
  "hemi (new_columns k (osc_frame k) ! 0) = L"
  "roiidx (new_columns k (osc_frame k) ! Suc 0) = 2"
  "NETWORK (new_columns k (osc_frame k) ! Suc 0) = ''DMN''"
  "hemi (new_columns k (osc_frame k) ! Suc 0) = R"
  "get_vertex (new_columns k (osc_frame k)) 0 (osc_in k) = Inr (osc_pos k)"
  "get_vertex (new_columns k (osc_frame k)) (Suc 0) (osc_in k) = Inr (osc_pos k)"
  by (simp_all add: osc_frames get_vertex_def osc_facts)

lemma osc_masks:
  "sweep_masks (line_env s ord) radii_0_6_12 (new_columns k (osc_frame k)) (osc_in k) [2, 5]
     = Inr (osc_sampling k, search_0, padding_0)"
  by (cases "even k")
     (simp_all add: sweep_masks_def rois_bilateral_def roi_surf_data_def get_vcol_def osc_frames
        osc_facts osc_pos_def line_env_def radii_0_6_12_def zero_at_def upt_0_3 osc_sampling_def
        search_0_def padding_0_def)

lemma osc_sampling_meants: "calc_sampling_meants osc_func (osc_sampling k) = Inr (osc_meants k)"
  by (simp add: calc_sampling_meants_def mask_rois_def np_unique_def roi_meants_def
      take_rows_def np_where_def py_index_def mean_axis0_def osc_sampling_def osc_func_def
      osc_meants_def upt_0_6 ts_a_def ts_c_def)

lemma osc_target:
  "network_target (line_env s ord) (osc_meants k) (new_columns k (osc_frame k)) ''DMN'' 1
     = Inr (Fin (if even k then ts_c else ts_a))"
  "network_target (line_env s ord) (osc_meants k) (new_columns k (osc_frame k)) ''DMN'' 2
     = Inr (Fin (if even k then ts_a else ts_c))"
  by (simp_all add: network_target_def other_labels_def network_labels_def osc_frames
      take_rows_def osc_meants_def py_index_def np_mean_axis0_def mean_axis0_def upt_0_6
      ts_a_def ts_c_def)

lemma osc_scores:
  "for_each (score_vertex (line_env s ord) False osc_func (Fin ts_c) None ''DMN'') [0, Suc 0]
     (replicate (length (mrows osc_func)) (Score (-1)))
   = Inr [Score (3/5), Score 1, Score (-1), Score (-1), Score (-1), Score (-1)]"
  "for_each (score_vertex (line_env s ord) False osc_func (Fin ts_a) None ''DMN'') [0, Suc 0]
     (replicate (length (mrows osc_func)) (Score (-1)))
   = Inr [Score 1, Score (3/5), Score (-1), Score (-1), Score (-1), Score (-1)]"
  "for_each (score_vertex (line_env s ord) False osc_func (Fin ts_a) None ''DMN'') [3, 4]
     (replicate (length (mrows osc_func)) (Score (-1)))
   = Inr [Score (-1), Score (-1), Score (-1), Score (3/5), Score 1, Score (-1)]"
  "for_each (score_vertex (line_env s ord) False osc_func (Fin ts_c) None ''DMN'') [3, 4]
     (replicate (length (mrows osc_func)) (Score (-1)))
   = Inr [Score (-1), Score (-1), Score (-1), Score 1, Score (3/5), Score (-1)]"
  by (simp_all add: score_vertex_def osc_func_def replicate_6 line_env_def cov_values)

lemma osc_new_vertex:
  "new_vertex (line_env s ord) (new_columns k (osc_frame k)) 0 (osc_in k) osc_func
     (osc_meants k) search_0 padding_0 False 3 None = Inr (osc_pos (Suc k))"
  "new_vertex (line_env s ord) (new_columns k (osc_frame k)) (Suc 0) (osc_in k) osc_func
     (osc_meants k) search_0 padding_0 False 3 None = Inr (osc_pos (Suc k))"
proof -
  show "new_vertex (line_env s ord) (new_columns k (osc_frame k)) 0 (osc_in k) osc_func
     (osc_meants k) search_0 padding_0 False 3 None = Inr (osc_pos (Suc k))"
    by (cases "even k")
       (simp_all add: new_vertex_def osc_rows osc_target space_0 osc_scores np_argmax_def
          osc_pos_def del: for_each.simps)
  show "new_vertex (line_env s ord) (new_columns k (osc_frame k)) (Suc 0) (osc_in k) osc_func
     (osc_meants k) search_0 padding_0 False 3 None = Inr (osc_pos (Suc k))"
    by (cases "even k")
       (simp_all add: new_vertex_def osc_rows osc_target space_0 osc_scores np_argmax_def
          osc_pos_def del: for_each.simps)
qed


lemma osc_move_all:
  "move_all (line_env s ord) [0, 1] (osc_in k) (Vertex k) osc_func (osc_meants k) search_0
     padding_0 False 3 None (new_columns k (osc_frame k))
   = Inr (put_vertex 1 (Vertex k) (osc_pos (Suc k))
           (put_vertex 0 (Vertex k) (osc_pos (Suc k)) (new_columns k (osc_frame k))))"
  by (simp add: move_all_def pint_move_vertex_new_vertex osc_new_vertex new_vertex_put_other)

lemma osc_distance:
  "calc_surf_distance (line_env s ord) h (osc_pos k) (osc_pos (Suc k)) r = 4"
  by (simp add: calc_surf_distance_def line_env_def osc_pos_def)

lemma osc_distance_column:
  "calc_distance_column (line_env s ord)
     (put_vertex 1 (Vertex k) (osc_pos (Suc k))
        (put_vertex 0 (Vertex k) (osc_pos (Suc k)) (new_columns k (osc_frame k))))
     (osc_in k) (Vertex k) (Dist k) 6 = Inr (osc_frame (Suc k))"
  by (simp add: calc_distance_column_def distance_row_def get_vertex_def osc_distance
      osc_frames put_vertex_def put_dist_def upt_0_2 osc_facts osc_reads)

lemma osc_col_max: "col_max (osc_frame (Suc k)) (Dist k) = Inr 4"
  by (simp add: col_max_def get_dcol_def py_max_def osc_frame_def osc_row_def osc_dcols_def)

lemma osc_sweep:
  "sweep (line_env s (\<lambda>k xs. xs)) radii_0_6_12 osc_func [2, 5] False 3 k (osc_in k)
     (osc_frame k) = Inr (osc_frame (Suc k), 4)"
proof (rule sweep_steps [OF refl osc_masks osc_sampling_meants])
  let ?E = "line_env s (\<lambda>k xs. xs)"
  have "shuffle ?E k [0..<length (new_columns k (osc_frame k))] = [0, 1]"
    by (simp add: line_env_def osc_rows upt_0_2)
  then show "move_all ?E (shuffle ?E k [0..<length (new_columns k (osc_frame k))]) (osc_in k)
        (Vertex k) osc_func (osc_meants k) search_0 padding_0 False 3 None
        (new_columns k (osc_frame k))
      = Inr (put_vertex 1 (Vertex k) (osc_pos (Suc k))
              (put_vertex 0 (Vertex k) (osc_pos (Suc k)) (new_columns k (osc_frame k))))"
    by (simp only: osc_move_all)
  show "calc_distance_column ?E
          (put_vertex 1 (Vertex k) (osc_pos (Suc k))
            (put_vertex 0 (Vertex k) (osc_pos (Suc k)) (new_columns k (osc_frame k))))
          (osc_in k) (Vertex k) (Dist k) (RADIUS_SEARCH radii_0_6_12) = Inr (osc_frame (Suc k))"
    by (simp add: radii_0_6_12_def osc_distance_column del: One_nat_def)
  show "col_max (osc_frame (Suc k)) (Dist k) = Inr 4" by (rule osc_col_max)
qed

lemma osc_nth_sweep:
  "nth_sweep (line_env s (\<lambda>k xs. xs)) radii_0_6_12 osc_func [2, 5] False 3 0 Tvertex
     two_seeds k = Inr (osc_frame (Suc k), 4)"
proof (induction k)
  case 0
  from osc_sweep [of s 0] show ?case
    by (simp add: nth_sweep.simps osc_frame_0 osc_in_def)
next
  case (Suc k)
  from osc_sweep [of s "Suc k"] show ?case
    by (simp add: nth_sweep.simps(2) Suc osc_in_def)
qed

lemma osc_loop:
  "pint_loop (line_env s (\<lambda>k xs. xs)) radii_0_6_12 osc_func [2, 5] False 3 0 0 10 Tvertex
     two_seeds = Inr (osc_frame 50, 4, Vertex 49, 50)"
proof -
  let ?E = "line_env s (\<lambda>k xs. xs)"
  have "(0::nat) < 0 + 50" "(1::real) < 10" by simp_all
  from pint_loop_sweeps [OF this, of ?E radii_0_6_12 osc_func "[2, 5]" False 3 Tvertex two_seeds]
  obtain n where n: "0 < n"
    and last: "case nth_sweep ?E radii_0_6_12 osc_func [2, 5] False 3 0 Tvertex two_seeds (n - 1) of
            Inl e \<Rightarrow> pint_loop ?E radii_0_6_12 osc_func [2, 5] False 3 0 0 10 Tvertex two_seeds
                      = Inl e
          | Inr (dn, mn) \<Rightarrow> (mn \<le> 1 \<or> 0 + n = 0 + 50)
              \<and> pint_loop ?E radii_0_6_12 osc_func [2, 5] False 3 0 0 10 Tvertex two_seeds
                   = Inr (dn, mn, Vertex (0 + n - 1), 0 + n)"
    by blast
  from last have "n = 50" by (simp add: osc_nth_sweep)
  with last show ?thesis by (simp add: osc_nth_sweep)
qed

lemma osc_iterate:
  "iterate_pint (line_env s (\<lambda>k xs. xs)) radii_0_6_12 two_seeds Tvertex osc_func [2, 5]
     False 3 0 = Inr (osc_final, 4, Dist 49, 50)"
proof -
  have "get_vcol (osc_frame 50) (Vertex 49) = Inr [0, 0]"
    by (simp add: get_vcol_def osc_frame_def osc_row_def osc_vcols_def osc_pos_def)
  moreover have "calc_distance_column (line_env s (\<lambda>k xs. xs))
      (assign_vcol Ivertex [0, 0] (osc_frame 50)) Tvertex Ivertex Distance 150 = Inr osc_final"
    by (simp add: calc_distance_column_def distance_row_def get_vertex_def
        calc_surf_distance_def osc_final_def assign_vcol_def osc_frame_def osc_row_def
        set_dcol_def put_dist_def upt_0_2 osc_vcols_def)
  ultimately show ?thesis
    by (simp add: iterate_pint_def osc_loop)
qed

lemma two_seeds_nth_sweep:
  "nth_sweep (line_env s (\<lambda>k xs. xs)) radii_0_6_12 func_LR [2, 5] False 3 0 Tvertex two_seeds 0
     = Inr (frame_0_done, 4)"
  "nth_sweep (line_env s (\<lambda>k xs. xs)) radii_0_6_12 func_LR [2, 5] False 3 0 Tvertex two_seeds 1
     = Inr (frame_1_done, 0)"
proof -
  show a: "nth_sweep (line_env s (\<lambda>k xs. xs)) radii_0_6_12 func_LR [2, 5] False 3 0 Tvertex
      two_seeds 0 = Inr (frame_0_done, 4)"
    by (simp add: nth_sweep.simps sweep_0)
  have "nth_sweep (line_env s (\<lambda>k xs. xs)) radii_0_6_12 func_LR [2, 5] False 3 0 Tvertex
      two_seeds (Suc 0) = Inr (frame_1_done, 0)"
    using sweep_1 [of s] by (simp add: nth_sweep.simps(2) a)
  then show "nth_sweep (line_env s (\<lambda>k xs. xs)) radii_0_6_12 func_LR [2, 5] False 3 0 Tvertex
      two_seeds 1 = Inr (frame_1_done, 0)" by simp
qed

lemma two_seeds_columns:
  "has_vcol Tvertex two_seeds"
  "get_dcol frame_0_done (Dist 0) = Inr [4, 0]"
  "map (row_distance (line_env s ord) Tvertex (Vertex 0) 6) frame_0_done = [Inr 4, Inr 0]"
  "get_dcol frame_final (Dist 1) = Inr [0, 0]"
  "get_dcol osc_final (Dist 49) = Inr [4, 4]"
  by (simp_all add: has_vcol_def get_dcol_def row_distance_def calc_surf_distance_def
      line_env_def frame_final_def assign_vcol_def frames_1 osc_final_def osc_frame_def
      osc_row_def osc_dcols_def)

theorem iterate_pint_halts_witness:
  "nth_sweep (line_env True (\<lambda>k xs. xs)) radii_0_6_12 func_LR [2, 5] False 3 0 Tvertex
     two_seeds 0 = Inr (frame_0_done, 4)
   \<and> nth_sweep (line_env True (\<lambda>k xs. xs)) radii_0_6_12 func_LR [2, 5] False 3 0 Tvertex
     two_seeds 1 = Inr (frame_1_done, 0)
   \<and> (\<exists>d'. iterate_pint (line_env True (\<lambda>k xs. xs)) radii_0_6_12 two_seeds Tvertex func_LR
              [2, 5] False 3 0 = Inr (d', 0, Dist 1, 2))
   \<and> iterate_pint (line_env True (\<lambda>k xs. xs)) radii_0_6_12 two_seeds Tvertex func_LR [2, 5]
       False 3 0 = Inr (frame_final, 0, Dist 1, 2)
   \<and> get_dcol frame_final (Dist 1) = Inr [0, 0]
   \<and> nth_sweep (line_env True (\<lambda>k xs. xs)) radii_0_6_12 osc_func [2, 5] False 3 0 Tvertex
     two_seeds 48 = Inr (osc_frame 49, 4)
   \<and> nth_sweep (line_env True (\<lambda>k xs. xs)) radii_0_6_12 osc_func [2, 5] False 3 0 Tvertex
     two_seeds 49 = Inr (osc_frame 50, 4)
   \<and> (\<exists>d'. iterate_pint (line_env True (\<lambda>k xs. xs)) radii_0_6_12 two_seeds Tvertex osc_func
              [2, 5] False 3 0 = Inr (d', 4, Dist 49, 50))
   \<and> iterate_pint (line_env True (\<lambda>k xs. xs)) radii_0_6_12 two_seeds Tvertex osc_func [2, 5]
       False 3 0 = Inr (osc_final, 4, Dist 49, 50)
   \<and> get_dcol osc_final (Dist 49) = Inr [4, 4]
   \<and> nth_sweep (line_env True (\<lambda>k xs. xs)) radii_0_6_12 func_LR [2, 5] False 3 0 Tvertex
     lone_seeds 0 = Inl IndexError
   \<and> iterate_pint (line_env True (\<lambda>k xs. xs)) radii_0_6_12 lone_seeds Tvertex func_LR [2, 5]
       False 3 0 = Inl IndexError
   \<and> sweep (line_env True (\<lambda>k xs. xs)) radii_0_6_12 func_LR [2, 5] False 3 0 Tvertex two_seeds
       = Inr (frame_0_done, 4)
   \<and> get_dcol frame_0_done (Dist 0) = Inr [4, 0]
   \<and> map (row_distance (line_env True (\<lambda>k xs. xs)) Tvertex (Vertex 0) 6) frame_0_done
       = [Inr 4, Inr 0]"
proof -
  let ?E = "line_env True (\<lambda>k xs. xs)"
  let ?ns = "nth_sweep ?E radii_0_6_12 func_LR [2, 5] False 3 0 Tvertex two_seeds"
  let ?it = "iterate_pint ?E radii_0_6_12 two_seeds Tvertex func_LR [2, 5] False 3 0"
  let ?os = "nth_sweep ?E radii_0_6_12 osc_func [2, 5] False 3 0 Tvertex two_seeds"
  let ?oit = "iterate_pint ?E radii_0_6_12 two_seeds Tvertex osc_func [2, 5] False 3 0"
  let ?ls = "nth_sweep ?E radii_0_6_12 func_LR [2, 5] False 3 0 Tvertex lone_seeds"
  let ?lit = "iterate_pint ?E radii_0_6_12 lone_seeds Tvertex func_LR [2, 5] False 3 0"
  note ns = two_seeds_nth_sweep [of True]
  note has = two_seeds_columns(1)
  have conv: "\<exists>d'. ?it = Inr (d', 0, Dist 1, 2)"
  proof -
    have "\<forall>k<1. \<exists>dk mk. ?ns k = Inr (dk, mk) \<and> 1 < mk"
      using ns(1) by simp
    with iterate_pint_halts [where E = ?E and cfg = radii_0_6_12 and func_data = func_LR
        and func_zeros = "[2, 5]" and pcorr = False and num_Lverts = 3 and start = 0
        and c = Tvertex and d = two_seeds and j = 1]
    have "case ?ns 1 of
            Inl e \<Rightarrow> ?it = Inl e
          | Inr (dn, m) \<Rightarrow> (m \<le> 1 \<or> (1::nat) = 49) \<and> has_vcol Tvertex two_seeds \<longrightarrow>
              (\<exists>d'. ?it = Inr (d', m, Dist (0 + 1), 0 + 1 + 1))"
      by simp
    with ns(2) has show ?thesis by (simp add: numeral_2_eq_2)
  qed
  have exh: "\<exists>d'. ?oit = Inr (d', 4, Dist 49, 50)"
  proof -
    have "\<forall>k<49. \<exists>dk mk. ?os k = Inr (dk, mk) \<and> 1 < mk"
      by (simp add: osc_nth_sweep)
    with iterate_pint_halts [where E = ?E and cfg = radii_0_6_12 and func_data = osc_func
        and func_zeros = "[2, 5]" and pcorr = False and num_Lverts = 3 and start = 0
        and c = Tvertex and d = two_seeds and j = 49]
    have "case ?os 49 of
            Inl e \<Rightarrow> ?oit = Inl e
          | Inr (dn, m) \<Rightarrow> (m \<le> 1 \<or> (49::nat) = 49) \<and> has_vcol Tvertex two_seeds \<longrightarrow>
              (\<exists>d'. ?oit = Inr (d', m, Dist (0 + 49), 0 + 49 + 1))"
      by simp
    with has show ?thesis by (simp add: osc_nth_sweep)
  qed
  have l0: "?ls 0 = Inl IndexError"
    by (simp add: nth_sweep.simps lone_sweep)
  have fail: "?lit = Inl IndexError"
  proof -
    from iterate_pint_halts [where E = ?E and cfg = radii_0_6_12 and func_data = func_LR
        and func_zeros = "[2, 5]" and pcorr = False and num_Lverts = 3 and start = 0
        and c = Tvertex and d = lone_seeds and j = 0]
    have "case ?ls 0 of
            Inl e \<Rightarrow> ?lit = Inl e
          | Inr (dn, m) \<Rightarrow> (m \<le> 1 \<or> (0::nat) = 49) \<and> has_vcol Tvertex lone_seeds \<longrightarrow>
              (\<exists>d'. ?lit = Inr (d', m, Dist (0 + 0), 0 + 0 + 1))"
      by simp
    with l0 show ?thesis by simp
  qed
  from iterate_pint_halts [where E = ?E and cfg = radii_0_6_12 and func_data = func_LR
      and func_zeros = "[2, 5]" and pcorr = False and num_Lverts = 3 and k = 0
      and c = Tvertex and d = two_seeds and ?d1.0 = frame_0_done and ?m1.0 = 4] sweep_0 [of True]
  have "\<exists>xs. get_dcol frame_0_done (Dist 0) = Inr xs \<and> xs \<noteq> [] \<and> 4 = Max (set xs)
      \<and> map (row_distance ?E Tvertex (Vertex 0) (RADIUS_SEARCH radii_0_6_12)) frame_0_done
          = map Inr xs"
    by blast
  then have disp: "map (row_distance ?E Tvertex (Vertex 0) 6) frame_0_done = [Inr 4, Inr 0]"
    by (auto simp: two_seeds_columns(2) radii_0_6_12_def)
  from ns conv iterate_two_seeds [of True] two_seeds_columns(2,4,5)
    osc_nth_sweep [of True 48] osc_nth_sweep [of True 49] exh osc_iterate [of True]
    l0 fail sweep_0 [of True] disp
  show ?thesis by simp
qed

section \<open>The reconciliation pass\<close>

lemma limits_run: "roi_limits_file args \<noteq> None \<Longrightarrow> run_PINT E args = Inl AttributeError"
  by (auto simp: run_PINT_def log_arguments_def)

text \<open>
  Claim C2, evaluated where the code departs from it. With a limits file the run raises
  AttributeError at the log call of line 83, before any data is loaded. Taken on its own,
  the reconciliation of lines 112-135 fares no better: after the first pass on the two seeds
  (seed 1 ends at vertex 1, outside its limits), the second call of \<open>iterate_pint\<close>
  lacks two arguments and raises TypeError instead of running sweeps 50 to 99.
\<close>

theorem reconciliation_raises:
  "run_PINT (line_env True (\<lambda>k xs. xs)) limits_args = Inl AttributeError
   \<and> iterate_pint (line_env True (\<lambda>k xs. xs)) radii_0_6_12 two_seeds Tvertex func_LR [2, 5]
       False 3 0 = Inr (frame_final, 0, Dist 1, 2)
   \<and> get_vertex frame_final 0 Ivertex = Inr 1
   \<and> get2 \<lparr>ncols = 2, mrows = mrows limits_L @ mrows limits_R\<rparr> 1 0 = Inr 0
   \<and> reconcile (limits_L, limits_R) (frame_final, 0, Dist 1, 2) = Inl TypeError"
proof -
  have "run_PINT (line_env True (\<lambda>k xs. xs)) limits_args = Inl AttributeError"
    by (rule limits_run) (simp add: limits_args_def)
  moreover have "get_vertex frame_final 0 Ivertex = Inr 1"
    by (simp add: get_vertex_def frame_final_def assign_vcol_def frames_1)
  moreover have "get2 \<lparr>ncols = 2, mrows = mrows limits_L @ mrows limits_R\<rparr> 1 0 = Inr 0"
    by (simp add: get2_def py_index_def limits_L_def limits_R_def)
  moreover have "reconcile (limits_L, limits_R) (frame_final, 0, Dist 1, 2) = Inl TypeError"
    by (simp add: reconcile_def vstack_def limits_row_def get2_def py_index_def get_vertex_def
        limits_L_def limits_R_def frame_final_def assign_vcol_def frames_1 upt_0_2)
  ultimately show ?thesis using iterate_two_seeds [of True] by blast
qed

section \<open>The peak vertex\<close>

lemma mirror_rows:
  "length mirror_frame = 2"
  "roiidx (mirror_frame ! 0) = 1" "NETWORK (mirror_frame ! 0) = ''DMN''"
  "hemi (mirror_frame ! 0) = L" "get_vertex mirror_frame 0 Tvertex = Inr 1"
  by (simp_all add: mirror_frame_def new_columns_def mirror_seeds_def seed_row_def set_vcol_def set_dcol_def
      get_vertex_def)

text \<open>
  Claim C6, evaluated where the code departs from it. Seed 1 sits at vertex 1; vertices 0
  and 2 have no signal and are flagged, so the search space of the seed is vertex 1 alone.
  The series of vertex 1 mirrors the target, so its correlation is -1, the very value that
  fills \<open>seed_corrs\<close> for every vertex outside the search space. \<open>np.argmax\<close>
  returns the first maximum, index 0, and the seed is moved to vertex 0: a flagged vertex
  outside its search space, and not its incoming position.
\<close>

theorem peak_outside_search_space:
  "calc_func_zeros mirror_func = Inr [0, 2, 5]
   \<and> sweep_masks (line_env True (\<lambda>k xs. xs)) radii_0_6_12 mirror_frame Tvertex [0, 2, 5]
       = Inr (sampling_1, mirror_search, padding_0)
   \<and> calc_sampling_meants mirror_func sampling_1 = Inr mirror_meants
   \<and> get_vertex mirror_frame 0 Tvertex = Inr 1
   \<and> search_space mirror_search padding_0 (roiidx (mirror_frame ! 0)) = [1]
   \<and> network_target (line_env True (\<lambda>k xs. xs)) mirror_meants mirror_frame ''DMN'' 1
       = Inr (Fin ts_a)
   \<and> corrcoef_ref (Fin ts_a) (mrows mirror_func ! 1) = Score (-1)
   \<and> pint_move_vertex (line_env True (\<lambda>k xs. xs)) mirror_frame 0 Tvertex (Vertex 0)
       mirror_func mirror_meants mirror_search padding_0 False 3 None
       = Inr (put_vertex 0 (Vertex 0) 0 mirror_frame)"
proof -
  let ?E = "line_env True (\<lambda>k xs. xs)"
  have z: "calc_func_zeros mirror_func = Inr [0, 2, 5]"
    by (simp add: calc_func_zeros_def column_def np_where_def mirror_func_def
        ts_a_def ts_b_def ts_z_def upt_0_6)
  have m: "sweep_masks ?E radii_0_6_12 mirror_frame Tvertex [0, 2, 5]
       = Inr (sampling_1, mirror_search, padding_0)"
    by (simp add: sweep_masks_def rois_bilateral_def roi_surf_data_def get_vcol_def
        mirror_frame_def new_columns_def mirror_seeds_def seed_row_def set_vcol_def set_dcol_def line_env_def
        radii_0_6_12_def zero_at_def upt_0_3 sampling_1_def mirror_search_def padding_0_def)
  have sm: "calc_sampling_meants mirror_func sampling_1 = Inr mirror_meants"
    by (simp add: calc_sampling_meants_def mask_rois_def np_unique_def roi_meants_def
      take_rows_def np_where_def py_index_def mean_axis0_def sampling_1_def mirror_func_def
      mirror_meants_def upt_0_6 ts_a_def ts_b_def)
  have sp: "search_space mirror_search padding_0 1 = [1]"
    by (simp add: search_space_def np_where_def mirror_search_def padding_0_def upt_0_6)
  have t: "network_target ?E mirror_meants mirror_frame ''DMN'' 1 = Inr (Fin ts_a)"
    by (simp add: network_target_def other_labels_def network_labels_def mirror_frame_def new_columns_def
        mirror_seeds_def seed_row_def set_vcol_def set_dcol_def take_rows_def mirror_meants_def
        py_index_def np_mean_axis0_def mean_axis0_def upt_0_6 ts_a_def)
  have c: "corrcoef_ref (Fin ts_a) (mrows mirror_func ! 1) = Score (-1)"
    by (simp add: mirror_func_def cov_values)
  have sc: "for_each (score_vertex ?E False mirror_func (Fin ts_a) None ''DMN'') [1]
              (replicate (length (mrows mirror_func)) (Score (-1)))
            = Inr [Score (-1), Score (-1), Score (-1), Score (-1), Score (-1), Score (-1)]"
    using c by (simp add: score_vertex_def line_env_def mirror_func_def replicate_6)
  have mv: "pint_move_vertex ?E mirror_frame 0 Tvertex (Vertex 0)
       mirror_func mirror_meants mirror_search padding_0 False 3 None
       = Inr (put_vertex 0 (Vertex 0) 0 mirror_frame)"
    by (simp add: pint_move_vertex_def mirror_rows t sp sc np_argmax_def
        del: for_each.simps One_nat_def)
  from z m sm sp t c mv show ?thesis by (simp add: mirror_rows)
qed

section \<open>The validity flag\<close>

lemma run_PINT_Inr:
  assumes "run_PINT E args = Inr (res, tvertex_meants, ivertex_meants)"
  shows "roi_limits_file args = None"
    and "iterate_pint E (radii args) (load_df args) Tvertex
           \<lparr>ncols = ncols (fst (func args)),
              mrows = mrows (fst (func args)) @ mrows (snd (func args))\<rparr>
           (filter (\<lambda>v. (mrows (fst (func args)) @ mrows (snd (func args))) ! v ! 5 < 5)
              [0..<length (mrows (fst (func args)) @ mrows (snd (func args)))])
           (pcorr_opt args) (length (mrows (fst (func args)))) 0 = Inr res"
proof -
  from assms show none: "roi_limits_file args = None"
    by (auto simp: run_PINT_def log_arguments_def split: option.splits)
  from assms obtain func_data func_zeros where
        st: "vstack (fst (func args)) (snd (func args)) = Inr func_data"
    and fz: "calc_func_zeros func_data = Inr func_zeros"
    and it: "iterate_pint E (radii args) (load_df args) Tvertex func_data func_zeros
               (pcorr_opt args) (length (mrows (fst (func args)))) 0 = Inr res"
    unfolding run_PINT_def Let_def none
    by (auto split: sum.splits)
  from st have fd: "func_data = \<lparr>ncols = ncols (fst (func args)),
              mrows = mrows (fst (func args)) @ mrows (snd (func args))\<rparr>"
    by (auto simp: vstack_def split: if_splits)
  from fz have "func_zeros = filter (\<lambda>v. mrows func_data ! v ! 5 < 5) [0..<length (mrows func_data)]"
    by (auto simp: calc_func_zeros_eq split: if_splits)
  with it fd show "iterate_pint E (radii args) (load_df args) Tvertex
           \<lparr>ncols = ncols (fst (func args)),
              mrows = mrows (fst (func args)) @ mrows (snd (func args))\<rparr>
           (filter (\<lambda>v. (mrows (fst (func args)) @ mrows (snd (func args))) ! v ! 5 < 5)
              [0..<length (mrows (fst (func args)) @ mrows (snd (func args)))])
           (pcorr_opt args) (length (mrows (fst (func args)))) 0 = Inr res"
    by simp
qed

lemma output_two_seeds:
  "output_meants (line_env s ord) radii_0_6_12 frame_final Tvertex func_LR [2, 5] = Inr meants_0"
  "output_meants (line_env s ord) radii_0_6_12 frame_final Ivertex func_LR [2, 5] = Inr meants_1"
proof -
  have "rois_bilateral (line_env s ord) frame_final Tvertex (RADIUS_SAMPLING radii_0_6_12)
          = Inr sampling_0"
    by (simp add: rois_bilateral_def roi_surf_data_def get_vcol_def frame_final_def
        assign_vcol_def frames_1 line_env_def radii_0_6_12_def upt_0_3 sampling_0_def)
  moreover have "zero_at [2, 5] sampling_0 = Inr sampling_0"
    by (simp add: zero_at_def sampling_0_def)
  ultimately show "output_meants (line_env s ord) radii_0_6_12 frame_final Tvertex func_LR [2, 5]
      = Inr meants_0"
    by (simp add: output_meants_def sampling_meants_0)
  have "rois_bilateral (line_env s ord) frame_final Ivertex (RADIUS_SAMPLING radii_0_6_12)
          = Inr sampling_1"
    by (simp add: rois_bilateral_def roi_surf_data_def get_vcol_def frame_final_def
        assign_vcol_def frames_1 line_env_def radii_0_6_12_def upt_0_3 sampling_1_def)
  moreover have "zero_at [2, 5] sampling_1 = Inr sampling_1"
    by (simp add: zero_at_def sampling_1_def)
  ultimately show "output_meants (line_env s ord) radii_0_6_12 frame_final Ivertex func_LR [2, 5]
      = Inr meants_1"
    by (simp add: output_meants_def sampling_meants_1)
qed

lemma func_zeros_LR: "calc_func_zeros func_LR = Inr [2, 5]"
  by (simp add: calc_func_zeros_def column_def np_where_def func_LR_def ts_a_def ts_c_def
      ts_z_def upt_0_6)

lemma run_two_seeds:
  "run_PINT (line_env s (\<lambda>k xs. xs)) line_args
     = Inr ((frame_final, 0, Dist 1, 2), meants_0, meants_1)"
proof -
  have st: "vstack func_L func_R = Inr func_LR"
    by (simp add: vstack_def func_L_def func_R_def func_LR_def)
  have n: "length (mrows func_L) = 3" by (simp add: func_L_def)
  show ?thesis
    unfolding run_PINT_def Let_def
    by (simp add: line_args_def log_arguments_def load_df_def st n func_zeros_LR
        iterate_two_seeds output_two_seeds del: One_nat_def)
qed

text \<open>
  Claim C10. The validity flag is computed from timepoint 5 alone: \<open>func_zeros\<close> lists,
  in ascending order, the vertices of the stacked matrix whose value at timepoint index 5 is
  below 5. A matrix with fewer than six timepoints has no such column and the computation
  raises IndexError. Two matrices that agree at timepoint 5 get the same flags, whatever
  the rest of the series is. A run on data with fewer than six timepoints cannot succeed:
  it ends in an exception before the first sweep. A run that succeeds has passed exactly this
  list, computed once from the left block stacked on the right block, to its sweeps.
\<close>

theorem validity_flag_timepoint_5:
  "calc_func_zeros M =
     (if ncols M < 6 then Inl IndexError
      else Inr (filter (\<lambda>v. mrows M ! v ! 5 < 5) [0..<length (mrows M)]))
   \<and> (6 \<le> ncols M \<and> 6 \<le> ncols M' \<and> map (\<lambda>r. r ! 5) (mrows M) = map (\<lambda>r. r ! 5) (mrows M')
        \<longrightarrow> calc_func_zeros M = calc_func_zeros M')
   \<and> (ncols (fst (func args)) < 6 \<longrightarrow>
        run_PINT E args \<in> {Inl AttributeError, Inl ValueError, Inl IndexError})
   \<and> (run_PINT E args = Inr (res, tvertex_meants, ivertex_meants) \<longrightarrow>
        iterate_pint E (radii args) (load_df args) Tvertex
           \<lparr>ncols = ncols (fst (func args)),
              mrows = mrows (fst (func args)) @ mrows (snd (func args))\<rparr>
           (filter (\<lambda>v. (mrows (fst (func args)) @ mrows (snd (func args))) ! v ! 5 < 5)
              [0..<length (mrows (fst (func args)) @ mrows (snd (func args)))])
           (pcorr_opt args) (length (mrows (fst (func args)))) 0 = Inr res)"
proof (intro conjI impI)
  show "calc_func_zeros M =
     (if ncols M < 6 then Inl IndexError
      else Inr (filter (\<lambda>v. mrows M ! v ! 5 < 5) [0..<length (mrows M)]))"
    by (rule calc_func_zeros_eq)
next
  assume "6 \<le> ncols M \<and> 6 \<le> ncols M' \<and> map (\<lambda>r. r ! 5) (mrows M) = map (\<lambda>r. r ! 5) (mrows M')"
  then show "calc_func_zeros M = calc_func_zeros M'"
    by (simp add: calc_func_zeros_def column_def)
next
  assume short: "ncols (fst (func args)) < 6"
  show "run_PINT E args \<in> {Inl AttributeError, Inl ValueError, Inl IndexError}"
  proof (cases "log_arguments args")
    case (Inl e)
    then have "e = AttributeError"
      by (auto simp: log_arguments_def split: option.splits)
    with Inl show ?thesis by (simp add: run_PINT_def)
  next
    case logged: (Inr u)
    show ?thesis
    proof (cases "vstack (fst (func args)) (snd (func args))")
      case (Inl e)
      then have "e = ValueError"
        by (auto simp: vstack_def split: if_splits)
      with Inl logged show ?thesis by (simp add: run_PINT_def Let_def)
    next
      case (Inr func_data)
      then have "ncols func_data < 6"
        using short by (auto simp: vstack_def split: if_splits)
      then have "calc_func_zeros func_data = Inl IndexError"
        by (simp add: calc_func_zeros_eq)
      with Inr logged show ?thesis by (simp add: run_PINT_def Let_def)
    qed
  qed
next
  assume "run_PINT E args = Inr (res, tvertex_meants, ivertex_meants)"
  then show "iterate_pint E (radii args) (load_df args) Tvertex
           \<lparr>ncols = ncols (fst (func args)),
              mrows = mrows (fst (func args)) @ mrows (snd (func args))\<rparr>
           (filter (\<lambda>v. (mrows (fst (func args)) @ mrows (snd (func args))) ! v ! 5 < 5)
              [0..<length (mrows (fst (func args)) @ mrows (snd (func args)))])
           (pcorr_opt args) (length (mrows (fst (func args)))) 0 = Inr res"
    by (rule run_PINT_Inr(2))
qed

theorem validity_flag_timepoint_5_witness:
  "calc_func_zeros func_LR = Inr [2, 5]
   \<and> 6 \<le> ncols func_LR \<and> 6 \<le> ncols func_LR_alt
   \<and> map (\<lambda>r. r ! 5) (mrows func_LR) = map (\<lambda>r. r ! 5) (mrows func_LR_alt)
   \<and> mrows func_LR \<noteq> mrows func_LR_alt
   \<and> calc_func_zeros func_LR_alt = Inr [2, 5]
   \<and> ncols (fst (func short_args)) < 6
   \<and> run_PINT (line_env True (\<lambda>k xs. xs)) short_args
        \<in> {Inl AttributeError, Inl ValueError, Inl IndexError}
   \<and> run_PINT (line_env True (\<lambda>k xs. xs)) line_args
        = Inr ((frame_final, 0, Dist 1, 2), meants_0, meants_1)
   \<and> iterate_pint (line_env True (\<lambda>k xs. xs)) radii_0_6_12 two_seeds Tvertex func_LR [2, 5]
        False 3 0 = Inr (frame_final, 0, Dist 1, 2)"
proof -
  let ?E = "line_env True (\<lambda>k xs. xs)"
  note flag = validity_flag_timepoint_5 [where M = func_LR and M' = func_LR_alt and E = ?E]
  have same5: "6 \<le> ncols func_LR \<and> 6 \<le> ncols func_LR_alt
      \<and> map (\<lambda>r. r ! 5) (mrows func_LR) = map (\<lambda>r. r ! 5) (mrows func_LR_alt)"
    by (simp add: func_LR_def func_LR_alt_def ts_a_def ts_c_def ts_z_def)
  have differ: "mrows func_LR \<noteq> mrows func_LR_alt"
    by (simp add: func_LR_def func_LR_alt_def ts_a_def ts_c_def ts_z_def)
  have short: "ncols (fst (func short_args)) < 6"
    by (simp add: short_args_def line_args_def)
  from flag have zeros: "calc_func_zeros func_LR = Inr [2, 5]"
    by (simp add: func_LR_def ts_a_def ts_c_def ts_z_def upt_0_6)
  from flag same5 have "calc_func_zeros func_LR = calc_func_zeros func_LR_alt"
    by blast
  with zeros have zeros_alt: "calc_func_zeros func_LR_alt = Inr [2, 5]"
    by simp
  from flag [where args = short_args] short
  have failed: "run_PINT ?E short_args \<in> {Inl AttributeError, Inl ValueError, Inl IndexError}"
    by blast
  note run = run_two_seeds [of True]
  from flag [where args = line_args and res = "(frame_final, 0, Dist 1, 2)"
      and tvertex_meants = meants_0 and ivertex_meants = meants_1] run
  have "iterate_pint ?E (radii line_args) (load_df line_args) Tvertex
           \<lparr>ncols = ncols (fst (func line_args)),
              mrows = mrows (fst (func line_args)) @ mrows (snd (func line_args))\<rparr>
           (filter (\<lambda>v. (mrows (fst (func line_args)) @ mrows (snd (func line_args))) ! v ! 5 < 5)
              [0..<length (mrows (fst (func line_args)) @ mrows (snd (func line_args)))])
           (pcorr_opt line_args) (length (mrows (fst (func line_args)))) 0
         = Inr (frame_final, 0, Dist 1, 2)"
    by blast
  moreover have "radii line_args = radii_0_6_12" "load_df line_args = two_seeds"
      "pcorr_opt line_args = False" "length (mrows (fst (func line_args))) = 3"
    by (simp_all add: line_args_def load_df_def func_L_def)
  moreover have "\<lparr>ncols = ncols (fst (func line_args)),
        mrows = mrows (fst (func line_args)) @ mrows (snd (func line_args))\<rparr> = func_LR"
    by (simp add: line_args_def func_L_def func_R_def func_LR_def)
  moreover have "filter (\<lambda>v. (mrows (fst (func line_args)) @ mrows (snd (func line_args))) ! v ! 5 < 5)
        [0..<length (mrows (fst (func line_args)) @ mrows (snd (func line_args)))] = [2, 5]"
    by (simp add: line_args_def func_L_def func_R_def ts_a_def ts_c_def ts_z_def upt_0_6)
  ultimately have passed: "iterate_pint ?E radii_0_6_12 two_seeds Tvertex func_LR [2, 5]
        False 3 0 = Inr (frame_final, 0, Dist 1, 2)"
    by (simp only:)
  from same5 differ short zeros zeros_alt failed run passed show ?thesis
    by blast
qed

section \<open>A seed without candidates\<close>

text \<open>
  When the reads of lines 351-358 raise nothing, the test of line 368 does what its comment
  says: a seed with an empty search space keeps its position, and in a sweep that completes
  its recorded distance is 0, the distance between a vertex and itself being 0 without any
  call of the geometry provider.
\<close>

lemma new_columns_nth:
  assumes "i < length t"
  shows "roiidx (new_columns k t ! i) = roiidx (t ! i)"
    and "NETWORK (new_columns k t ! i) = NETWORK (t ! i)"
    and "hemi (new_columns k t ! i) = hemi (t ! i)"
    and "vcols (new_columns k t ! i) = (vcols (t ! i))(Vertex k \<mapsto> -999)"
  using assms by (simp_all add: new_columns_def set_vcol_def set_dcol_def)

lemma sweep_empty_search_space:
  assumes sw: "sweep E cfg func_data func_zeros pcorr num_Lverts k c d = Inr (d3, m)"
      and masks: "sweep_masks E cfg (new_columns k d) c func_zeros
                    = Inr (sampling_rois, search_rois, padding_rois)"
      and idx: "idx < length d"
      and empty: "search_space search_rois padding_rois (roiidx (d ! idx)) = []"
      and cols: "c \<noteq> Vertex k"
      and order: "distinct (shuffle E k [0..<length d])" "idx \<in> set (shuffle E k [0..<length d])"
  shows "get_vertex d3 idx (Vertex k) = get_vertex d idx c
       \<and> get_vertex d idx c \<noteq> Inl KeyError
       \<and> dcols (d3 ! idx) (Dist k) = Some 0
       \<and> calc_surf_distance E' surf v v radius = 0"
proof -
  let ?d1 = "new_columns k d"
  let ?order = "shuffle E k [0..<length d]"
  let ?nv = "\<lambda>i. new_vertex E ?d1 i c func_data sampling_meants search_rois padding_rois
                pcorr num_Lverts netmeants"
  from sw masks obtain sampling_meants netmeants d2 where
        mv: "move_all E ?order c (Vertex k) func_data sampling_meants search_rois padding_rois
               pcorr num_Lverts netmeants ?d1 = Inr d2"
    and dc: "calc_distance_column E d2 c (Vertex k) (Dist k) (RADIUS_SEARCH cfg) = Inr d3"
    unfolding sweep_def Let_def by (auto split: sum.splits prod.splits)
  let ?nv = "\<lambda>i. new_vertex E ?d1 i c func_data sampling_meants search_rois padding_rois
                pcorr num_Lverts netmeants"
  from mv have all: "\<forall>i \<in> set ?order. \<exists>v. ?nv i = Inr v"
    and d2: "d2 = moved (Vertex k) (set ?order) (\<lambda>i. projr (?nv i)) ?d1"
    unfolding move_all_moved [OF order(1)] by simp_all
  from all order(2) obtain v where v: "?nv idx = Inr v" by blast
  have row: "roiidx (?d1 ! idx) = roiidx (d ! idx)"
    and vc: "vcols (?d1 ! idx) c = vcols (d ! idx) c"
    using idx cols by (simp_all add: new_columns_nth)
  from v empty row idx have orig: "get_vertex ?d1 idx c = Inr v"
    by (auto simp: new_vertex_def split: sum.splits if_splits)
  with vc idx have in_d: "get_vertex d idx c = Inr v" and some: "vcols (d ! idx) c = Some v"
    by (auto simp: get_vertex_def split: option.splits)
  have row2: "d2 ! idx = (?d1 ! idx)\<lparr>vcols := (vcols (?d1 ! idx))(Vertex k \<mapsto> v)\<rparr>"
    using idx order(2) v by (simp add: d2 moved_def)
  from dc have d3: "d3 = map (\<lambda>s. with_dist (Dist k)
        (projr (row_distance E c (Vertex k) (RADIUS_SEARCH cfg) s)) s) d2"
    by (simp add: calc_distance_column_iff)
  have len2: "idx < length d2" using idx by (simp add: d2 moved_def)
  have rd: "row_distance E c (Vertex k) (RADIUS_SEARCH cfg) (d2 ! idx) = Inr 0"
    using cols vc some by (simp add: row2 row_distance_def calc_surf_distance_def)
  have out: "get_vertex d3 idx (Vertex k) = Inr v"
    using len2 by (simp add: d3 get_vertex_def row2)
  have dist: "dcols (d3 ! idx) (Dist k) = Some 0"
    using len2 rd by (simp add: d3)
  have "calc_surf_distance E' surf v v radius = 0" for E' surf v radius
    by (simp add: calc_surf_distance_def)
  with out in_d dist show ?thesis by simp
qed


lemma pint_move_vertex_empty:
  assumes "idx < length d"
      and "get_vertex d idx vertex_incol = Inr orig_vertex"
      and "network_target E sampling_meants d (NETWORK (d ! idx)) (roiidx (d ! idx)) = Inr meants"
      and "search_space search_rois padding_rois (roiidx (d ! idx)) = []"
  shows "pint_move_vertex E d idx vertex_incol vertex_outcol func_data sampling_meants
           search_rois padding_rois pcorr num_Lverts netmeants
         = Inr (put_vertex idx vertex_outcol orig_vertex d)"
  using assms by (simp add: pint_move_vertex_def)

lemmas crowded = crowded_done_def crowded_moved_def crowded_frame_def new_columns_def
  crowded_seeds_def seed_row_def set_vcol_def set_dcol_def put_vertex_def put_dist_def

lemma crowded_rows:
  "length crowded_frame = 3" "length crowded_seeds = 3"
  "roiidx (crowded_frame ! 0) = 1" "NETWORK (crowded_frame ! 0) = ''DMN''"
  "roiidx (crowded_frame ! Suc 0) = 2" "NETWORK (crowded_frame ! Suc 0) = ''DMN''"
  "roiidx (crowded_frame ! 2) = 3" "NETWORK (crowded_frame ! 2) = ''DMN''"
  "hemi (crowded_frame ! 2) = R"
  "get_vertex crowded_frame 0 Tvertex = Inr 0" "get_vertex crowded_frame (Suc 0) Tvertex = Inr 1"
  "get_vertex crowded_frame 2 Tvertex = Inr 0"
  "roiidx (crowded_seeds ! 0) = 1" "get_vertex crowded_seeds 0 Tvertex = Inr 0"
  by (simp_all add: crowded get_vertex_def)

lemma crowded_masks:
  "sweep_masks (line_env s ord) radii_0_6_12 crowded_frame Tvertex [2, 5]
     = Inr (crowded_sampling, crowded_search, crowded_padding)"
  by (simp add: sweep_masks_def rois_bilateral_def roi_surf_data_def get_vcol_def crowded
      line_env_def radii_0_6_12_def zero_at_def upt_0_2 upt_0_3 crowded_sampling_def
      crowded_search_def crowded_padding_def)

lemma crowded_sampling_meants:
  "calc_sampling_meants crowded_func crowded_sampling = Inr crowded_meants"
  by (simp add: calc_sampling_meants_def mask_rois_def np_unique_def roi_meants_def
      take_rows_def np_where_def py_index_def mean_axis0_def crowded_sampling_def
      crowded_func_def crowded_meants_def upt_0_6 ts_a_def)

lemma crowded_target:
  "network_target (line_env s ord) crowded_meants crowded_frame ''DMN'' 1 = Inr (Fin ts_a)"
  "network_target (line_env s ord) crowded_meants crowded_frame ''DMN'' 2 = Inr (Fin ts_a)"
  "network_target (line_env s ord) crowded_meants crowded_frame ''DMN'' 3 = Inr (Fin ts_a)"
  by (simp_all add: network_target_def other_labels_def network_labels_def crowded
      take_rows_def crowded_meants_def py_index_def np_mean_axis0_def mean_axis0_def upt_0_6
      ts_a_def)

lemma crowded_space:
  "search_space crowded_search crowded_padding 1 = []"
  "search_space crowded_search crowded_padding 2 = []"
  "search_space crowded_search crowded_padding 3 = [3, 4]"
  by (simp_all add: search_space_def np_where_def crowded_search_def crowded_padding_def upt_0_6)

lemma crowded_scores:
  "for_each (score_vertex (line_env s ord) False crowded_func (Fin ts_a) None ''DMN'') [3, 4]
     (replicate (length (mrows crowded_func)) (Score (-1)))
   = Inr [Score (-1), Score (-1), Score (-1), Score 1, Score 1, Score (-1)]"
  by (simp add: score_vertex_def crowded_func_def replicate_6 line_env_def cov_values)

lemma crowded_nv:
  "new_vertex (line_env s ord) crowded_frame 0 Tvertex crowded_func crowded_meants
     crowded_search crowded_padding False 3 None = Inr 0"
  "new_vertex (line_env s ord) crowded_frame (Suc 0) Tvertex crowded_func crowded_meants
     crowded_search crowded_padding False 3 None = Inr 1"
  "new_vertex (line_env s ord) crowded_frame 2 Tvertex crowded_func crowded_meants
     crowded_search crowded_padding False 3 None = Inr 0"
  by (simp_all add: new_vertex_def crowded_rows crowded_target crowded_space crowded_scores
      np_argmax_def del: for_each.simps)

lemma crowded_move_all:
  "move_all (line_env s ord) [0, 1, 2] Tvertex (Vertex 0) crowded_func crowded_meants
     crowded_search crowded_padding False 3 None crowded_frame = Inr crowded_moved"
  by (simp add: move_all_def pint_move_vertex_new_vertex crowded_nv new_vertex_put_other
      crowded_moved_def)

lemma crowded_distance:
  "calc_distance_column (line_env s ord) crowded_moved Tvertex (Vertex 0) (Dist 0)
     (RADIUS_SEARCH radii_0_6_12) = Inr crowded_done"
  by (simp add: calc_distance_column_def distance_row_def get_vertex_def calc_surf_distance_def
      line_env_def radii_0_6_12_def crowded upt_0_3)

lemma crowded_sweep:
  "sweep (line_env s (\<lambda>k xs. xs)) radii_0_6_12 crowded_func [2, 5] False 3 0 Tvertex
     crowded_seeds = Inr (crowded_done, 0)"
proof (rule sweep_steps [OF crowded_frame_def crowded_masks crowded_sampling_meants])
  have "shuffle (line_env s (\<lambda>k xs. xs)) 0 [0..<length crowded_frame] = [0, 1, 2]"
    by (simp add: line_env_def crowded_rows upt_0_3)
  then show "move_all (line_env s (\<lambda>k xs. xs))
        (shuffle (line_env s (\<lambda>k xs. xs)) 0 [0..<length crowded_frame]) Tvertex (Vertex 0)
        crowded_func crowded_meants crowded_search crowded_padding False 3 None crowded_frame
        = Inr crowded_moved"
    by (simp only: crowded_move_all)
  show "calc_distance_column (line_env s (\<lambda>k xs. xs)) crowded_moved Tvertex (Vertex 0)
          (Dist 0) (RADIUS_SEARCH radii_0_6_12) = Inr crowded_done"
    by (rule crowded_distance)
  show "col_max crowded_done (Dist 0) = Inr 0"
    by (simp add: col_max_def get_dcol_def py_max_def crowded)
qed

subsection \<open>A seed in signal dropout\<close>

lemmas dropout = dropout_frame_def new_columns_def dropout_seeds_def seed_row_def set_vcol_def
  set_dcol_def

lemma dropout_rows:
  "length dropout_frame = 2"
  "roiidx (dropout_frame ! 0) = 1" "NETWORK (dropout_frame ! 0) = ''DMN''"
  "hemi (dropout_frame ! 0) = L" "get_vertex dropout_frame 0 Tvertex = Inr 2"
  "roiidx (dropout_frame ! Suc 0) = 2" "NETWORK (dropout_frame ! Suc 0) = ''DMN''"
  "hemi (dropout_frame ! Suc 0) = R" "get_vertex dropout_frame (Suc 0) Tvertex = Inr 0"
  by (simp_all add: dropout get_vertex_def)

lemma dropout_zeros: "calc_func_zeros dropout_func = Inr [1, 2, 5]"
  by (simp add: calc_func_zeros_def column_def np_where_def dropout_func_def ts_a_def ts_z_def
      upt_0_6)

lemma dropout_masks:
  "sweep_masks (line_env s ord) radii_0_6_12 dropout_frame Tvertex [1, 2, 5]
     = Inr (dropout_sampling, search_none, padding_0)"
  by (simp add: sweep_masks_def rois_bilateral_def roi_surf_data_def get_vcol_def dropout
      line_env_def radii_0_6_12_def zero_at_def upt_0_3 dropout_sampling_def search_none_def
      padding_0_def)

lemma dropout_sampling_meants:
  "calc_sampling_meants dropout_func dropout_sampling = Inr meants_none"
  by (simp add: calc_sampling_meants_def mask_rois_def np_unique_def roi_meants_def
      take_rows_def np_where_def py_index_def mean_axis0_def dropout_sampling_def
      dropout_func_def meants_none_def upt_0_6 ts_a_def)

lemma dropout_target:
  "network_target (line_env s ord) meants_none dropout_frame ''DMN'' 1 = Inl IndexError"
  "network_target (line_env s ord) meants_none dropout_frame ''DMN'' 2 = Inr (Fin ts_a)"
  by (simp_all add: network_target_def other_labels_def network_labels_def dropout
      take_rows_def meants_none_def py_index_def np_mean_axis0_def mean_axis0_def upt_0_6
      ts_a_def)

lemma dropout_space:
  "search_space search_none padding_0 1 = []"
  "search_space search_none padding_0 2 = [3, 4]"
  by (simp_all add: search_space_def np_where_def search_none_def padding_0_def upt_0_6)

lemma dropout_scores:
  "for_each (score_vertex (line_env s ord) False dropout_func (Fin ts_a) None ''DMN'') [3, 4]
     (replicate (length (mrows dropout_func)) (Score (-1)))
   = Inr [Score (-1), Score (-1), Score (-1), Score 1, Score 1, Score (-1)]"
  by (simp add: score_vertex_def dropout_func_def replicate_6 line_env_def cov_values)

lemma dropout_nv:
  "new_vertex (line_env s ord) dropout_frame 0 Tvertex dropout_func meants_none search_none
     padding_0 False 3 None = Inl IndexError"
  "new_vertex (line_env s ord) dropout_frame (Suc 0) Tvertex dropout_func meants_none
     search_none padding_0 False 3 None = Inr 0"
  by (simp_all add: new_vertex_def dropout_rows dropout_target dropout_space dropout_scores
      np_argmax_def del: for_each.simps)

lemma dropout_move:
  "pint_move_vertex (line_env s ord) dropout_frame 0 Tvertex (Vertex 0) dropout_func
     meants_none search_none padding_0 False 3 None = Inl IndexError"
  "move_all (line_env s ord) [0, 1] Tvertex (Vertex 0) dropout_func meants_none search_none
     padding_0 False 3 None dropout_frame = Inl IndexError"
  "move_all (line_env s ord) [1, 0] Tvertex (Vertex 0) dropout_func meants_none search_none
     padding_0 False 3 None dropout_frame = Inl IndexError"
  by (simp_all add: move_all_def pint_move_vertex_new_vertex dropout_nv new_vertex_put_other)

lemma dropout_sweep:
  assumes "ord 0 [0, 1] = [0, 1] \<or> ord 0 [0, 1] = [1, 0]"
  shows "sweep (line_env s ord) radii_0_6_12 dropout_func [1, 2, 5] False 3 0 Tvertex
           dropout_seeds = Inl IndexError"
proof -
  have "shuffle (line_env s ord) 0 [0..<length dropout_frame] = ord 0 [0, 1]"
    by (simp add: line_env_def dropout_rows upt_0_2)
  with assms have "move_all (line_env s ord) (shuffle (line_env s ord) 0 [0..<length dropout_frame])
      Tvertex (Vertex 0) dropout_func meants_none search_none padding_0 False 3 None
      dropout_frame = Inl IndexError"
    using dropout_move(2,3) [of s ord] by auto
  then show ?thesis
    unfolding sweep_def Let_def dropout_frame_def [symmetric]
    by (simp add: dropout_masks dropout_sampling_meants del: One_nat_def)
qed

lemma dropout_iterate:
  assumes "ord 0 [0, 1] = [0, 1] \<or> ord 0 [0, 1] = [1, 0]"
  shows "iterate_pint (line_env s ord) radii_0_6_12 dropout_seeds Tvertex dropout_func
           [1, 2, 5] False 3 0 = Inl IndexError"
  by (simp add: iterate_pint_def dropout_sweep [where ord = ord and s = s, OF assms]
      pint_loop.simps [of "line_env s ord" radii_0_6_12 dropout_func "[1, 2, 5]" False 3
        0 0 10 Tvertex dropout_seeds] del: One_nat_def)

lemma dropout_run:
  "run_PINT (line_env s (\<lambda>k xs. xs)) dropout_args = Inl IndexError"
proof -
  have st: "vstack \<lparr>ncols = 6, mrows = [ts_a, ts_z, ts_z]\<rparr> \<lparr>ncols = 6, mrows = [ts_a, ts_a, ts_z]\<rparr>
      = Inr dropout_func"
    by (simp add: vstack_def dropout_func_def)
  have n: "length [ts_a, ts_z, ts_z] = 3" by simp
  have it: "iterate_pint (line_env s (\<lambda>k xs. xs)) radii_0_6_12 dropout_seeds Tvertex
      dropout_func [1, 2, 5] False 3 0 = Inl IndexError"
    by (rule dropout_iterate) simp
  show ?thesis
    unfolding run_PINT_def Let_def
    by (simp add: dropout_args_def log_arguments_def load_df_def st n dropout_zeros it
        del: One_nat_def list.size)
qed

text \<open>
  Claim C7, evaluated where the code departs from it. Seed 1 sits at vertex 2 of the left
  hemisphere; vertices 1, 2 and 5 have no signal and are flagged. Its search space, the
  intersection of its search-mask and padding-mask vertices, is empty, so the seed should
  stay where it is with a displacement of 0. But \<open>pint_move_vertex\<close> reads the target
  rows (lines 357-358) before it tests the search space (line 368): the sampling region of
  seed 1 is flagged away too, the sampling means have a single row, and the row index 1 of
  its co-member raises IndexError. The sweep raises in either visiting order, and with it
  \<open>iterate_pint\<close> and the run. In the crowded world, where the target rows exist, the
  same empty search space is the normal outcome: seed 1 stays at vertex 0 with distance 0.
\<close>

theorem empty_search_space_raises:
  "calc_func_zeros dropout_func = Inr [1, 2, 5]
   \<and> sweep_masks (line_env True (\<lambda>k xs. xs)) radii_0_6_12 (new_columns 0 dropout_seeds) Tvertex
       [1, 2, 5] = Inr ([0, 0, 0, 2, 0, 0], [0, 0, 0, 2, 2, 0], [1, 1, 1, 2, 2, 2])
   \<and> search_space [0, 0, 0, 2, 2, 0] [1, 1, 1, 2, 2, 2] 1 = []
   \<and> calc_sampling_meants dropout_func [0, 0, 0, 2, 0, 0]
       = Inr \<lparr>ncols = 6, mrows = [[7, 9, 10, 10, 11, 13]]\<rparr>
   \<and> pint_move_vertex (line_env True (\<lambda>k xs. xs)) (new_columns 0 dropout_seeds) 0 Tvertex
       (Vertex 0) dropout_func \<lparr>ncols = 6, mrows = [[7, 9, 10, 10, 11, 13]]\<rparr>
       [0, 0, 0, 2, 2, 0] [1, 1, 1, 2, 2, 2] False 3 None = Inl IndexError
   \<and> sweep (line_env True (\<lambda>k xs. xs)) radii_0_6_12 dropout_func [1, 2, 5] False 3 0 Tvertex
       dropout_seeds = Inl IndexError
   \<and> sweep (line_env True (\<lambda>k xs. rev xs)) radii_0_6_12 dropout_func [1, 2, 5] False 3 0
       Tvertex dropout_seeds = Inl IndexError
   \<and> iterate_pint (line_env True (\<lambda>k xs. xs)) radii_0_6_12 dropout_seeds Tvertex dropout_func
       [1, 2, 5] False 3 0 = Inl IndexError
   \<and> run_PINT (line_env True (\<lambda>k xs. xs)) dropout_args = Inl IndexError
   \<and> search_space crowded_search crowded_padding 1 = []
   \<and> sweep (line_env True (\<lambda>k xs. xs)) radii_0_6_12 crowded_func [2, 5] False 3 0 Tvertex
       crowded_seeds = Inr (crowded_done, 0)
   \<and> get_vertex crowded_seeds 0 Tvertex = Inr 0
   \<and> get_vertex crowded_done 0 (Vertex 0) = Inr 0
   \<and> dcols (crowded_done ! 0) (Dist 0) = Some 0"
proof -
  let ?E = "line_env True (\<lambda>k xs. xs)"
  note dropout_zeros
  moreover have "sweep_masks ?E radii_0_6_12 (new_columns 0 dropout_seeds) Tvertex [1, 2, 5]
      = Inr ([0, 0, 0, 2, 0, 0], [0, 0, 0, 2, 2, 0], [1, 1, 1, 2, 2, 2])"
    using dropout_masks [of True "\<lambda>k xs. xs"]
    by (simp add: dropout_frame_def dropout_sampling_def search_none_def padding_0_def)
  moreover have "search_space [0, 0, 0, 2, 2, 0] [1, 1, 1, 2, 2, 2] 1 = []"
    using dropout_space(1) by (simp add: search_none_def padding_0_def)
  moreover have "calc_sampling_meants dropout_func [0, 0, 0, 2, 0, 0]
      = Inr \<lparr>ncols = 6, mrows = [[7, 9, 10, 10, 11, 13]]\<rparr>"
    using dropout_sampling_meants
    by (simp add: dropout_sampling_def meants_none_def ts_a_def)
  moreover have "pint_move_vertex ?E (new_columns 0 dropout_seeds) 0 Tvertex
       (Vertex 0) dropout_func \<lparr>ncols = 6, mrows = [[7, 9, 10, 10, 11, 13]]\<rparr>
       [0, 0, 0, 2, 2, 0] [1, 1, 1, 2, 2, 2] False 3 None = Inl IndexError"
    using dropout_move(1) [of True "\<lambda>k xs. xs"]
    by (simp add: dropout_frame_def meants_none_def search_none_def padding_0_def ts_a_def)
  moreover have "sweep ?E radii_0_6_12 dropout_func [1, 2, 5] False 3 0 Tvertex
       dropout_seeds = Inl IndexError"
    by (rule dropout_sweep) simp
  moreover have "sweep (line_env True (\<lambda>k xs. rev xs)) radii_0_6_12 dropout_func [1, 2, 5]
       False 3 0 Tvertex dropout_seeds = Inl IndexError"
    by (rule dropout_sweep) simp
  moreover have "iterate_pint ?E radii_0_6_12 dropout_seeds Tvertex dropout_func
       [1, 2, 5] False 3 0 = Inl IndexError"
    by (rule dropout_iterate) simp
  moreover note dropout_run [of True] crowded_space(1) crowded_sweep [of True]
  moreover have "get_vertex crowded_seeds 0 Tvertex = Inr 0"
      "get_vertex crowded_done 0 (Vertex 0) = Inr 0"
      "dcols (crowded_done ! 0) (Dist 0) = Some 0"
    by (simp_all add: get_vertex_def crowded)
  ultimately show ?thesis by blast
qed

section \<open>Partial correlation\<close>

lemma series_dot_sum: "series_dot T a b = (\<Sum>t<T. a ! t * b ! t)"
  by (simp add: series_dot_def interv_sum_list_conv_sum_set_nat atLeast0LessThan)

lemma Z_dot_length [simp]: "length (Z_dot T Z beta) = T"
  by (simp add: Z_dot_def)

lemma Z_dot_nth: "t < T \<Longrightarrow> Z_dot T Z beta ! t = sum_list (map2 (\<lambda>c b. c ! t * b) Z beta)"
  by (simp add: Z_dot_def)

lemma fit_residual_nth: "t < T \<Longrightarrow> fit_residual T Z x beta ! t = x ! t - Z_dot T Z beta ! t"
  by (simp add: fit_residual_def)

lemma span_orthogonal_sum:
  fixes r :: "nat \<Rightarrow> real"
  assumes "\<forall>c\<in>set Z. (\<Sum>t<T. c ! t * r t) = 0"
  shows "(\<Sum>t<T. sum_list (map2 (\<lambda>c b. c ! t * b) Z beta) * r t) = 0"
  using assms
proof (induction Z arbitrary: beta)
  case Nil
  then show ?case by simp
next
  case (Cons c Z)
  show ?case
  proof (cases beta)
    case Nil
    then show ?thesis by simp
  next
    case (Cons b bs)
    have "(\<Sum>t<T. sum_list (map2 (\<lambda>c b. c ! t * b) (c # Z) beta) * r t)
        = (\<Sum>t<T. b * (c ! t * r t) + sum_list (map2 (\<lambda>c b. c ! t * b) Z bs) * r t)"
      by (rule sum.cong) (simp_all add: Cons algebra_simps)
    also have "\<dots> = b * (\<Sum>t<T. c ! t * r t)
        + (\<Sum>t<T. sum_list (map2 (\<lambda>c b. c ! t * b) Z bs) * r t)"
      by (simp add: sum.distrib sum_distrib_left)
    also have "\<dots> = 0"
      using Cons.prems Cons.IH [of bs] by simp
    finally show ?thesis .
  qed
qed

lemma span_orthogonal:
  fixes r :: "nat \<Rightarrow> real"
  assumes "\<forall>c\<in>set Z. (\<Sum>t<T. c ! t * r t) = 0"
  shows "(\<Sum>t<T. Z_dot T Z beta ! t * r t) = 0"
proof -
  have "(\<Sum>t<T. Z_dot T Z beta ! t * r t)
      = (\<Sum>t<T. sum_list (map2 (\<lambda>c b. c ! t * b) Z beta) * r t)"
    by (rule sum.cong) (simp_all add: Z_dot_nth)
  with span_orthogonal_sum [OF assms] show ?thesis by simp
qed

lemma least_squares_orthogonal:
  assumes "least_squares T Z x beta" "c \<in> set Z"
  shows "(\<Sum>t<T. c ! t * (x ! t - Z_dot T Z beta ! t)) = 0"
proof -
  from assms have "series_dot T c (fit_residual T Z x beta) = 0"
    by (simp add: least_squares_def list_all_iff)
  moreover have "series_dot T c (fit_residual T Z x beta)
      = (\<Sum>t<T. c ! t * (x ! t - Z_dot T Z beta ! t))"
    unfolding series_dot_sum by (rule sum.cong) (simp_all add: fit_residual_nth)
  ultimately show ?thesis by simp
qed

lemma least_squares_fit_unique:
  assumes a: "least_squares T Z x beta" and b: "least_squares T Z' x beta'"
    and same: "set Z' = set Z"
  shows "Z_dot T Z beta = Z_dot T Z' beta'"
proof -
  define f where "f t = Z_dot T Z beta ! t" for t
  define g where "g t = Z_dot T Z' beta' ! t" for t
  define d where "d t = g t - f t" for t
  have orth: "\<forall>c\<in>set Z. (\<Sum>t<T. c ! t * d t) = 0"
  proof
    fix c assume c: "c \<in> set Z"
    with same have c': "c \<in> set Z'" by simp
    have "(\<Sum>t<T. c ! t * d t)
        = (\<Sum>t<T. c ! t * (x ! t - f t)) - (\<Sum>t<T. c ! t * (x ! t - g t))"
      by (simp add: d_def algebra_simps sum_subtractf sum.distrib)
    also have "\<dots> = 0"
      using least_squares_orthogonal [OF a c] least_squares_orthogonal [OF b c']
      by (simp add: f_def g_def)
    finally show "(\<Sum>t<T. c ! t * d t) = 0" .
  qed
  from orth same have orth': "\<forall>c\<in>set Z'. (\<Sum>t<T. c ! t * d t) = 0" by simp
  have "(\<Sum>t<T. d t * d t) = (\<Sum>t<T. g t * d t - f t * d t)"
    by (rule sum.cong) (simp_all add: d_def algebra_simps)
  also have "\<dots> = (\<Sum>t<T. g t * d t) - (\<Sum>t<T. f t * d t)"
    by (rule sum_subtractf)
  also have "\<dots> = 0"
    using span_orthogonal [OF orth, of beta] span_orthogonal [OF orth', of beta']
    by (simp add: f_def g_def)
  finally have "(\<Sum>t<T. d t * d t) = 0" .
  then have "\<forall>t\<in>{..<T}. d t * d t = 0"
    by (subst (asm) sum_nonneg_eq_0_iff) simp_all
  then have "\<forall>t<T. f t = g t"
    by (simp add: d_def)
  then show ?thesis
    by (intro nth_equalityI) (simp_all add: f_def g_def)
qed

lemma least_squares_minimal:
  assumes a: "least_squares T Z x beta"
  shows "series_dot T (fit_residual T Z x beta) (fit_residual T Z x beta)
       \<le> series_dot T (fit_residual T Z x beta') (fit_residual T Z x beta')"
proof -
  define f where "f t = Z_dot T Z beta ! t" for t
  define g where "g t = Z_dot T Z beta' ! t" for t
  define r where "r t = x ! t - f t" for t
  have orth: "\<forall>c\<in>set Z. (\<Sum>t<T. c ! t * r t) = 0"
    using least_squares_orthogonal [OF a] by (simp add: r_def f_def)
  have rf: "(\<Sum>t<T. f t * r t) = 0" and rg: "(\<Sum>t<T. g t * r t) = 0"
    using span_orthogonal [OF orth, of beta] span_orthogonal [OF orth, of beta']
    by (simp_all add: f_def g_def)
  have "(\<Sum>t<T. (x ! t - g t) * (x ! t - g t))
      = (\<Sum>t<T. r t * r t + (f t - g t) * (f t - g t) + 2 * (f t * r t) - 2 * (g t * r t))"
    by (rule sum.cong) (simp_all add: r_def algebra_simps)
  also have "\<dots> = (\<Sum>t<T. r t * r t) + (\<Sum>t<T. (f t - g t) * (f t - g t))"
    using rf rg by (simp add: sum.distrib sum_subtractf sum_distrib_left [symmetric])
  finally have "(\<Sum>t<T. r t * r t) \<le> (\<Sum>t<T. (x ! t - g t) * (x ! t - g t))"
    by (simp add: sum_nonneg)
  moreover have "series_dot T (fit_residual T Z x beta) (fit_residual T Z x beta)
      = (\<Sum>t<T. r t * r t)"
    unfolding series_dot_sum by (rule sum.cong) (simp_all add: fit_residual_nth r_def f_def)
  moreover have "series_dot T (fit_residual T Z x beta') (fit_residual T Z x beta')
      = (\<Sum>t<T. (x ! t - g t) * (x ! t - g t))"
    unfolding series_dot_sum by (rule sum.cong) (simp_all add: fit_residual_nth g_def)
  ultimately show ?thesis by simp
qed

lemma residual_fit:
  assumes "length x = T"
  shows "residual (Fin x) (Z_dot T Z beta) = Fin (fit_residual T Z x beta)"
  using assms by (auto intro!: nth_equalityI simp: fit_residual_def)


lemma sum_list_map2_update:
  fixes F :: "'a \<Rightarrow> real"
  assumes "j < length Z" "length beta = length Z"
  shows "sum_list (map2 (\<lambda>c b. F c * b) Z (beta[j := v]))
       = sum_list (map2 (\<lambda>c b. F c * b) Z beta) + F (Z ! j) * (v - beta ! j)"
  using assms
proof (induction Z arbitrary: beta j)
  case Nil
  then show ?case by simp
next
  case (Cons c Z)
  then obtain b bs where beta: "beta = b # bs" by (cases beta) auto
  show ?case
  proof (cases j)
    case 0
    then show ?thesis by (simp add: beta algebra_simps)
  next
    case (Suc i)
    with Cons.prems beta have "i < length Z" "length bs = length Z" by simp_all
    from Cons.IH [OF this] show ?thesis by (simp add: beta Suc)
  qed
qed

lemma minimal_least_squares:
  assumes len: "length beta = length Z"
    and minimal: "\<And>beta'. length beta' = length Z \<Longrightarrow>
        series_dot T (fit_residual T Z x beta) (fit_residual T Z x beta)
          \<le> series_dot T (fit_residual T Z x beta') (fit_residual T Z x beta')"
  shows "least_squares T Z x beta"
proof -
  define r where "r t = x ! t - Z_dot T Z beta ! t" for t
  have sse: "series_dot T (fit_residual T Z x b) (fit_residual T Z x b)
      = (\<Sum>t<T. (x ! t - Z_dot T Z b ! t) * (x ! t - Z_dot T Z b ! t))" for b
    unfolding series_dot_sum by (rule sum.cong) (simp_all add: fit_residual_nth)
  have "series_dot T c (fit_residual T Z x beta) = 0" if c: "c \<in> set Z" for c
  proof -
    from c obtain j where j: "j < length Z" "Z ! j = c"
      by (auto simp: in_set_conv_nth)
    define a where "a = (\<Sum>t<T. c ! t * c ! t)"
    define b where "b = (\<Sum>t<T. c ! t * r t)"
    have a: "0 \<le> a" by (simp add: a_def sum_nonneg)
    have step: "0 \<le> eps * eps * a - 2 * eps * b" for eps
    proof -
      let ?b' = "beta[j := beta ! j + eps]"
      have fit: "Z_dot T Z ?b' ! t = Z_dot T Z beta ! t + c ! t * eps" if "t < T" for t
        using that sum_list_map2_update [OF j(1) len, of "\<lambda>c. c ! t" "beta ! j + eps"] j(2)
        by (simp add: Z_dot_nth)
      have "(\<Sum>t<T. (x ! t - Z_dot T Z ?b' ! t) * (x ! t - Z_dot T Z ?b' ! t))
          = (\<Sum>t<T. (x ! t - (Z_dot T Z beta ! t + c ! t * eps))
                    * (x ! t - (Z_dot T Z beta ! t + c ! t * eps)))"
        by (rule sum.cong) (simp_all only: fit lessThan_iff)
      also have "\<dots>
          = (\<Sum>t<T. r t * r t + (eps * eps * (c ! t * c ! t) - 2 * eps * (c ! t * r t)))"
        by (rule sum.cong) (simp_all add: r_def algebra_simps)
      also have "\<dots> = (\<Sum>t<T. r t * r t) + (eps * eps * a - 2 * eps * b)"
        by (simp add: sum.distrib sum_subtractf sum_distrib_left a_def b_def)
      finally have "(\<Sum>t<T. (x ! t - Z_dot T Z ?b' ! t) * (x ! t - Z_dot T Z ?b' ! t))
          = (\<Sum>t<T. r t * r t) + (eps * eps * a - 2 * eps * b)" .
      moreover have "(\<Sum>t<T. r t * r t)
          \<le> (\<Sum>t<T. (x ! t - Z_dot T Z ?b' ! t) * (x ! t - Z_dot T Z ?b' ! t))"
        using minimal [of ?b'] len by (simp add: sse r_def)
      ultimately show ?thesis by simp
    qed
    have "b = 0"
    proof (cases "a = 0")
      case True
      with step [of b] have "b * b \<le> 0" by simp
      then show ?thesis by (auto simp: mult_le_0_iff)
    next
      case False
      with a have pos: "0 < a" by simp
      from step [of "b / a"] pos have "0 \<le> b * b / a - 2 * (b * b / a)"
        by (simp add: field_simps)
      then have "b * b / a \<le> 0" by simp
      with pos have "b * b \<le> 0" by (simp add: divide_le_0_iff)
      then show ?thesis by (auto simp: mult_le_0_iff)
    qed
    moreover have "series_dot T c (fit_residual T Z x beta) = b"
      unfolding series_dot_sum b_def by (rule sum.cong) (simp_all add: fit_residual_nth r_def)
    ultimately show ?thesis by simp
  qed
  with len show ?thesis
    by (simp add: least_squares_def list_all_iff)
qed

lemma emap_filter_means:
  assumes "emap (\<lambda>n. case g n of Inl e \<Rightarrow> Inl e | Inr rs \<Rightarrow> Inr (n, h rs)) ns = Inr nm"
  shows "emap (\<lambda>n. case g n of Inl e \<Rightarrow> Inl e | Inr rs \<Rightarrow> Inr (h rs)) (filter P ns)
       = Inr (map snd (filter (\<lambda>c. P (fst c)) nm))"
  using assms
proof (induction ns arbitrary: nm)
  case Nil
  then show ?case by simp
next
  case (Cons n ns)
  then show ?case
    by (auto split: sum.splits)
qed

lemma other_network_means_eq:
  assumes "calc_network_meants sampling_meants d = Inr nm"
  shows "other_network_means sampling_meants d network
       = Inr (map snd (filter (\<lambda>c. fst c \<noteq> network) nm))"
  using assms unfolding calc_network_meants_def other_network_means_def
  by (rule emap_filter_means)


lemmas net_series = ts_vis_def ts_mot_def ts_dmn_def ts_cand_def

lemma net_lstsq:
  "lstsq net_env [ts_vis, ts_mot] (Fin ts_dmn) = Inr [1, 2]"
  "lstsq net_env [ts_vis, ts_mot] (Fin ts_cand) = Inr [2, 1]"
  by (simp_all add: net_env_def inner_prod_def net_series)

lemma net_fits:
  "Z_dot 4 [ts_vis, ts_mot] [1, 2] = [1, 2, 0, 3]"
  "Z_dot 4 [ts_vis, ts_mot] [2, 1] = [2, 1, 0, 3]"
  "Z_dot 4 [ts_mot, ts_vis] [2, 1] = [1, 2, 0, 3]"
  "Z_dot 4 [ts_mot, ts_vis] [1, 2] = [2, 1, 0, 3]"
  "Z_dot 4 [ts_vis, ts_mot] [0, 0] = [0, 0, 0, 0]"
  by (simp_all add: Z_dot_def upt_0_4 net_series)

lemma net_residuals:
  "fit_residual 4 [ts_vis, ts_mot] ts_dmn [1, 2] = [0, 0, 2, 0]"
  "fit_residual 4 [ts_vis, ts_mot] ts_cand [2, 1] = [1, 1, 1, -1]"
  "fit_residual 4 [ts_mot, ts_vis] ts_dmn [2, 1] = [0, 0, 2, 0]"
  "fit_residual 4 [ts_mot, ts_vis] ts_cand [1, 2] = [1, 1, 1, -1]"
  "fit_residual 4 [ts_vis, ts_mot] ts_dmn [0, 0] = ts_dmn"
  by (simp_all add: fit_residual_def net_fits) (simp_all add: upt_0_4 net_series)

lemma net_least_squares:
  "least_squares 4 [ts_vis, ts_mot] ts_dmn [1, 2]"
  "least_squares 4 [ts_vis, ts_mot] ts_cand [2, 1]"
  "least_squares 4 [ts_mot, ts_vis] ts_dmn [2, 1]"
  "least_squares 4 [ts_mot, ts_vis] ts_cand [1, 2]"
  by (simp_all add: least_squares_def net_residuals series_dot_def upt_0_4)
     (simp_all add: net_series)

lemma net_pearsonr:
  "pearsonr net_env (Fin [0, 0, 2, 0]) (Fin [1, 1, 1, -1]) = Score (1/3)"
  by (simp add: net_env_def line_env_def cov_def series_mean_def)

lemma net_network_meants:
  "calc_network_meants net_meants net_seeds = Inr net_columns"
  by (simp add: calc_network_meants_def pd_unique_def net_seeds_def seed_row_def
      network_labels_def take_rows_def py_index_def net_meants_def mean_axis0_def
      net_columns_def net_series upt_0_4)


lemma least_squares_iff_minimal:
  "least_squares T Z x beta \<longleftrightarrow>
     length beta = length Z
     \<and> (\<forall>beta'. length beta' = length Z \<longrightarrow>
            sum_sq_residual T Z x beta \<le> sum_sq_residual T Z x beta')"
proof
  assume a: "least_squares T Z x beta"
  then have "length beta = length Z" by (simp add: least_squares_def)
  with least_squares_minimal [OF a] show "length beta = length Z
     \<and> (\<forall>beta'. length beta' = length Z \<longrightarrow>
            sum_sq_residual T Z x beta \<le> sum_sq_residual T Z x beta')"
    by (simp add: sum_sq_residual_def)
next
  assume "length beta = length Z
     \<and> (\<forall>beta'. length beta' = length Z \<longrightarrow>
            sum_sq_residual T Z x beta \<le> sum_sq_residual T Z x beta')"
  then show "least_squares T Z x beta"
    by (intro minimal_least_squares) (simp_all add: sum_sq_residual_def)
qed

lemma partial_corr_reference:
  assumes "lstsq E Z (Fin x) = Inr beta_x" "lstsq E Z (Fin y) = Inr beta_y"
    and "least_squares T Z x beta_x" "least_squares T Z y beta_y"
    and "length x = T" "length y = T"
    and "least_squares T Z' x ref_x" "least_squares T Z' y ref_y" "set Z' = set Z"
  shows "partial_corr E T (Fin x) (Fin y) Z
       = Inr (pearsonr E (Fin (fit_residual T Z' x ref_x)) (Fin (fit_residual T Z' y ref_y)))"
proof -
  have "Z_dot T Z beta_x = Z_dot T Z' ref_x" "Z_dot T Z beta_y = Z_dot T Z' ref_y"
    using assms by (auto intro: least_squares_fit_unique)
  with residual_fit [OF assms(5), of Z' ref_x] residual_fit [OF assms(6), of Z' ref_y]
  have "residual (Fin x) (Z_dot T Z beta_x) = Fin (fit_residual T Z' x ref_x)"
       "residual (Fin y) (Z_dot T Z beta_y) = Fin (fit_residual T Z' y ref_y)"
    by (simp_all del: residual.simps)
  with assms(1,2) show ?thesis
    by (simp add: partial_corr_def del: residual.simps)
qed

text \<open>
  Claim C8. Take a solver that returns least-squares coefficients for the target and for
  the candidate series. Then the partial-correlation score is the Pearson correlation of
  the residuals of a reference regression of the two series on the same columns, whatever
  solution the reference picked and in whatever order it was given the columns. A
  coefficient vector is a least-squares solution exactly if no other vector of its length
  has a smaller sum of squared residuals. In partial mode the columns that a candidate is
  scored against are the mean series of all the other networks.
\<close>

theorem partial_corr_reference_regression:
  "(lstsq E Z (Fin x) = Inr beta_x \<and> lstsq E Z (Fin y) = Inr beta_y
      \<and> least_squares T Z x beta_x \<and> least_squares T Z y beta_y
      \<and> length x = T \<and> length y = T
      \<and> least_squares T Z' x ref_x \<and> least_squares T Z' y ref_y \<and> set Z' = set Z
    \<longrightarrow> partial_corr E T (Fin x) (Fin y) Z
          = Inr (pearsonr E (Fin (fit_residual T Z' x ref_x))
                            (Fin (fit_residual T Z' y ref_y))))
   \<and> (least_squares T Z x beta \<longleftrightarrow>
        length beta = length Z
        \<and> (\<forall>beta'. length beta' = length Z \<longrightarrow>
              sum_sq_residual T Z x beta \<le> sum_sq_residual T Z x beta'))
   \<and> (calc_network_meants sampling_meants d = Inr nm \<longrightarrow>
        (\<exists>Zn. other_network_means sampling_meants d network = Inr Zn
           \<and> score_vertex E True func_data meants (Some nm) network v seed_corrs
               = (if v < length (mrows func_data)
                  then (case partial_corr E (ncols func_data) meants
                               (Fin (mrows func_data ! v)) Zn of
                          Inl e \<Rightarrow> Inl e
                        | Inr r \<Rightarrow> Inr (seed_corrs[v := r]))
                  else Inl IndexError)))"
proof (intro conjI impI)
  assume "lstsq E Z (Fin x) = Inr beta_x \<and> lstsq E Z (Fin y) = Inr beta_y
      \<and> least_squares T Z x beta_x \<and> least_squares T Z y beta_y
      \<and> length x = T \<and> length y = T
      \<and> least_squares T Z' x ref_x \<and> least_squares T Z' y ref_y \<and> set Z' = set Z"
  then show "partial_corr E T (Fin x) (Fin y) Z
          = Inr (pearsonr E (Fin (fit_residual T Z' x ref_x))
                            (Fin (fit_residual T Z' y ref_y)))"
    using partial_corr_reference [of E Z x beta_x y beta_y T Z' ref_x ref_y] by blast
next
  show "least_squares T Z x beta \<longleftrightarrow>
        length beta = length Z
        \<and> (\<forall>beta'. length beta' = length Z \<longrightarrow>
              sum_sq_residual T Z x beta \<le> sum_sq_residual T Z x beta')"
    by (rule least_squares_iff_minimal)
next
  assume "calc_network_meants sampling_meants d = Inr nm"
  from other_network_means_eq [OF this, of network]
  show "\<exists>Zn. other_network_means sampling_meants d network = Inr Zn
           \<and> score_vertex E True func_data meants (Some nm) network v seed_corrs
               = (if v < length (mrows func_data)
                  then (case partial_corr E (ncols func_data) meants
                               (Fin (mrows func_data ! v)) Zn of
                          Inl e \<Rightarrow> Inl e
                        | Inr r \<Rightarrow> Inr (seed_corrs[v := r]))
                  else Inl IndexError)"
    by (simp add: score_vertex_def)
qed

theorem partial_corr_reference_regression_witness:
  "lstsq net_env [ts_vis, ts_mot] (Fin ts_dmn) = Inr [1, 2]
   \<and> lstsq net_env [ts_vis, ts_mot] (Fin ts_cand) = Inr [2, 1]
   \<and> least_squares 4 [ts_vis, ts_mot] ts_dmn [1, 2]
   \<and> least_squares 4 [ts_vis, ts_mot] ts_cand [2, 1]
   \<and> least_squares 4 [ts_mot, ts_vis] ts_dmn [2, 1]
   \<and> least_squares 4 [ts_mot, ts_vis] ts_cand [1, 2]
   \<and> fit_residual 4 [ts_mot, ts_vis] ts_dmn [2, 1] = [0, 0, 2, 0]
   \<and> fit_residual 4 [ts_mot, ts_vis] ts_cand [1, 2] = [1, 1, 1, -1]
   \<and> partial_corr net_env 4 (Fin ts_dmn) (Fin ts_cand) [ts_vis, ts_mot] = Inr (Score (1/3))
   \<and> np_corrcoef net_env (Fin ts_dmn) ts_cand = Score (-1/2)
   \<and> sum_sq_residual 4 [ts_vis, ts_mot] ts_dmn [1, 2] = 4
   \<and> sum_sq_residual 4 [ts_vis, ts_mot] ts_dmn [0, 0] = 18
   \<and> sum_sq_residual 4 [ts_vis, ts_mot] ts_dmn [1, 2]
        \<le> sum_sq_residual 4 [ts_vis, ts_mot] ts_dmn [0, 0]
   \<and> calc_network_meants net_meants net_seeds = Inr net_columns
   \<and> other_network_means net_meants net_seeds ''DMN'' = Inr [ts_vis, ts_mot]
   \<and> score_vertex net_env True net_func (Fin ts_dmn) (Some net_columns) ''DMN'' 0
        [Score (-1), Score (-1), Score (-1), Score (-1), Score (-1), Score (-1)]
        = Inr [Score (1/3), Score (-1), Score (-1), Score (-1), Score (-1), Score (-1)]"
proof -
  note inst = partial_corr_reference_regression
    [where E = net_env and T = 4 and Z = "[ts_vis, ts_mot]" and Z' = "[ts_mot, ts_vis]"
       and x = ts_dmn and y = ts_cand and beta_x = "[1, 2]" and beta_y = "[2, 1]"
       and ref_x = "[2, 1]" and ref_y = "[1, 2]" and beta = "[1, 2]"
       and sampling_meants = net_meants and d = net_seeds and nm = net_columns
       and network = "''DMN''" and func_data = net_func and meants = "Fin ts_dmn" and v = 0
       and seed_corrs = "[Score (-1), Score (-1), Score (-1), Score (-1), Score (-1), Score (-1)]"]
  have len: "length ts_dmn = 4" "length ts_cand = 4" "set [ts_mot, ts_vis] = set [ts_vis, ts_mot]"
    by (auto simp: net_series)
  from inst net_lstsq net_least_squares len
  have "partial_corr net_env 4 (Fin ts_dmn) (Fin ts_cand) [ts_vis, ts_mot]
      = Inr (pearsonr net_env (Fin (fit_residual 4 [ts_mot, ts_vis] ts_dmn [2, 1]))
                              (Fin (fit_residual 4 [ts_mot, ts_vis] ts_cand [1, 2])))"
    by blast
  then have pc: "partial_corr net_env 4 (Fin ts_dmn) (Fin ts_cand) [ts_vis, ts_mot]
      = Inr (Score (1/3))"
    by (simp only: net_residuals net_pearsonr)
  have sq: "sqrt (2/3) * sqrt (2/3) = 2/3"
    by simp
  have raw: "np_corrcoef net_env (Fin ts_dmn) ts_cand = Score (-1/2)"
    by (simp add: net_env_def line_env_def cov_def series_mean_def net_series mult.assoc sq
        del: real_sqrt_mult_self)
  have sse: "sum_sq_residual 4 [ts_vis, ts_mot] ts_dmn [1, 2] = 4"
      "sum_sq_residual 4 [ts_vis, ts_mot] ts_dmn [0, 0] = 18"
    by (simp_all add: sum_sq_residual_def net_residuals series_dot_def upt_0_4)
       (simp_all add: net_series)
  from inst net_least_squares(1)
  have le: "sum_sq_residual 4 [ts_vis, ts_mot] ts_dmn [1, 2]
        \<le> sum_sq_residual 4 [ts_vis, ts_mot] ts_dmn [0, 0]"
    by simp
  from inst net_network_meants obtain Zn where
        zn: "other_network_means net_meants net_seeds ''DMN'' = Inr Zn"
    and sc: "score_vertex net_env True net_func (Fin ts_dmn) (Some net_columns) ''DMN'' 0
        [Score (-1), Score (-1), Score (-1), Score (-1), Score (-1), Score (-1)]
      = (if 0 < length (mrows net_func)
         then (case partial_corr net_env (ncols net_func) (Fin ts_dmn)
                      (Fin (mrows net_func ! 0)) Zn of
                 Inl e \<Rightarrow> Inl e
               | Inr r \<Rightarrow> Inr ([Score (-1), Score (-1), Score (-1), Score (-1), Score (-1),
                                 Score (-1)][0 := r]))
         else Inl IndexError)"
    by blast
  have onm: "other_network_means net_meants net_seeds ''DMN'' = Inr [ts_vis, ts_mot]"
    by (simp add: other_network_means_def pd_unique_def net_seeds_def seed_row_def
        network_labels_def take_rows_def py_index_def net_meants_def mean_axis0_def
        net_series upt_0_4)
  with zn have "Zn = [ts_vis, ts_mot]" by simp
  with sc pc have score: "score_vertex net_env True net_func (Fin ts_dmn) (Some net_columns)
        ''DMN'' 0 [Score (-1), Score (-1), Score (-1), Score (-1), Score (-1), Score (-1)]
        = Inr [Score (1/3), Score (-1), Score (-1), Score (-1), Score (-1), Score (-1)]"
    by (simp add: net_func_def)
  from net_lstsq net_least_squares net_residuals(3,4) pc raw sse le net_network_meants onm score
  show ?thesis by blast
qed

end
